(* ===== verification/Prelude.thy ===== *)
theory Prelude
  imports Complex_Main
begin

text \<open>
  Shared vocabulary of the development.  The backend keeps all of its state in
  relational tables accessed through SQLAlchemy; every table is modelled as a
  list of rows in primary-key order (the order in which InnoDB returns rows of a
  query without \<open>ORDER BY\<close>, and the order of auto-increment insertion).  The
  query idioms of the source become the list functions below:
  \<^item> \<open>query(T).filter(P).first()\<close> is \<open>find P\<close>;
  \<^item> \<open>query(T).filter(P).order_by(desc(T.id)).first()\<close> is \<open>last_where P\<close>;
  \<^item> \<open>query(T).filter(P).update(...)\<close> is \<open>update_where P f\<close>;
  \<^item> \<open>query(T).filter(P).delete()\<close> is \<open>delete_where P\<close>;
  \<^item> \<open>query(func.sum(c)).filter(P).scalar()\<close> is \<open>sql_sum\<close>, \<open>None\<close> being SQL NULL.
  Monetary values are Python \<open>Decimal\<close>s; the operations the source applies to them
  (\<open>+\<close>, \<open>-\<close>, \<open>*\<close>, division by 100) are exact in decimal arithmetic, so they are
  modelled as \<open>rat\<close>.  A value written into a \<open>Numeric(18, 4)\<close> column is rounded
  to four decimals, half away from zero, by the database: \<open>numeric_18_4\<close>.
\<close>

type_synonym money = rat

named_theorems table_simps "rewrite rules for the table idioms"

subsection \<open>Table idioms\<close>

definition last_where :: "('a \<Rightarrow> bool) \<Rightarrow> 'a list \<Rightarrow> 'a option" where
  "last_where P xs = find P (rev xs)"

definition update_where :: "('a \<Rightarrow> bool) \<Rightarrow> ('a \<Rightarrow> 'a) \<Rightarrow> 'a list \<Rightarrow> 'a list" where
  "update_where P f xs = map (\<lambda>r. if P r then f r else r) xs"

definition delete_where :: "('a \<Rightarrow> bool) \<Rightarrow> 'a list \<Rightarrow> 'a list" where
  "delete_where P xs = filter (\<lambda>r. \<not> P r) xs"

definition sql_count :: "('a \<Rightarrow> bool) \<Rightarrow> 'a list \<Rightarrow> nat" where
  "sql_count P xs = length (filter P xs)"

definition sql_sum :: "('a \<Rightarrow> int) \<Rightarrow> 'a list \<Rightarrow> int option" where
  "sql_sum f xs = (if xs = [] then None else Some (sum_list (map f xs)))"

subsection \<open>Decimal columns\<close>

definition numeric_18_4 :: "rat \<Rightarrow> rat" where
  "numeric_18_4 x =
     (if 0 \<le> x then of_int \<lfloor>x * 10000 + 1 / 2\<rfloor> / 10000
      else - (of_int \<lfloor>- x * 10000 + 1 / 2\<rfloor> / 10000))"

lemma floor_numeral_div_numeral_rat [simp]:
  "\<lfloor>(numeral a / numeral b :: rat)\<rfloor> = numeral a div numeral b"
  using floor_divide_of_int_eq [of "numeral a" "numeral b", where 'a = rat] by simp

lemma floor_of_int_plus_half: "\<lfloor>(of_int k :: rat) + 1 / 2\<rfloor> = k"
  by (subst floor_eq_iff) simp

lemma numeric_18_4_of_int_scaled [table_simps]:
  "numeric_18_4 (of_int k / 10000) = of_int k / 10000"
proof (cases "0 \<le> k")
  case True
  then show ?thesis by (simp add: numeric_18_4_def floor_of_int_plus_half)
next
  case False
  have "\<lfloor>- (of_int k / 10000 :: rat) * 10000 + 1 / 2\<rfloor> = - k"
    using floor_of_int_plus_half [of "- k"] by simp
  with False show ?thesis by (simp add: numeric_18_4_def)
qed

lemma numeric_18_4_scaled: "\<exists>k. numeric_18_4 x = of_int k / 10000"
proof (cases "0 \<le> x")
  case True then show ?thesis by (auto simp: numeric_18_4_def)
next
  case False
  then have "numeric_18_4 x = of_int (- \<lfloor>- x * 10000 + 1 / 2\<rfloor>) / 10000"
    by (simp add: numeric_18_4_def)
  then show ?thesis by blast
qed

lemma numeric_18_4_idem: "numeric_18_4 (numeric_18_4 x) = numeric_18_4 x"
proof -
  obtain k where "numeric_18_4 x = of_int k / 10000" using numeric_18_4_scaled by blast
  then show ?thesis by (simp only: numeric_18_4_of_int_scaled)
qed

lemma rounding_step_error:
  fixes y :: rat
  assumes "of_int f \<le> y * 10000 + 1 / 2" and "y * 10000 + 1 / 2 < of_int f + 1"
  shows "\<bar>of_int f / 10000 - y\<bar> \<le> 1 / 20000"
proof -
  have "of_int f - y * 10000 \<le> 1 / 2" and "- (of_int f - y * 10000) \<le> 1 / 2"
    using assms by linarith+
  then have h: "\<bar>of_int f - y * 10000\<bar> \<le> 1 / 2"
    by (simp only: abs_le_iff)
  have eq: "of_int f / 10000 - y = (of_int f - y * 10000) / 10000"
    by (simp add: field_simps)
  have "\<bar>of_int f / 10000 - y\<bar> = \<bar>of_int f - y * 10000\<bar> / 10000"
    by (simp only: eq abs_divide)
  also have "\<dots> \<le> (1 / 2) / 10000"
    using h by (rule divide_right_mono) simp
  finally show ?thesis by simp
qed

lemma numeric_18_4_error: "\<bar>numeric_18_4 x - x\<bar> \<le> 1 / 20000"
proof (cases "0 \<le> x")
  case True
  have "\<bar>of_int \<lfloor>x * 10000 + 1 / 2\<rfloor> / 10000 - x\<bar> \<le> 1 / 20000"
    by (rule rounding_step_error) linarith+
  with True show ?thesis by (simp add: numeric_18_4_def)
next
  case False
  let ?a = "of_int \<lfloor>- x * 10000 + 1 / 2\<rfloor> / (10000 :: rat)"
  have "\<bar>?a - (- x)\<bar> \<le> 1 / 20000"
    by (rule rounding_step_error) linarith+
  moreover have "- ?a - x = - (?a - (- x))" by simp
  ultimately have "\<bar>- ?a - x\<bar> \<le> 1 / 20000" by (simp only: abs_minus_cancel)
  with False show ?thesis by (simp add: numeric_18_4_def)
qed

lemma numeric_18_4_sum_error:
  "\<bar>numeric_18_4 (a + t + h - d) - (a + numeric_18_4 t + numeric_18_4 h - numeric_18_4 d)\<bar>
     \<le> 1 / 5000"
proof -
  have e1: "\<bar>numeric_18_4 (a + t + h - d) - (a + t + h - d)\<bar> \<le> 1 / 20000"
    and e2: "\<bar>numeric_18_4 t - t\<bar> \<le> 1 / 20000"
    and e3: "\<bar>numeric_18_4 h - h\<bar> \<le> 1 / 20000"
    and e4: "\<bar>numeric_18_4 d - d\<bar> \<le> 1 / 20000"
    by (rule numeric_18_4_error)+
  show ?thesis
    using e1 [unfolded abs_le_iff] e2 [unfolded abs_le_iff] e3 [unfolded abs_le_iff]
      e4 [unfolded abs_le_iff]
    unfolding abs_le_iff by linarith
qed

subsection \<open>Python's \<open>str\<close> of an integer\<close>

fun nat_digits :: "nat \<Rightarrow> string" where
  "nat_digits n =
     (if n < 10 then [char_of (48 + n)] else nat_digits (n div 10) @ [char_of (48 + n mod 10)])"

declare nat_digits.simps [simp del]

definition py_str_int :: "int \<Rightarrow> string" where
  "py_str_int i = (if i < 0 then CHR ''-'' # nat_digits (nat (- i)) else nat_digits (nat i))"

subsection \<open>Inserting a row under an auto-increment key\<close>

text \<open>
  \<open>db.add(T(...))\<close> for a table without a counter of the model: the row gets the
  auto-increment value one above the greatest id of the table (what InnoDB assigns
  when no row above it was deleted; 1 for an empty table).
\<close>

definition next_key :: "nat list \<Rightarrow> nat" where
  "next_key ks = Suc (fold max ks 0)"

definition insert_row :: "('a \<Rightarrow> nat) \<Rightarrow> (nat \<Rightarrow> 'a) \<Rightarrow> 'a list \<Rightarrow> 'a list" where
  "insert_row key mk xs = xs @ [mk (next_key (map key xs))]"

subsection \<open>Lemmas on the idioms\<close>

lemma find_Some_mem: "find P xs = Some x \<Longrightarrow> x \<in> set xs \<and> P x"
  by (induction xs) (auto split: if_splits)

lemma last_where_Some [table_simps]:
  "last_where P xs = Some x \<Longrightarrow> x \<in> set xs \<and> P x"
  unfolding last_where_def by (drule find_Some_mem) simp

lemma last_where_None [table_simps]:
  "last_where P xs = None \<longleftrightarrow> (\<forall>x \<in> set xs. \<not> P x)"
  by (auto simp: last_where_def find_None_iff)

lemma last_where_append_single [table_simps]:
  "last_where P (xs @ [x]) = (if P x then Some x else last_where P xs)"
  by (simp add: last_where_def)

lemma set_update_where [table_simps]:
  "set (update_where P f xs) = {r \<in> set xs. \<not> P r} \<union> f ` {r \<in> set xs. P r}"
  by (auto simp: update_where_def)

lemma length_update_where [simp]: "length (update_where P f xs) = length xs"
  by (simp add: update_where_def)

lemma update_where_append [table_simps]:
  "update_where P f (xs @ ys) = update_where P f xs @ update_where P f ys"
  by (simp add: update_where_def)

lemma update_where_id [table_simps]:
  "(\<forall>r \<in> set xs. \<not> P r) \<Longrightarrow> update_where P f xs = xs"
  by (induction xs) (auto simp: update_where_def)

lemma map_update_where_frame [table_simps]:
  "(\<And>r. P r \<Longrightarrow> g (f r) = g r) \<Longrightarrow> map g (update_where P f xs) = map g xs"
  by (induction xs) (auto simp: update_where_def)

lemma map_filter_update_where_frame [table_simps]:
  "(\<And>r. P r \<Longrightarrow> Q (f r) = Q r) \<Longrightarrow> (\<And>r. P r \<Longrightarrow> g (f r) = g r) \<Longrightarrow>
   map g (filter Q (update_where P f xs)) = map g (filter Q xs)"
  by (induction xs) (auto simp: update_where_def)

lemma set_delete_where [table_simps]:
  "set (delete_where P xs) = {r \<in> set xs. \<not> P r}"
  by (auto simp: delete_where_def)

lemma find_delete_where_self [table_simps]: "find P (delete_where P xs) = None"
  by (induction xs) (simp_all add: delete_where_def)

lemma find_delete_where_frame [table_simps]:
  "(\<And>x. P x \<Longrightarrow> \<not> Q x) \<Longrightarrow> find P (delete_where Q xs) = find P xs"
  by (induction xs) (auto simp: delete_where_def)

lemma filter_delete_where_self [table_simps]: "filter P (delete_where P xs) = []"
  by (simp add: delete_where_def filter_empty_conv)

lemma filter_delete_where_frame [table_simps]:
  "(\<And>x. P x \<Longrightarrow> \<not> Q x) \<Longrightarrow> filter P (delete_where Q xs) = filter P xs"
  by (induction xs) (auto simp: delete_where_def)

lemma sum_list_map_update_where:
  fixes g :: "'a \<Rightarrow> 'b::ab_group_add"
  shows "sum_list (map g (update_where P f xs)) =
    sum_list (map g xs) + sum_list (map (\<lambda>r. g (f r) - g r) (filter P xs))"
  by (induction xs) (auto simp: update_where_def algebra_simps)

lemma filter_update_where [table_simps]:
  "(\<And>r. P r \<Longrightarrow> Q (f r) = Q r) \<Longrightarrow>
   filter Q (update_where P f xs) = update_where P f (filter Q xs)"
  by (induction xs) (auto simp: update_where_def)

lemma find_append: "find P (xs @ ys) = (case find P xs of None \<Rightarrow> find P ys | Some x \<Rightarrow> Some x)"
  by (induction xs) auto

lemma update_where_False [simp]: "update_where (\<lambda>r. False) f xs = xs"
  by (simp add: update_where_def)

lemma find_update_where_keep:
  "(\<And>r. P r \<Longrightarrow> Q (f r) = Q r) \<Longrightarrow>
   find Q (update_where P f xs) = map_option (\<lambda>r. if P r then f r else r) (find Q xs)"
  by (induction xs) (auto simp: update_where_def)

lemma find_update_where [table_simps]:
  "(\<And>r. P r \<Longrightarrow> P (f r)) \<Longrightarrow> find P (update_where P f xs) = map_option f (find P xs)"
  by (induction xs) (auto simp: update_where_def)

lemma find_update_where_frame [table_simps]:
  "(\<And>r. Q (f r) = Q r) \<Longrightarrow> (\<And>r. h (f r) = h r) \<Longrightarrow>
   map_option h (find Q (update_where P f xs)) = map_option h (find Q xs)"
  by (induction xs) (auto simp: update_where_def)

lemma filter_update_where_drop [table_simps]:
  "(\<And>r. P r \<Longrightarrow> \<not> Q (f r)) \<Longrightarrow>
   filter Q (update_where P f xs) = filter (\<lambda>r. Q r \<and> \<not> P r) xs"
  by (induction xs) (auto simp: update_where_def)

lemma distinct_map_filter_mono:
  assumes "distinct (map g (filter Q xs))" and "\<And>r. R r \<Longrightarrow> Q r"
  shows "distinct (map g (filter R xs))"
proof -
  have "filter R xs = filter R (filter Q xs)"
    using assms(2) by (induction xs) auto
  with assms(1) show ?thesis by (simp only: distinct_map_filter)
qed

lemma filter_swap: "filter P (filter Q xs) = filter Q (filter P xs)"
  by (induction xs) auto

lemma find_key_distinct:
  "distinct (map key xs) \<Longrightarrow> x \<in> set xs \<Longrightarrow> find (\<lambda>y. key y = key x) xs = Some x"
  by (induction xs) (auto simp: image_iff)

lemma filter_key_distinct:
  "distinct (map key xs) \<Longrightarrow> x \<in> set xs \<Longrightarrow> filter (\<lambda>y. key y = key x) xs = [x]"
proof (induction xs)
  case Nil
  then show ?case by simp
next
  case (Cons y ys)
  show ?case
  proof (cases "y = x")
    case True
    with Cons.prems have "\<forall>z \<in> set ys. key z \<noteq> key x" by (auto simp: image_iff)
    with True show ?thesis by (simp add: filter_empty_conv)
  next
    case False
    with Cons.prems have "x \<in> set ys" and "key y \<noteq> key x" by (auto simp: image_iff)
    with Cons show ?thesis by simp
  qed
qed

lemma sql_sum_Some [table_simps]:
  "xs \<noteq> [] \<Longrightarrow> sql_sum f xs = Some (sum_list (map f xs))"
  by (simp add: sql_sum_def)

lemma sql_count_le [simp]: "sql_count P xs \<le> length xs"
  by (simp add: sql_count_def)

subsection \<open>Updating one row under a uniqueness constraint\<close>

lemma map_filter_id_map: "List.map_filter id (map g xs) = List.map_filter g xs"
  by (induction xs) (simp_all add: map_filter_simps split: option.splits)

lemma map_filter_Some: "List.map_filter (\<lambda>x. Some (g x)) xs = map g xs"
  by (induction xs) (simp_all add: map_filter_simps)

lemma map_filter_append: "List.map_filter f (xs @ ys) = List.map_filter f xs @ List.map_filter f ys"
  by (induction xs) (simp_all split: option.splits)

lemma set_map_filter_eq: "set (List.map_filter g xs) = {b. \<exists>x \<in> set xs. g x = Some b}"
  by (induction xs) (auto simp: map_filter_simps split: option.splits)

lemma distinct_map_eq: "distinct (map k xs) \<Longrightarrow> x \<in> set xs \<Longrightarrow> y \<in> set xs \<Longrightarrow> k x = k y \<Longrightarrow> x = y"
  by (auto simp: distinct_map dest: inj_onD)

lemma distinct_map_filter_update_where:
  assumes "distinct xs" and "distinct (List.map_filter g xs)"
    and "\<And>x y. x \<in> set xs \<Longrightarrow> y \<in> set xs \<Longrightarrow> P x \<Longrightarrow> P y \<Longrightarrow> x = y"
    and "\<And>x y b. x \<in> set xs \<Longrightarrow> y \<in> set xs \<Longrightarrow> P x \<Longrightarrow> \<not> P y \<Longrightarrow> g (f x) = Some b \<Longrightarrow> g y \<noteq> Some b"
  shows "distinct (List.map_filter g (update_where P f xs))"
  using assms
proof (induction xs)
  case Nil then show ?case by (simp add: update_where_def)
next
  case (Cons x xs)
  have ih: "distinct (List.map_filter g (update_where P f xs))"
  proof (rule Cons.IH)
    show "distinct xs" using Cons.prems(1) by simp
    show "distinct (List.map_filter g xs)"
      using Cons.prems(2) by (simp add: map_filter_simps split: option.splits)
  next
    fix u v assume "u \<in> set xs" "v \<in> set xs" "P u" "P v"
    then show "u = v" using Cons.prems(3) by simp
  next
    fix u v b assume "u \<in> set xs" "v \<in> set xs" "P u" "\<not> P v" "g (f u) = Some b"
    then show "g v \<noteq> Some b" using Cons.prems(4) [of u v b] by simp
  qed
  show ?case
  proof (cases "P x")
    case True
    then have "\<forall>y \<in> set xs. \<not> P y" using Cons.prems(1,3) by force
    then have r: "update_where P f xs = xs" by (rule update_where_id)
    have "\<forall>b. g (f x) = Some b \<longrightarrow> b \<notin> set (List.map_filter g xs)"
      using Cons.prems(4) True \<open>\<forall>y \<in> set xs. \<not> P y\<close> by (fastforce simp: set_map_filter_eq)
    with True r ih show ?thesis
      by (auto simp: update_where_def map_filter_simps split: option.splits)
  next
    case False
    have "\<forall>b. g x = Some b \<longrightarrow> b \<notin> set (List.map_filter g (update_where P f xs))"
    proof (intro allI impI)
      fix b assume gx: "g x = Some b"
      have "b \<notin> set (List.map_filter g xs)" using Cons.prems(2) gx by (simp add: map_filter_simps)
      moreover have "\<forall>y \<in> set xs. P y \<longrightarrow> g (f y) \<noteq> Some b"
        using Cons.prems(4) False gx by fastforce
      ultimately show "b \<notin> set (List.map_filter g (update_where P f xs))"
        by (auto simp: set_map_filter_eq set_update_where)
    qed
    with False ih show ?thesis
      by (auto simp: update_where_def map_filter_simps split: option.splits)
  qed
qed

subsection \<open>Auto-increment keys and loops over rows\<close>

lemma fold_max_mono: "m \<le> fold max ks (m :: nat)"
  by (induction ks arbitrary: m) (auto intro: order_trans [OF max.cobounded2])

lemma fold_max_ge: "k \<in> set ks \<Longrightarrow> k \<le> fold max ks (m :: nat)"
  by (induction ks arbitrary: m) (auto intro: order_trans [OF _ fold_max_mono])

lemma next_key_fresh: "k \<in> set ks \<Longrightarrow> k < next_key ks"
  unfolding next_key_def using fold_max_ge by (simp add: less_Suc_eq_le)

lemma next_key_notin [simp]: "next_key ks \<notin> set ks"
  using next_key_fresh by blast

lemma insert_row_distinct [simp]:
  "(\<And>k. key (mk k) = k) \<Longrightarrow> distinct (map key (insert_row key mk xs)) = distinct (map key xs)"
  using next_key_notin [of "map key xs"] by (simp add: insert_row_def)

lemma set_insert_row: "set (insert_row key mk xs) = insert (mk (next_key (map key xs))) (set xs)"
  by (simp add: insert_row_def)

lemma fold_keeps: "(\<And>x s. x \<in> set xs \<Longrightarrow> g (f x s) = g s) \<Longrightarrow> g (fold f xs s) = g s"
  by (induction xs arbitrary: s) simp_all

lemma fold_invariant_on: "(\<And>x s. x \<in> set xs \<Longrightarrow> P s \<Longrightarrow> P (f x s)) \<Longrightarrow> P s \<Longrightarrow> P (fold f xs s)"
  by (induction xs arbitrary: s) simp_all

end
