(* ===== verification/Store.thy ===== *)
theory Store
  imports Prelude
begin

text \<open>
  The data model of \<open>src/backend/src/model.py\<close> restricted to the tables the
  storefront's request handlers and the start-up seeder read or write, and the request bodies of
  \<open>src/backend/src/schema.py\<close> those handlers take.  Each SQLAlchemy class is a
  record with the columns the handlers use (timestamps and the row \<open>status\<close> of
  tables whose status no handler reads are left out); the whole database is the
  record \<open>db\<close>, one list per table in primary-key order, with the next
  auto-increment value of each table whose rows the handlers insert.
  Errors are the values of \<open>error\<close>: a Python exception raised by a handler aborts
  the request before its final \<open>commit\<close>, so the database is left as it was.
\<close>

subsection \<open>Rows\<close>

text \<open>
  A product's \<open>published_date\<close> is a timestamp (a number of clock ticks, NULL as
  \<open>None\<close>), compared with the parameter \<open>now\<close> for \<open>func.now()\<close>.
\<close>

record product =
  prod_id :: nat
  prod_name :: string
  price :: money
  total_order :: int
  total_rating :: int
  prod_brand_id :: "nat option"
  prod_image :: "string option"
  sku :: string
  published_date :: "int option"
  prod_details :: string
  prod_description :: string
  prod_status :: nat

record category =
  cat_id :: nat
  cat_name :: string
  cat_image :: "string option"
  cat_status :: nat
  displayed :: nat

record brand =
  br_id :: nat
  br_name :: string

record newsletter =
  nl_id :: nat
  ip_address :: string
  nl_email :: string
  nl_status :: nat

record size_row =
  sz_id :: nat
  sz_name :: string
  sz_status :: nat

record colour_row =
  col_id :: nat
  col_code :: string
  col_name :: string
  col_status :: nat

text \<open>\<open>Payment\<close>: the payment methods a checkout offers.\<close>

record payment =
  pay_id :: nat
  pay_name :: string
  pay_status :: nat

record product_image =
  pi_id :: nat
  pi_product_id :: nat
  pi_path :: string
  pi_sort :: nat

record inventory =
  inv_id :: nat
  product_id :: nat
  size_id :: nat
  colour_id :: nat
  stock :: int

record order =
  ord_id :: nat
  user_id :: nat
  payment_id :: "nat option"
  invoice_number :: string
  total_item :: "int option"
  subtotal :: money
  total_discount :: money
  total_taxes :: money
  total_shipment :: money
  total_paid :: money
  ord_status :: nat

record order_detail =
  det_id :: nat
  order_id :: nat
  inventory_id :: nat
  det_price :: money
  qty :: int
  det_total :: money

record order_billing =
  bill_id :: nat
  bill_order_id :: nat
  bill_name :: string
  bill_description :: string

record setting =
  key_name :: string
  key_value :: money

record activity =
  act_user_id :: nat
  subject :: string
  event :: string
  act_description :: string

record product_review =
  rev_id :: nat
  rev_product_id :: nat
  rev_user_id :: nat
  rating :: int
  review_text :: string

text \<open>
  A password column holds a bcrypt hash made by passlib's \<open>CryptContext\<close>.  The model
  keeps the hash abstract as \<open>Bcrypt p\<close>, the hash of the password \<open>p\<close>: salting is
  not modelled, and \<open>verify q (hash p)\<close> holds exactly when \<open>q = p\<close>.
\<close>

datatype pw_hash = Bcrypt string

record user =
  usr_id :: nat
  email :: string
  phone :: "string option"
  password :: "pw_hash option"
  image :: "string option"
  first_name :: "string option"
  last_name :: "string option"
  gender :: "string option"
  city :: "string option"
  zip_code :: "string option"
  country :: "string option"
  address :: "string option"
  usr_status :: nat

record authentication =
  auth_id :: nat
  auth_user_id :: nat
  auth_type :: string
  credential :: string
  token :: string
  auth_status :: nat

text \<open>The association tables \<open>products_wishlists\<close>, \<open>orders_carts\<close> and \<open>products_categories\<close>
  hold pairs of ids (product and user, order and product, product and category).\<close>

record db =
  products :: "product list"
  inventories :: "inventory list"
  orders :: "order list"
  details :: "order_detail list"
  billings :: "order_billing list"
  settings :: "setting list"
  wishlists :: "(nat \<times> nat) list"
  orders_carts :: "(nat \<times> nat) list"
  activities :: "activity list"
  reviews :: "product_review list"
  next_order :: nat
  next_detail :: nat
  next_billing :: nat
  next_review :: nat
  users :: "user list"
  authentications :: "authentication list"
  next_user :: nat
  next_auth :: nat
  categories :: "category list"
  brands :: "brand list"
  products_categories :: "(nat \<times> nat) list"
  newsletters :: "newsletter list"
  next_newsletter :: nat
  sizes :: "size_row list"
  colours :: "colour_row list"
  products_images :: "product_image list"
  payments :: "payment list"

subsection \<open>Request bodies\<close>

record cart_form =
  form_size_id :: nat
  form_colour_id :: nat
  form_qty :: int

record checkout_form =
  form_payment_id :: nat
  form_email :: string
  form_phone :: string
  form_first_name :: string
  form_last_name :: string
  form_gender :: string
  form_address :: "string option"
  form_country :: "string option"
  form_city :: "string option"
  form_zip_code :: "string option"
  form_notes :: "string option"

subsection \<open>Errors\<close>

text \<open>
  \<open>AttributeError\<close>: an attribute of \<open>None\<close> is read (a \<open>.first()\<close> that found
  nothing is dereferenced); \<open>TypeError\<close>: arithmetic on a NULL column;
  \<open>DecimalError\<close>: a \<open>Decimal\<close> division by zero; \<open>NotNullViolation\<close>: the
  database refuses NULL in a \<open>nullable=False\<close> column; \<open>SqlError\<close>: a malformed
  query (a negative \<open>LIMIT\<close> or \<open>OFFSET\<close>); \<open>RangeError\<close>: MySQL (strict mode)
  refuses a value outside the range of an \<open>UNSIGNED\<close> column or a string longer than
  its \<open>VARCHAR\<close>; \<open>IndexError\<close> and \<open>ValueError\<close>: Python's, for an index into
  an empty list and for \<open>int()\<close> of a string that is not a number;
  \<open>IntegrityError\<close>: a row that repeats the value of a \<open>unique\<close> column.  All of them end the
  request with an HTTP 500 and roll the session back.  \<open>ValidationError\<close> is the
  HTTP 422 with which FastAPI refuses a request body that fails its pydantic schema,
  before the handler runs.
\<close>

datatype error = AttributeError | TypeError | DecimalError | NotNullViolation | SqlError
  | RangeError | ValidationError | IndexError | ValueError | IntegrityError

text \<open>A handler that answers with an explicit HTTP 400 returns \<open>BadRequest\<close>, one that
  answers HTTP 401 \<open>Unauthorized\<close>.\<close>

datatype 'a reply = Ok 'a | BadRequest string | Unauthorized string

text \<open>The range of an \<open>INTEGER(unsigned=True)\<close> column (stock, order counts, ratings):
  MySQL in strict mode refuses a value outside it (\<open>RangeError\<close>).\<close>

definition unsigned_int_ok :: "int \<Rightarrow> bool" where
  "unsigned_int_ok x \<longleftrightarrow> 0 \<le> x \<and> x < 2 ^ 32"

subsection \<open>Queries shared by the handlers\<close>

text \<open>Order status \<open>0\<close> is a draft (the open cart), \<open>1\<close> a placed order.\<close>

definition is_draft_of :: "nat \<Rightarrow> order \<Rightarrow> bool" where
  "is_draft_of uid r \<longleftrightarrow> ord_status r = 0 \<and> user_id r = uid"

text \<open>The user's open order: the draft with the greatest id.\<close>

definition draft_order :: "nat \<Rightarrow> db \<Rightarrow> order option" where
  "draft_order uid s = last_where (is_draft_of uid) (orders s)"

definition order_lines :: "nat \<Rightarrow> db \<Rightarrow> order_detail list" where
  "order_lines oid s = filter (\<lambda>d. order_id d = oid) (details s)"

definition lines_total :: "nat \<Rightarrow> db \<Rightarrow> money" where
  "lines_total oid s = sum_list (map det_total (order_lines oid s))"

definition find_product :: "nat \<Rightarrow> db \<Rightarrow> product option" where
  "find_product pid s = find (\<lambda>p. prod_id p = pid) (products s)"

definition find_order :: "nat \<Rightarrow> db \<Rightarrow> order option" where
  "find_order oid s = find (\<lambda>r. ord_id r = oid) (orders s)"

definition log_activity :: "nat \<Rightarrow> string \<Rightarrow> string \<Rightarrow> string \<Rightarrow> db \<Rightarrow> db" where
  "log_activity uid subj ev descr s =
     s\<lparr>activities := activities s @
        [\<lparr>act_user_id = uid, subject = subj, event = ev, act_description = descr\<rparr>]\<rparr>"

text \<open>The account tables, which only the handlers of \<open>view_auth.py\<close> and \<open>view_profile.py\<close> write.\<close>

definition accounts :: "db \<Rightarrow> user list \<times> authentication list \<times> nat \<times> nat" where
  "accounts s = (users s, authentications s, next_user s, next_auth s)"

text \<open>A handler that writes only the account tables and the activity log leaves these alone.\<close>

definition shop_unchanged :: "db \<Rightarrow> db \<Rightarrow> bool" where
  "shop_unchanged s s' \<longleftrightarrow>
     products s' = products s \<and> inventories s' = inventories s \<and> orders s' = orders s \<and>
     details s' = details s \<and> billings s' = billings s \<and> settings s' = settings s \<and>
     wishlists s' = wishlists s \<and> orders_carts s' = orders_carts s \<and> reviews s' = reviews s \<and>
     next_order s' = next_order s \<and> next_detail s' = next_detail s \<and>
     next_billing s' = next_billing s \<and> next_review s' = next_review s"

subsection \<open>Integrity of the tables\<close>

text \<open>
  What the handlers keep true between the tables: primary keys are distinct and
  below the next auto-increment value; a user has at most one draft order; an
  order has at most one line per inventory row; every line refers to an existing
  order and inventory row and every inventory row to a product; a draft's item
  count is not NULL.  Each conjunct is executable.
\<close>

definition keys_ok :: "db \<Rightarrow> bool" where
  "keys_ok s \<longleftrightarrow>
     distinct (map ord_id (orders s)) \<and> (\<forall>r \<in> set (orders s). ord_id r < next_order s) \<and>
     distinct (map det_id (details s)) \<and> (\<forall>d \<in> set (details s). det_id d < next_detail s) \<and>
     distinct (map inv_id (inventories s)) \<and> distinct (map prod_id (products s))"

definition single_draft :: "db \<Rightarrow> bool" where
  "single_draft s \<longleftrightarrow> distinct (map user_id (filter (\<lambda>r. ord_status r = 0) (orders s)))"

definition unique_lines :: "db \<Rightarrow> bool" where
  "unique_lines s \<longleftrightarrow> distinct (map (\<lambda>d. (order_id d, inventory_id d)) (details s))"

definition refs_ok :: "db \<Rightarrow> bool" where
  "refs_ok s \<longleftrightarrow>
     set (map order_id (details s)) \<subseteq> set (map ord_id (orders s)) \<and>
     set (map inventory_id (details s)) \<subseteq> set (map inv_id (inventories s)) \<and>
     set (map product_id (inventories s)) \<subseteq> set (map prod_id (products s))"

definition drafts_counted :: "db \<Rightarrow> bool" where
  "drafts_counted s \<longleftrightarrow> (\<forall>r \<in> set (orders s). ord_status r = 0 \<longrightarrow> total_item r \<noteq> None)"

definition db_wf :: "db \<Rightarrow> bool" where
  "db_wf s \<longleftrightarrow> keys_ok s \<and> single_draft s \<and> unique_lines s \<and> refs_ok s \<and> drafts_counted s"

lemma draft_order_Some:
  "draft_order uid s = Some r \<Longrightarrow> r \<in> set (orders s) \<and> ord_status r = 0 \<and> user_id r = uid"
  by (auto simp: draft_order_def is_draft_of_def dest: last_where_Some)

lemma draft_order_None:
  "draft_order uid s = None \<longleftrightarrow> (\<forall>r \<in> set (orders s). \<not> is_draft_of uid r)"
  by (simp add: draft_order_def last_where_None)

lemma draft_unique:
  assumes "single_draft s" and "x \<in> set (orders s)" and "y \<in> set (orders s)"
    and "is_draft_of u x" and "is_draft_of u y"
  shows "x = y"
proof -
  from assms(1) have "inj_on user_id (set (filter (\<lambda>r. ord_status r = 0) (orders s)))"
    by (simp add: single_draft_def distinct_map)
  with assms(2-5) show ?thesis by (auto simp: is_draft_of_def inj_on_def)
qed

lemma find_order_Some: "find_order oid s = Some r \<Longrightarrow> r \<in> set (orders s) \<and> ord_id r = oid"
  unfolding find_order_def by (drule find_Some_mem) simp

lemma find_product_Some: "find_product pid s = Some p \<Longrightarrow> p \<in> set (products s) \<and> prod_id p = pid"
  unfolding find_product_def by (drule find_Some_mem) simp

lemma log_activity_tables [simp]:
  "orders (log_activity u a b c s) = orders s"
  "details (log_activity u a b c s) = details s"
  "inventories (log_activity u a b c s) = inventories s"
  "products (log_activity u a b c s) = products s"
  "billings (log_activity u a b c s) = billings s"
  "settings (log_activity u a b c s) = settings s"
  "wishlists (log_activity u a b c s) = wishlists s"
  "orders_carts (log_activity u a b c s) = orders_carts s"
  "reviews (log_activity u a b c s) = reviews s"
  "next_order (log_activity u a b c s) = next_order s"
  "next_detail (log_activity u a b c s) = next_detail s"
  "next_billing (log_activity u a b c s) = next_billing s"
  "next_review (log_activity u a b c s) = next_review s"
  "users (log_activity u a b c s) = users s"
  "authentications (log_activity u a b c s) = authentications s"
  "next_user (log_activity u a b c s) = next_user s"
  "next_auth (log_activity u a b c s) = next_auth s"
  by (simp_all add: log_activity_def)

lemma accounts_log_activity [simp]: "accounts (log_activity u a b c s) = accounts s"
  by (simp add: accounts_def)

lemma shop_unchanged_refl [simp]: "shop_unchanged s s"
  by (simp add: shop_unchanged_def)

lemma shop_unchanged_log_activity [simp]:
  "shop_unchanged s (log_activity u a b c t) = shop_unchanged s t"
  by (simp add: shop_unchanged_def)

lemma order_lines_log_activity [simp]:
  "order_lines oid (log_activity u a b c s) = order_lines oid s"
  by (simp add: order_lines_def)

lemma find_order_log_activity:
  "find_order oid (log_activity u a b c s) = find_order oid s"
  by (simp add: find_order_def)

lemma draft_order_log_activity [simp]:
  "draft_order uid (log_activity u a b c s) = draft_order uid s"
  by (simp add: draft_order_def)

end
