(* ===== verification/Pricing.thy ===== *)
theory Pricing
  imports Store
begin

text \<open>
  The pricing rule of \<open>src/backend/src/view_order.py\<close>.  The source has no pricing
  function: \<open>view_order_initial\<close> (lines 289--294 and 336--339) and
  \<open>view_order_checkout_submit\<close> (lines 373--378 and 394--398) both read the three
  settings \<open>discount_value\<close>, \<open>taxes_value\<close> and \<open>total_shipment\<close> (a missing row
  counts as 0) and compute discount, taxes and amount to pay from the order's
  subtotal with the same expressions.  \<open>setting_value\<close> is one of those lookups and
  \<open>quote\<close> the shared computation; the two handlers are defined over them in
  \<open>Checkout\<close>.  Percentages are plain numbers (\<open>10\<close> is 10\%).
\<close>

definition setting_value :: "string \<Rightarrow> setting list \<Rightarrow> money" where
  "setting_value k ss = (case find (\<lambda>r. key_name r = k) ss of None \<Rightarrow> 0 | Some r \<Rightarrow> key_value r)"

record quote =
  q_subtotal :: money
  q_discount :: money
  q_taxes :: money
  q_shipment :: money
  q_total_paid :: money

definition quote :: "money \<Rightarrow> setting list \<Rightarrow> quote" where
  "quote sub ss =
     (let iDiscount = setting_value ''discount_value'' ss;
          iTaxes = setting_value ''taxes_value'' ss;
          iShipment = setting_value ''total_shipment'' ss;
          total_discount = sub * (iDiscount / 100);
          total_taxes = sub * (iTaxes / 100)
      in \<lparr>q_subtotal = sub, q_discount = total_discount, q_taxes = total_taxes,
          q_shipment = iShipment, q_total_paid = (sub + total_taxes + iShipment) - total_discount\<rparr>)"

text \<open>The three settings of a store, as the seed data writes them.\<close>

definition store_settings :: "money \<Rightarrow> money \<Rightarrow> money \<Rightarrow> setting list" where
  "store_settings d t sh =
     [\<lparr>key_name = ''discount_value'', key_value = d\<rparr>,
      \<lparr>key_name = ''taxes_value'', key_value = t\<rparr>,
      \<lparr>key_name = ''total_shipment'', key_value = sh\<rparr>]"

lemma setting_value_store_settings [simp]:
  "setting_value ''discount_value'' (store_settings d t sh) = d"
  "setting_value ''taxes_value'' (store_settings d t sh) = t"
  "setting_value ''total_shipment'' (store_settings d t sh) = sh"
  by (simp_all add: setting_value_def store_settings_def)

lemma setting_value_Nil [simp]: "setting_value k [] = 0"
  by (simp add: setting_value_def)

text \<open>The fields of a quote, one equation each, for the proofs that use them.\<close>

lemma quote_fields [simp]:
  "q_subtotal (quote sub ss) = sub"
  "q_discount (quote sub ss) = sub * (setting_value ''discount_value'' ss / 100)"
  "q_taxes (quote sub ss) = sub * (setting_value ''taxes_value'' ss / 100)"
  "q_shipment (quote sub ss) = setting_value ''total_shipment'' ss"
  "q_total_paid (quote sub ss) =
     sub + sub * (setting_value ''taxes_value'' ss / 100) + setting_value ''total_shipment'' ss
       - sub * (setting_value ''discount_value'' ss / 100)"
  by (simp_all add: quote_def Let_def)

subsection \<open>Properties of the pricing rule\<close>

lemma quote_total_paid_linear:
  "q_total_paid (quote sub ss) =
     sub * (1 + (setting_value ''taxes_value'' ss - setting_value ''discount_value'' ss) / 100)
       + setting_value ''total_shipment'' ss"
  by (simp add: algebra_simps add_divide_distrib diff_divide_distrib)

lemma quote_discount_bounds:
  assumes "0 \<le> sub" and "0 \<le> setting_value ''discount_value'' ss"
    and "setting_value ''discount_value'' ss \<le> 100"
  shows "0 \<le> q_discount (quote sub ss) \<and> q_discount (quote sub ss) \<le> sub"
proof -
  let ?d = "setting_value ''discount_value'' ss"
  have "0 \<le> ?d / 100" and "?d / 100 \<le> 1" using assms by simp_all
  then have "sub * (?d / 100) \<le> sub * 1"
    using assms(1) by (rule_tac mult_left_mono) simp_all
  with assms show ?thesis by simp
qed

end
