(* ===== verification/Cart.thy ===== *)
theory Cart
  imports Pricing
begin

text \<open>
  The cart ledger: \<open>view_order_create_cart\<close> (\<open>POST /api/order/cart/{id}\<close>,
  \<open>src/backend/src/view_order.py\<close> lines 150--228).  The handler
  \<^enum> reads the product (an absent product makes \<open>product.price\<close> raise);
  \<^enum> finds the user's draft order, or creates one whose invoice number is the
    current time in ticks and whose aggregates are already \<^emph>\<open>this\<close> line's
    quantity and total (lines 163--176);
  \<^enum> finds the inventory row for the product, size and colour; if there is one it
    merges the quantity into the order's line for that inventory or inserts a new
    line, and adds quantity and total to the order's aggregates \<^emph>\<open>again\<close>
    (lines 179--213); if there is none it changes nothing more;
  \<^enum> logs an activity and returns the refreshed order.
  Each step is one definition below, composed in the handler's order.  The clock
  reading \<open>ticks\<close> is a parameter.  Money written here is an integer times a
  \<open>Numeric(18, 4)\<close> price, so the column rounding is the identity on it
  (\<open>numeric_18_4_of_int_scaled\<close>) and is not written.
\<close>

definition find_inventory :: "nat \<Rightarrow> nat \<Rightarrow> nat \<Rightarrow> db \<Rightarrow> inventory option" where
  "find_inventory pid sz col s =
     find (\<lambda>i. product_id i = pid \<and> size_id i = sz \<and> colour_id i = col) (inventories s)"

definition open_order :: "nat \<Rightarrow> int \<Rightarrow> int \<Rightarrow> money \<Rightarrow> db \<Rightarrow> order \<times> db" where
  "open_order uid ticks q amount s =
     (let r = \<lparr>ord_id = next_order s, user_id = uid, payment_id = None,
               invoice_number = py_str_int ticks, total_item = Some q, subtotal = amount,
               total_discount = 0, total_taxes = 0, total_shipment = 0, total_paid = amount,
               ord_status = 0\<rparr>
      in (r, s\<lparr>orders := orders s @ [r], next_order := Suc (next_order s)\<rparr>))"

definition merge_line :: "money \<Rightarrow> int \<Rightarrow> money \<Rightarrow> order_detail \<Rightarrow> order_detail" where
  "merge_line p q amount d = d\<lparr>det_price := p, qty := qty d + q, det_total := det_total d + amount\<rparr>"

definition add_line :: "order \<Rightarrow> inventory \<Rightarrow> money \<Rightarrow> int \<Rightarrow> money \<Rightarrow> db \<Rightarrow> db" where
  "add_line r item p q amount s =
     (case find (\<lambda>d. inventory_id d = inv_id item \<and> order_id d = ord_id r) (details s) of
        Some cart \<Rightarrow>
          s\<lparr>details := update_where (\<lambda>d. det_id d = det_id cart) (merge_line p q amount) (details s)\<rparr>
      | None \<Rightarrow>
          s\<lparr>details := details s @
              [\<lparr>det_id = next_detail s, order_id = ord_id r, inventory_id = inv_id item,
                det_price = p, qty = q, det_total = amount\<rparr>],
            next_detail := Suc (next_detail s)\<rparr>)"

definition bump_order :: "order \<Rightarrow> int \<Rightarrow> money \<Rightarrow> db \<Rightarrow> error + db" where
  "bump_order r q amount s =
     (case total_item r of
        None \<Rightarrow> Inl TypeError
      | Some n \<Rightarrow>
          Inr (s\<lparr>orders := update_where (\<lambda>x. ord_id x = ord_id r)
                (\<lambda>x. x\<lparr>total_item := Some (n + q), subtotal := subtotal r + amount,
                        total_paid := total_paid r + amount\<rparr>) (orders s)\<rparr>))"

definition view_order_create_cart ::
  "nat \<Rightarrow> nat \<Rightarrow> cart_form \<Rightarrow> int \<Rightarrow> db \<Rightarrow> error + (order \<times> db)" where
  "view_order_create_cart uid pid form ticks s =
     (case find_product pid s of
        None \<Rightarrow> Inl AttributeError
      | Some pr \<Rightarrow>
          (let q = form_qty form;
               amount = of_int q * price pr;
               (r, s1) = (case draft_order uid s of
                            Some r \<Rightarrow> (r, s)
                          | None \<Rightarrow> open_order uid ticks q amount s);
               s2 = (case find_inventory pid (form_size_id form) (form_colour_id form) s1 of
                       None \<Rightarrow> Inr s1
                     | Some item \<Rightarrow> bump_order r q amount (add_line r item (price pr) q amount s1))
           in case s2 of
                Inl e \<Rightarrow> Inl e
              | Inr s2 \<Rightarrow>
                  (let s3 = log_activity uid ''Add Cart'' ''Add Product To Cart''
                              ''Your has been added product to cart.'' s2
                   in case find_order (ord_id r) s3 of
                        None \<Rightarrow> Inl AttributeError
                      | Some r' \<Rightarrow> Inr (r', s3))))"

subsection \<open>Decomposition of a successful request\<close>

abbreviation cart_amount :: "cart_form \<Rightarrow> product \<Rightarrow> money" where
  "cart_amount f pr \<equiv> of_int (form_qty f) * price pr"

definition cart_order :: "nat \<Rightarrow> cart_form \<Rightarrow> int \<Rightarrow> product \<Rightarrow> db \<Rightarrow> order \<times> db" where
  "cart_order uid f t pr s =
     (case draft_order uid s of
        Some r \<Rightarrow> (r, s)
      | None \<Rightarrow> open_order uid t (form_qty f) (cart_amount f pr) s)"

definition cart_line :: "nat \<Rightarrow> cart_form \<Rightarrow> product \<Rightarrow> order \<Rightarrow> db \<Rightarrow> error + db" where
  "cart_line pid f pr r s =
     (case find_inventory pid (form_size_id f) (form_colour_id f) s of
        None \<Rightarrow> Inr s
      | Some item \<Rightarrow>
          bump_order r (form_qty f) (cart_amount f pr)
            (add_line r item (price pr) (form_qty f) (cart_amount f pr) s))"

abbreviation cart_log :: "nat \<Rightarrow> db \<Rightarrow> db" where
  "cart_log uid \<equiv> log_activity uid ''Add Cart'' ''Add Product To Cart''
                     ''Your has been added product to cart.''"

lemma view_order_create_cart_Inr:
  assumes "view_order_create_cart uid pid f t s = Inr (r', s')"
  obtains pr r s1 s2 where "find_product pid s = Some pr"
    and "cart_order uid f t pr s = (r, s1)"
    and "cart_line pid f pr r s1 = Inr s2"
    and "s' = cart_log uid s2"
    and "find_order (ord_id r) s' = Some r'"
  using assms
  by (auto simp: view_order_create_cart_def cart_order_def cart_line_def Let_def
           split: option.splits sum.splits prod.splits)

lemma view_order_create_cart_eq:
  assumes "find_product pid s = Some pr" and "cart_order uid f t pr s = (r, s1)"
  shows "view_order_create_cart uid pid f t s =
     (case cart_line pid f pr r s1 of
        Inl e \<Rightarrow> Inl e
      | Inr s2 \<Rightarrow>
          (case find_order (ord_id r) (cart_log uid s2) of
             None \<Rightarrow> Inl AttributeError
           | Some r' \<Rightarrow> Inr (r', cart_log uid s2)))"
  using assms
  by (auto simp: view_order_create_cart_def cart_order_def cart_line_def Let_def
           split: option.splits)

subsection \<open>The handler keeps the tables consistent\<close>

lemma cart_order_wf:
  assumes wf: "db_wf s" and eq: "cart_order uid f t pr s = (r, s1)"
  shows "db_wf s1 \<and> r \<in> set (orders s1) \<and> is_draft_of uid r \<and> total_item r \<noteq> None \<and>
         details s1 = details s \<and> inventories s1 = inventories s \<and> products s1 = products s"
proof (cases "draft_order uid s")
  case (Some x)
  with eq have "r = x" "s1 = s" by (simp_all add: cart_order_def)
  with Some wf show ?thesis
    by (auto simp: db_wf_def drafts_counted_def is_draft_of_def dest: draft_order_Some)
next
  case None
  from None eq have s1: "s1 = s\<lparr>orders := orders s @ [r], next_order := Suc (next_order s)\<rparr>"
    and r: "ord_id r = next_order s" "user_id r = uid" "ord_status r = 0" "total_item r \<noteq> None"
    by (auto simp: cart_order_def open_order_def Let_def)
  from wf have fresh: "next_order s \<notin> set (map ord_id (orders s))"
    by (auto simp: db_wf_def keys_ok_def)
  from None have "uid \<notin> set (map user_id (filter (\<lambda>r. ord_status r = 0) (orders s)))"
    by (auto simp: draft_order_None is_draft_of_def)
  with wf fresh r have "db_wf s1"
    by (auto simp: s1 db_wf_def keys_ok_def single_draft_def unique_lines_def refs_ok_def
                   drafts_counted_def)
  then show ?thesis by (simp add: s1 r is_draft_of_def)
qed

lemma add_line_wf:
  assumes wf: "db_wf s" and r: "r \<in> set (orders s)" and item: "item \<in> set (inventories s)"
  shows "db_wf (add_line r item p q a s)"
proof (cases "find (\<lambda>d. inventory_id d = inv_id item \<and> order_id d = ord_id r) (details s)")
  case (Some cart)
  let ?upd = "update_where (\<lambda>d. det_id d = det_id cart) (merge_line p q a) (details s)"
  have frame: "map det_id ?upd = map det_id (details s)"
    "map order_id ?upd = map order_id (details s)"
    "map inventory_id ?upd = map inventory_id (details s)"
    "map (\<lambda>d. (order_id d, inventory_id d)) ?upd = map (\<lambda>d. (order_id d, inventory_id d)) (details s)"
    by (simp_all add: map_update_where_frame merge_line_def)
  have "\<forall>x \<in> set (map det_id ?upd). x < next_detail s"
    using wf by (simp only: frame) (auto simp: db_wf_def keys_ok_def)
  then have ids: "\<forall>d \<in> set ?upd. det_id d < next_detail s" by simp
  from wf Some show ?thesis
    by (auto simp: add_line_def db_wf_def keys_ok_def unique_lines_def refs_ok_def
                   drafts_counted_def single_draft_def frame ids simp del: set_map)
next
  case None
  then have new: "(ord_id r, inv_id item) \<notin> set (map (\<lambda>d. (order_id d, inventory_id d)) (details s))"
    by (auto simp: find_None_iff)
  from wf have fresh: "next_detail s \<notin> set (map det_id (details s))"
    by (auto simp: db_wf_def keys_ok_def)
  from wf None new fresh r item show ?thesis
    by (auto simp: add_line_def db_wf_def keys_ok_def unique_lines_def refs_ok_def
                   drafts_counted_def single_draft_def)
qed

lemma bump_order_wf:
  assumes wf: "db_wf s" and eq: "bump_order r q a s = Inr s'"
  shows "db_wf s'"
proof -
  from eq obtain n where n: "total_item r = Some n"
    and s': "s' = s\<lparr>orders := update_where (\<lambda>x. ord_id x = ord_id r)
                 (\<lambda>x. x\<lparr>total_item := Some (n + q), subtotal := subtotal r + a,
                         total_paid := total_paid r + a\<rparr>) (orders s)\<rparr>"
    by (auto simp: bump_order_def split: option.splits)
  let ?upd = "update_where (\<lambda>x. ord_id x = ord_id r)
                 (\<lambda>x. x\<lparr>total_item := Some (n + q), subtotal := subtotal r + a,
                         total_paid := total_paid r + a\<rparr>) (orders s)"
  have ids: "map ord_id ?upd = map ord_id (orders s)"
    by (simp add: map_update_where_frame)
  have drafts: "map user_id (filter (\<lambda>r. ord_status r = 0) ?upd) =
                map user_id (filter (\<lambda>r. ord_status r = 0) (orders s))"
    by (simp add: map_filter_update_where_frame)
  have "\<forall>x \<in> set (map ord_id ?upd). x < next_order s"
    using wf by (simp only: ids) (auto simp: db_wf_def keys_ok_def)
  then have lt: "\<forall>x \<in> set ?upd. ord_id x < next_order s" by simp
  have counted: "\<forall>x \<in> set ?upd. ord_status x = 0 \<longrightarrow> total_item x \<noteq> None"
    using wf by (auto simp: set_update_where db_wf_def drafts_counted_def)
  from wf ids drafts lt counted show ?thesis
    by (auto simp: s' db_wf_def keys_ok_def single_draft_def unique_lines_def refs_ok_def
                   drafts_counted_def simp del: set_map)
qed

lemma log_activity_wf [simp]: "db_wf (log_activity u a b c s) = db_wf s"
  by (simp add: db_wf_def keys_ok_def single_draft_def unique_lines_def refs_ok_def
                drafts_counted_def)

lemma find_inventory_Some:
  "find_inventory pid sz col s = Some item \<Longrightarrow>
   item \<in> set (inventories s) \<and> product_id item = pid \<and> size_id item = sz \<and> colour_id item = col"
  unfolding find_inventory_def by (drule find_Some_mem) simp

lemma cart_line_wf:
  assumes "db_wf s" and "r \<in> set (orders s)" and "cart_line pid f pr r s = Inr s'"
  shows "db_wf s'"
proof (cases "find_inventory pid (form_size_id f) (form_colour_id f) s")
  case None
  with assms show ?thesis by (simp add: cart_line_def)
next
  case (Some item)
  with assms have "db_wf (add_line r item (price pr) (form_qty f) (cart_amount f pr) s)"
    by (blast intro: add_line_wf dest: find_inventory_Some)
  with Some assms show ?thesis
    by (auto simp: cart_line_def intro: bump_order_wf)
qed

theorem view_order_create_cart_wf:
  assumes "db_wf s" and "view_order_create_cart uid pid f t s = Inr (r', s')"
  shows "db_wf s'"
proof -
  from assms(2) obtain pr r s1 s2 where
    o: "cart_order uid f t pr s = (r, s1)" and l: "cart_line pid f pr r s1 = Inr s2"
    and s': "s' = cart_log uid s2"
    by (rule view_order_create_cart_Inr)
  from cart_order_wf [OF assms(1) o] have "db_wf s1" and "r \<in> set (orders s1)" by simp_all
  then have "db_wf s2" using l by (rule cart_line_wf)
  with s' show ?thesis by simp
qed

subsection \<open>Lines and aggregates\<close>

definition line_rows :: "nat \<Rightarrow> nat \<Rightarrow> db \<Rightarrow> order_detail list" where
  "line_rows oid iid s = filter (\<lambda>d. order_id d = oid \<and> inventory_id d = iid) (details s)"

lemma merge_line_keys [simp]:
  "det_id (merge_line p q a d) = det_id d"
  "order_id (merge_line p q a d) = order_id d"
  "inventory_id (merge_line p q a d) = inventory_id d"
  by (simp_all add: merge_line_def)

lemma add_line_rows:
  assumes wf: "db_wf s"
  shows "\<exists>d. line_rows (ord_id r) (inv_id item) (add_line r item p q a s) = [d] \<and>
           qty d = sum_list (map qty (line_rows (ord_id r) (inv_id item) s)) + q \<and>
           det_total d = sum_list (map det_total (line_rows (ord_id r) (inv_id item) s)) + a \<and>
           det_price d = p"
proof (cases "find (\<lambda>d. inventory_id d = inv_id item \<and> order_id d = ord_id r) (details s)")
  case (Some cart)
  then have cart: "cart \<in> set (details s)" "inventory_id cart = inv_id item" "order_id cart = ord_id r"
    by (auto dest: find_Some_mem)
  let ?key = "\<lambda>d. (order_id d, inventory_id d)"
  have P: "(\<lambda>d. order_id d = ord_id r \<and> inventory_id d = inv_id item) = (\<lambda>d. ?key d = ?key cart)"
    using cart by auto
  from wf have dist: "distinct (map ?key (details s))" by (simp add: db_wf_def unique_lines_def)
  have old: "line_rows (ord_id r) (inv_id item) s = [cart]"
    unfolding line_rows_def P using dist cart(1) by (rule filter_key_distinct)
  have "line_rows (ord_id r) (inv_id item) (add_line r item p q a s) =
        update_where (\<lambda>d. det_id d = det_id cart) (merge_line p q a) [cart]"
    using Some old by (simp add: add_line_def line_rows_def filter_update_where)
  then show ?thesis by (simp add: old update_where_def merge_line_def)
next
  case None
  then have "line_rows (ord_id r) (inv_id item) s = []"
    by (auto simp: line_rows_def find_None_iff filter_empty_conv)
  with None show ?thesis by (simp add: add_line_def line_rows_def)
qed

lemma add_line_lines_total:
  assumes wf: "db_wf s"
  shows "lines_total (ord_id r) (add_line r item p q a s) = lines_total (ord_id r) s + a"
proof (cases "find (\<lambda>d. inventory_id d = inv_id item \<and> order_id d = ord_id r) (details s)")
  case (Some cart)
  then have cart: "cart \<in> set (details s)" "order_id cart = ord_id r"
    by (auto dest: find_Some_mem)
  let ?P = "\<lambda>d. order_id d = ord_id r" and ?Q = "\<lambda>d. det_id d = det_id cart"
  from wf have "distinct (map det_id (details s))" by (simp add: db_wf_def keys_ok_def)
  with cart have "filter ?Q (details s) = [cart]" by (simp add: filter_key_distinct)
  then have one: "filter ?Q (filter ?P (details s)) = [cart]"
    using cart(2) by (simp only: filter_swap [of ?Q]) simp
  have "order_lines (ord_id r) (add_line r item p q a s) =
        update_where ?Q (merge_line p q a) (order_lines (ord_id r) s)"
    using Some by (simp add: add_line_def order_lines_def filter_update_where)
  then show ?thesis
    using one by (simp add: lines_total_def order_lines_def sum_list_map_update_where merge_line_def)
next
  case None
  then show ?thesis by (simp add: add_line_def lines_total_def order_lines_def)
qed

lemma bump_order_tables:
  "bump_order r q a s = Inr s' \<Longrightarrow>
   details s' = details s \<and> inventories s' = inventories s \<and> products s' = products s"
  by (auto simp: bump_order_def split: option.splits)

lemma bump_order_row:
  assumes "bump_order r q a s = Inr s'" and "distinct (map ord_id (orders s))"
    and "r \<in> set (orders s)"
  shows "\<exists>n. total_item r = Some n \<and>
           find_order (ord_id r) s' = Some (r\<lparr>total_item := Some (n + q),
              subtotal := subtotal r + a, total_paid := total_paid r + a\<rparr>)"
  using assms
  by (auto simp: bump_order_def find_order_def find_update_where find_key_distinct
           split: option.splits)

lemma add_line_frame [simp]:
  "orders (add_line r item p q a s) = orders s"
  "inventories (add_line r item p q a s) = inventories s"
  "products (add_line r item p q a s) = products s"
  by (simp_all add: add_line_def split: option.splits)

lemma view_order_create_cart_found:
  assumes wf: "db_wf s" and ok: "view_order_create_cart uid pid f t s = Inr (r', s')"
    and pr: "find_product pid s = Some pr"
    and item: "find_inventory pid (form_size_id f) (form_colour_id f) s = Some item"
  obtains r s1 n where "cart_order uid f t pr s = (r, s1)" and "db_wf s1"
    and "details s1 = details s" and "total_item r = Some n"
    and "r' = r\<lparr>total_item := Some (n + form_qty f), subtotal := subtotal r + cart_amount f pr,
                 total_paid := total_paid r + cart_amount f pr\<rparr>"
    and "details s' = details (add_line r item (price pr) (form_qty f) (cart_amount f pr) s1)"
proof -
  from ok obtain pr' r s1 s2 where p: "find_product pid s = Some pr'"
    and o: "cart_order uid f t pr' s = (r, s1)" and l: "cart_line pid f pr' r s1 = Inr s2"
    and s': "s' = cart_log uid s2" and r': "find_order (ord_id r) s' = Some r'"
    by (rule view_order_create_cart_Inr)
  from p pr have [simp]: "pr' = pr" by simp
  from cart_order_wf [OF wf o [simplified]] have s1: "db_wf s1" "r \<in> set (orders s1)"
    "details s1 = details s" "inventories s1 = inventories s"
    by simp_all
  with item have "find_inventory pid (form_size_id f) (form_colour_id f) s1 = Some item"
    by (simp add: find_inventory_def)
  with l have b: "bump_order r (form_qty f) (cart_amount f pr)
                    (add_line r item (price pr) (form_qty f) (cart_amount f pr) s1) = Inr s2"
    by (simp add: cart_line_def)
  from s1 have "distinct (map ord_id (orders s1))" by (simp add: db_wf_def keys_ok_def)
  with b s1(2) obtain n where n: "total_item r = Some n"
    and row: "find_order (ord_id r) s2 = Some (r\<lparr>total_item := Some (n + form_qty f),
               subtotal := subtotal r + cart_amount f pr, total_paid := total_paid r + cart_amount f pr\<rparr>)"
    using bump_order_row by fastforce
  from r' row s' have "r' = r\<lparr>total_item := Some (n + form_qty f),
      subtotal := subtotal r + cart_amount f pr, total_paid := total_paid r + cart_amount f pr\<rparr>"
    by (simp add: find_order_def)
  moreover from b s' have "details s' = details (add_line r item (price pr) (form_qty f) (cart_amount f pr) s1)"
    by (simp add: bump_order_tables)
  ultimately show ?thesis using that o s1 n by simp
qed

text \<open>After a successful add-to-cart with a resolved inventory row, the returned order
  is the caller's draft.\<close>

lemma view_order_create_cart_draft:
  assumes wf: "db_wf s" and ok: "view_order_create_cart uid pid f t s = Inr (r', s')"
    and pr: "find_product pid s = Some pr"
    and item: "find_inventory pid (form_size_id f) (form_colour_id f) s = Some item"
  shows "draft_order uid s' = Some r'"
proof -
  obtain r s1 n where o: "cart_order uid f t pr s = (r, s1)"
    and r': "r' = r\<lparr>total_item := Some (n + form_qty f), subtotal := subtotal r + cart_amount f pr,
                  total_paid := total_paid r + cart_amount f pr\<rparr>"
    using view_order_create_cart_found [OF assms] by metis
  from cart_order_wf [OF wf o] have "is_draft_of uid r" by simp
  then have d: "is_draft_of uid r'" by (simp add: r' is_draft_of_def)
  have "\<exists>r0 :: order. find_order (ord_id r0) s' = Some r'"
    by (rule view_order_create_cart_Inr [OF ok]) (rule exI, assumption)
  then obtain r0 :: order where "find_order (ord_id r0) s' = Some r'" ..
  then have mem: "r' \<in> set (orders s')" by (simp add: find_order_Some)
  have wf': "db_wf s'" by (rule view_order_create_cart_wf [OF wf ok])
  obtain x where x: "draft_order uid s' = Some x"
    using mem d by (cases "draft_order uid s'") (auto simp: draft_order_None)
  from draft_order_Some [OF x] have "x \<in> set (orders s')" "is_draft_of uid x"
    by (simp_all add: is_draft_of_def)
  with wf' mem d have "x = r'" by (intro draft_unique [of s']) (simp_all add: db_wf_def)
  with x show ?thesis by simp
qed

lemma cart_order_untouched:
  "cart_order uid f t pr s = (r, s1) \<Longrightarrow>
   reviews s1 = reviews s \<and> next_review s1 = next_review s \<and> settings s1 = settings s \<and>
   accounts s1 = accounts s"
  by (cases "draft_order uid s") (auto simp: cart_order_def open_order_def Let_def accounts_def)

lemma cart_line_untouched:
  "cart_line pid f pr r s = Inr s' \<Longrightarrow>
   reviews s' = reviews s \<and> next_review s' = next_review s \<and> settings s' = settings s \<and>
   accounts s' = accounts s"
  by (auto simp: cart_line_def bump_order_def add_line_def accounts_def split: option.splits)

lemma view_order_create_cart_untouched:
  assumes "view_order_create_cart uid pid f t s = Inr (r', s')"
  shows "reviews s' = reviews s \<and> next_review s' = next_review s \<and> settings s' = settings s \<and>
    accounts s' = accounts s"
proof -
  from assms obtain pr r s1 s2 where "cart_order uid f t pr s = (r, s1)"
    and "cart_line pid f pr r s1 = Inr s2" and "s' = cart_log uid s2"
    by (rule view_order_create_cart_Inr)
  then show ?thesis by (auto dest!: cart_order_untouched cart_line_untouched simp: log_activity_def accounts_def)
qed

lemma lines_total_details_eq:
  "details s' = details s \<Longrightarrow> lines_total oid s' = lines_total oid s"
  by (simp add: lines_total_def order_lines_def)

lemma line_rows_details_eq:
  "details s' = details s \<Longrightarrow> line_rows oid iid s' = line_rows oid iid s"
  by (simp add: line_rows_def)

lemma fresh_order_no_lines:
  "db_wf s \<Longrightarrow> lines_total (next_order s) s = 0"
proof -
  assume "db_wf s"
  then have "\<forall>d \<in> set (details s). order_id d \<noteq> next_order s"
    by (fastforce simp: db_wf_def keys_ok_def refs_ok_def)
  then show ?thesis
    by (simp add: lines_total_def order_lines_def filter_empty_conv)
qed

text \<open>C1.  Adding an inventory selection to the cart leaves exactly one line for it in
  the order, whose quantity and total are the old ones plus this request's and whose
  unit price is the product's current price.\<close>

theorem add_to_cart_merges_line:
  assumes "db_wf s" and "view_order_create_cart uid pid f t s = Inr (r', s')"
    and "find_product pid s = Some pr"
    and "find_inventory pid (form_size_id f) (form_colour_id f) s = Some item"
  shows "\<exists>d. line_rows (ord_id r') (inv_id item) s' = [d] \<and>
           qty d = sum_list (map qty (line_rows (ord_id r') (inv_id item) s)) + form_qty f \<and>
           det_total d = sum_list (map det_total (line_rows (ord_id r') (inv_id item) s))
                         + cart_amount f pr \<and>
           det_price d = price pr"
proof -
  obtain r s1 n where "db_wf s1" and d1: "details s1 = details s"
    and r': "r' = r\<lparr>total_item := Some (n + form_qty f), subtotal := subtotal r + cart_amount f pr,
                  total_paid := total_paid r + cart_amount f pr\<rparr>"
    and d': "details s' = details (add_line r item (price pr) (form_qty f) (cart_amount f pr) s1)"
    using view_order_create_cart_found [OF assms] by metis
  from add_line_rows [OF \<open>db_wf s1\<close>, of r item "price pr" "form_qty f" "cart_amount f pr"]
  show ?thesis by (simp add: r' line_rows_details_eq [OF d'] line_rows_details_eq [OF d1])
qed

text \<open>C2.  The first add-to-cart of a user counts the line twice in the new order: the
  order is created with the line's quantity and amount and then incremented by them
  again, so item count, subtotal and amount to pay are double the only line's.\<close>

theorem first_add_to_cart_double_counts:
  assumes "db_wf s" and "draft_order uid s = None"
    and "view_order_create_cart uid pid f t s = Inr (r', s')"
    and "find_product pid s = Some pr"
    and "find_inventory pid (form_size_id f) (form_colour_id f) s = Some item"
  shows "total_item r' = Some (2 * form_qty f) \<and> subtotal r' = 2 * cart_amount f pr \<and>
         total_paid r' = 2 * cart_amount f pr \<and> lines_total (ord_id r') s' = cart_amount f pr"
proof -
  obtain r s1 n where o: "cart_order uid f t pr s = (r, s1)" and "db_wf s1"
    and d1: "details s1 = details s" and n: "total_item r = Some n"
    and r': "r' = r\<lparr>total_item := Some (n + form_qty f), subtotal := subtotal r + cart_amount f pr,
                  total_paid := total_paid r + cart_amount f pr\<rparr>"
    and d': "details s' = details (add_line r item (price pr) (form_qty f) (cart_amount f pr) s1)"
    using view_order_create_cart_found [OF assms(1,3-5)] by metis
  from o assms(2) have r: "ord_id r = next_order s" "total_item r = Some (form_qty f)"
    "subtotal r = cart_amount f pr" "total_paid r = cart_amount f pr"
    by (auto simp: cart_order_def open_order_def Let_def)
  have "lines_total (ord_id r) s' = lines_total (ord_id r) s1 + cart_amount f pr"
    using lines_total_details_eq [OF d'] add_line_lines_total [OF \<open>db_wf s1\<close>] by simp
  also have "lines_total (ord_id r) s1 = 0"
    using lines_total_details_eq [OF d1] fresh_order_no_lines [OF assms(1)] r(1) by simp
  finally show ?thesis using r n r' by simp
qed

text \<open>Adding to an existing draft order adds the request's quantity to the order's
  item count and its amount both to the subtotal and to the order's lines, so the
  difference between subtotal and lines is never repaired.\<close>

theorem add_to_cart_existing_draft:
  assumes "db_wf s" and "draft_order uid s = Some r"
    and "view_order_create_cart uid pid f t s = Inr (r', s')"
    and "find_product pid s = Some pr"
    and "find_inventory pid (form_size_id f) (form_colour_id f) s = Some item"
  shows "ord_id r' = ord_id r \<and>
         total_item r' = map_option (\<lambda>n. n + form_qty f) (total_item r) \<and>
         subtotal r' = subtotal r + cart_amount f pr \<and>
         subtotal r' - lines_total (ord_id r') s' = subtotal r - lines_total (ord_id r) s"
proof -
  obtain r0 s1 n where o: "cart_order uid f t pr s = (r0, s1)" and "db_wf s1"
    and d1: "details s1 = details s" and n: "total_item r0 = Some n"
    and r': "r' = r0\<lparr>total_item := Some (n + form_qty f), subtotal := subtotal r0 + cart_amount f pr,
                  total_paid := total_paid r0 + cart_amount f pr\<rparr>"
    and d': "details s' = details (add_line r0 item (price pr) (form_qty f) (cart_amount f pr) s1)"
    using view_order_create_cart_found [OF assms(1,3-5)] by metis
  from o assms(2) have [simp]: "r0 = r" by (simp add: cart_order_def)
  have "lines_total (ord_id r) s' = lines_total (ord_id r) s + cart_amount f pr"
    using lines_total_details_eq [OF d'] add_line_lines_total [OF \<open>db_wf s1\<close>]
      lines_total_details_eq [OF d1] by simp
  then show ?thesis using n r' by simp
qed

end
