(* ===== verification/Checkout.thy ===== *)
theory Checkout
  imports Cart
begin

text \<open>
  Checkout and its quote (\<open>src/backend/src/view_order.py\<close>).
  \<open>view_order_initial\<close> (\<open>GET /api/order/initial\<close>, lines 280--363) shows the
  user's draft order priced with the current settings; \<open>view_order_checkout_submit\<close>
  (\<open>POST /api/order/checkout\<close>, lines 365--430) places it: for every line it takes
  the quantity from the inventory row's stock, adds it to the product's order count
  and empties the user's wishlist (\<open>checkout_lines\<close>, the loop of lines 383--391);
  it then freezes discount, taxes, shipment and amount to pay, recounts the items,
  records the payment, marks the order placed, writes ten billing rows and logs an
  activity, all in one commit.  The amounts are written to \<open>Numeric(18, 4)\<close>
  columns (\<open>numeric_18_4\<close>); the amount to pay is computed from the unrounded
  discount and taxes still held by the ORM object.  A billing field that is \<open>None\<close>
  is refused by the \<open>NOT NULL\<close> column \<open>orders_billings.description\<close> (MySQL in its
  default strict mode), which aborts the whole checkout.  At the commit the order's
  \<open>UPDATE\<close> is flushed before the billing rows (their parent, by the relationship
  \<open>Order.orders_billings\<close>), and the foreign key \<open>orders.payment_id\<close> (\<open>model.py\<close>,
  line 285) refuses a payment id that names no payment (\<open>IntegrityError\<close>).
\<close>

subsection \<open>The per-line loop\<close>

definition take_stock :: "order_detail \<Rightarrow> inventory \<Rightarrow> db \<Rightarrow> db" where
  "take_stock d item s =
     s\<lparr>inventories := update_where (\<lambda>i. inv_id i = inv_id item)
                       (\<lambda>i. i\<lparr>stock := stock i - qty d\<rparr>) (inventories s)\<rparr>"

definition count_sale :: "order_detail \<Rightarrow> product \<Rightarrow> db \<Rightarrow> db" where
  "count_sale d p s =
     s\<lparr>products := update_where (\<lambda>x. prod_id x = prod_id p)
                     (\<lambda>x. x\<lparr>total_order := total_order x + qty d\<rparr>) (products s)\<rparr>"

definition clear_wishlist :: "nat \<Rightarrow> db \<Rightarrow> db" where
  "clear_wishlist uid s = s\<lparr>wishlists := filter (\<lambda>(pid, u). u \<noteq> uid) (wishlists s)\<rparr>"

text \<open>
  The flushes inside the loop follow SQLAlchemy's autoflush: the product query of line
  388 writes the new stock (an \<open>UNSIGNED\<close> column, \<open>model.py\<close> line 251), the first
  access to \<open>user.products\<close> (line 391) raises for a missing user, and the next query
  writes the product's order count (\<open>UNSIGNED\<close>, line 210).
\<close>

fun checkout_lines :: "nat \<Rightarrow> order_detail list \<Rightarrow> db \<Rightarrow> error + db" where
  "checkout_lines uid [] s = Inr s"
| "checkout_lines uid (d # ds) s =
     (case find (\<lambda>i. inv_id i = inventory_id d) (inventories s) of
        None \<Rightarrow> Inl AttributeError
      | Some item \<Rightarrow>
          (let s1 = take_stock d item s
           in if \<not> unsigned_int_ok (stock item - qty d) then Inl RangeError
              else case find_product (product_id item) s1 of
                None \<Rightarrow> Inl AttributeError
              | Some p \<Rightarrow>
                  if find (\<lambda>u. usr_id u = uid) (users s1) = None then Inl AttributeError
                  else if \<not> unsigned_int_ok (total_order p + qty d) then Inl RangeError
                  else checkout_lines uid ds (clear_wishlist uid (count_sale d p s1))))"

text \<open>What each step leaves alone.\<close>

lemma take_stock_frame [simp]:
  "orders (take_stock d i s) = orders s" "details (take_stock d i s) = details s"
  "settings (take_stock d i s) = settings s" "billings (take_stock d i s) = billings s"
  "next_billing (take_stock d i s) = next_billing s" "activities (take_stock d i s) = activities s"
  "next_order (take_stock d i s) = next_order s" "next_detail (take_stock d i s) = next_detail s"
  "reviews (take_stock d i s) = reviews s" "next_review (take_stock d i s) = next_review s"
  "accounts (take_stock d i s) = accounts s"
  "users (take_stock d i s) = users s" "payments (take_stock d i s) = payments s"
  "products (take_stock d i s) = products s" "wishlists (take_stock d i s) = wishlists s"
  "map inv_id (inventories (take_stock d i s)) = map inv_id (inventories s)"
  "map product_id (inventories (take_stock d i s)) = map product_id (inventories s)"
  by (simp_all add: take_stock_def map_update_where_frame accounts_def)

lemma count_sale_frame [simp]:
  "orders (count_sale d p s) = orders s" "details (count_sale d p s) = details s"
  "settings (count_sale d p s) = settings s" "billings (count_sale d p s) = billings s"
  "next_billing (count_sale d p s) = next_billing s" "activities (count_sale d p s) = activities s"
  "next_order (count_sale d p s) = next_order s" "next_detail (count_sale d p s) = next_detail s"
  "reviews (count_sale d p s) = reviews s" "next_review (count_sale d p s) = next_review s"
  "accounts (count_sale d p s) = accounts s"
  "users (count_sale d p s) = users s" "payments (count_sale d p s) = payments s"
  "inventories (count_sale d p s) = inventories s" "wishlists (count_sale d p s) = wishlists s"
  "map prod_id (products (count_sale d p s)) = map prod_id (products s)"
  by (simp_all add: count_sale_def map_update_where_frame accounts_def)

lemma clear_wishlist_frame [simp]:
  "orders (clear_wishlist u s) = orders s" "details (clear_wishlist u s) = details s"
  "settings (clear_wishlist u s) = settings s" "billings (clear_wishlist u s) = billings s"
  "next_billing (clear_wishlist u s) = next_billing s" "activities (clear_wishlist u s) = activities s"
  "next_order (clear_wishlist u s) = next_order s" "next_detail (clear_wishlist u s) = next_detail s"
  "reviews (clear_wishlist u s) = reviews s" "next_review (clear_wishlist u s) = next_review s"
  "inventories (clear_wishlist u s) = inventories s" "products (clear_wishlist u s) = products s"
  "accounts (clear_wishlist u s) = accounts s"
  "users (clear_wishlist u s) = users s" "payments (clear_wishlist u s) = payments s"
  by (simp_all add: clear_wishlist_def accounts_def)

subsection \<open>Billing snapshot\<close>

text \<open>The ten \<open>OrderBilling\<close> rows of lines 404--413, in the source's order; \<open>None\<close>
  when one of the optional fields is missing.\<close>

definition billing_fields :: "checkout_form \<Rightarrow> (string \<times> string option) list" where
  "billing_fields f =
     [(''first_name'', Some (form_first_name f)), (''last_name'', Some (form_last_name f)),
      (''gender'', Some (form_gender f)), (''email'', Some (form_email f)),
      (''phone'', Some (form_phone f)), (''address'', form_address f),
      (''country'', form_country f), (''city'', form_city f),
      (''zip_code'', form_zip_code f), (''notes'', form_notes f)]"

fun billing_rows :: "nat \<Rightarrow> nat \<Rightarrow> (string \<times> string option) list \<Rightarrow> order_billing list option" where
  "billing_rows oid n [] = Some []"
| "billing_rows oid n ((k, None) # fs) = None"
| "billing_rows oid n ((k, Some v) # fs) =
     map_option (Cons \<lparr>bill_id = n, bill_order_id = oid, bill_name = k, bill_description = v\<rparr>)
       (billing_rows oid (Suc n) fs)"

subsection \<open>The handlers\<close>

definition frozen_order :: "order \<Rightarrow> setting list \<Rightarrow> order_detail list \<Rightarrow> nat \<Rightarrow> order" where
  "frozen_order r ss lines pay =
     (let q = quote (subtotal r) ss
      in r\<lparr>total_shipment := numeric_18_4 (q_shipment q),
           total_discount := numeric_18_4 (q_discount q),
           total_taxes := numeric_18_4 (q_taxes q),
           total_paid := numeric_18_4 (q_total_paid q),
           total_item := sql_sum qty lines,
           payment_id := Some pay,
           ord_status := 1\<rparr>)"

definition view_order_checkout_submit :: "nat \<Rightarrow> checkout_form \<Rightarrow> db \<Rightarrow> error + (order \<times> db)" where
  "view_order_checkout_submit uid f s =
     (case draft_order uid s of
        None \<Rightarrow> Inl AttributeError
      | Some r \<Rightarrow>
          (let lines = order_lines (ord_id r) s
           in case checkout_lines uid lines s of
                Inl e \<Rightarrow> Inl e
              | Inr s1 \<Rightarrow>
                  (let r' = frozen_order r (settings s) lines (form_payment_id f)
                   in if form_payment_id f \<notin> set (map pay_id (payments s1)) then Inl IntegrityError
                   else case billing_rows (ord_id r) (next_billing s1) (billing_fields f) of
                        None \<Rightarrow> Inl NotNullViolation
                      | Some bs \<Rightarrow>
                          Inr (r', log_activity uid ''Checkout Order'' ''Completed Checkout Current Order''
                                 ''Your order has been finished.''
                                 (s1\<lparr>orders := update_where (\<lambda>x. ord_id x = ord_id r) (\<lambda>_. r') (orders s1),
                                     billings := billings s1 @ bs,
                                     next_billing := next_billing s1 + length bs\<rparr>)))))"

record initial_view =
  init_order_id :: nat
  init_invoice :: string
  init_total_item :: "int option"
  init_quote :: quote
  init_discount :: money
  init_taxes :: money
  init_shipment :: money

definition view_order_initial :: "nat \<Rightarrow> db \<Rightarrow> error + initial_view" where
  "view_order_initial uid s =
     (case draft_order uid s of
        None \<Rightarrow> Inl AttributeError
      | Some r \<Rightarrow>
          Inr \<lparr>init_order_id = ord_id r, init_invoice = invoice_number r,
               init_total_item = sql_sum qty (order_lines (ord_id r) s),
               init_quote = quote (subtotal r) (settings s),
               init_discount = setting_value ''discount_value'' (settings s),
               init_taxes = setting_value ''taxes_value'' (settings s),
               init_shipment = setting_value ''total_shipment'' (settings s)\<rparr>)"

subsection \<open>What the loop does\<close>

definition line_product :: "db \<Rightarrow> order_detail \<Rightarrow> nat option" where
  "line_product s d = map_option product_id (find (\<lambda>i. inv_id i = inventory_id d) (inventories s))"

definition qty_for :: "(order_detail \<Rightarrow> bool) \<Rightarrow> order_detail list \<Rightarrow> int" where
  "qty_for P ds = sum_list (map qty (filter P ds))"

text \<open>The columns can take the checkout of the lines \<open>ds\<close>: no negative quantity, every
  inventory row's stock within the unsigned range and at least the quantity its lines
  take, every product's order count staying within the unsigned range.\<close>

definition lines_fit_columns :: "order_detail list \<Rightarrow> db \<Rightarrow> bool" where
  "lines_fit_columns ds s \<longleftrightarrow>
     (\<forall>d \<in> set ds. 0 \<le> qty d) \<and>
     (\<forall>i \<in> set (inventories s). stock i < 2 ^ 32 \<and> qty_for (\<lambda>d. inventory_id d = inv_id i) ds \<le> stock i) \<and>
     (\<forall>p \<in> set (products s). 0 \<le> total_order p \<and>
        total_order p + qty_for (\<lambda>d. line_product s d = Some (prod_id p)) ds < 2 ^ 32)"

lemma qty_for_simps [simp]:
  "qty_for P [] = 0"
  "qty_for P (d # ds) = (if P d then qty d else 0) + qty_for P ds"
  by (simp_all add: qty_for_def)

lemma checkout_lines_Cons_Inr:
  assumes "checkout_lines uid (d # ds) s = Inr s'"
  obtains item p where "find (\<lambda>i. inv_id i = inventory_id d) (inventories s) = Some item"
    and "find_product (product_id item) (take_stock d item s) = Some p"
    and "checkout_lines uid ds (clear_wishlist uid (count_sale d p (take_stock d item s))) = Inr s'"
  using assms by (auto simp: Let_def split: option.splits if_splits)

lemma checkout_lines_frame:
  "checkout_lines uid ds s = Inr s' \<Longrightarrow>
   orders s' = orders s \<and> details s' = details s \<and> settings s' = settings s \<and>
   billings s' = billings s \<and> next_billing s' = next_billing s \<and> activities s' = activities s \<and>
   next_order s' = next_order s \<and> next_detail s' = next_detail s \<and>
   reviews s' = reviews s \<and> next_review s' = next_review s \<and> accounts s' = accounts s \<and>
   payments s' = payments s \<and> map inv_id (inventories s') = map inv_id (inventories s) \<and>
   map product_id (inventories s') = map product_id (inventories s) \<and>
   map prod_id (products s') = map prod_id (products s)"
proof (induction ds arbitrary: s)
  case Nil
  then show ?case by simp
next
  case (Cons d ds)
  from Cons.prems obtain item p
    where "checkout_lines uid ds (clear_wishlist uid (count_sale d p (take_stock d item s))) = Inr s'"
    by (rule checkout_lines_Cons_Inr)
  from Cons.IH [OF this] show ?case by simp
qed

lemma line_product_take_stock [simp]:
  "line_product (take_stock d item s) = line_product s"
  by (rule ext) (simp add: line_product_def take_stock_def find_update_where_frame)

lemma line_product_count_sale [simp]:
  "line_product (count_sale d p s) = line_product s"
  by (rule ext) (simp add: line_product_def)

lemma line_product_clear_wishlist [simp]:
  "line_product (clear_wishlist u s) = line_product s"
  by (rule ext) (simp add: line_product_def)

lemma checkout_lines_stock:
  "checkout_lines uid ds s = Inr s' \<Longrightarrow>
   inventories s' =
     map (\<lambda>i. i\<lparr>stock := stock i - qty_for (\<lambda>d. inventory_id d = inv_id i) ds\<rparr>) (inventories s)"
proof (induction ds arbitrary: s)
  case Nil
  then show ?case by simp
next
  case (Cons d ds)
  from Cons.prems obtain item p
    where item: "find (\<lambda>i. inv_id i = inventory_id d) (inventories s) = Some item"
    and rec: "checkout_lines uid ds (clear_wishlist uid (count_sale d p (take_stock d item s))) = Inr s'"
    by (rule checkout_lines_Cons_Inr)
  from item have "inv_id item = inventory_id d" by (auto dest: find_Some_mem)
  with Cons.IH [OF rec] show ?case
    by (simp add: take_stock_def update_where_def)
qed

lemma checkout_lines_products:
  "checkout_lines uid ds s = Inr s' \<Longrightarrow>
   products s' =
     map (\<lambda>p. p\<lparr>total_order := total_order p + qty_for (\<lambda>d. line_product s d = Some (prod_id p)) ds\<rparr>)
       (products s)"
proof (induction ds arbitrary: s)
  case Nil
  then show ?case by simp
next
  case (Cons d ds)
  from Cons.prems obtain item p
    where item: "find (\<lambda>i. inv_id i = inventory_id d) (inventories s) = Some item"
    and p: "find_product (product_id item) (take_stock d item s) = Some p"
    and rec: "checkout_lines uid ds (clear_wishlist uid (count_sale d p (take_stock d item s))) = Inr s'"
    by (rule checkout_lines_Cons_Inr)
  from item have lp: "line_product s d = Some (product_id item)" by (simp add: line_product_def)
  from p have pid: "prod_id p = product_id item" by (auto dest: find_product_Some)
  have "products s' =
    map (\<lambda>q. q\<lparr>total_order := total_order q + qty_for (\<lambda>d. line_product s d = Some (prod_id q)) ds\<rparr>)
      (products (count_sale d p (take_stock d item s)))"
    using Cons.IH [OF rec] by simp
  with pid lp show ?case
    by (simp add: count_sale_def update_where_def)
qed

lemma checkout_lines_wishlists:
  "checkout_lines uid ds s = Inr s' \<Longrightarrow>
   wishlists s' = (if ds = [] then wishlists s else filter (\<lambda>(pid, u). u \<noteq> uid) (wishlists s))"
proof (induction ds arbitrary: s)
  case Nil
  then show ?case by simp
next
  case (Cons d ds)
  from Cons.prems obtain item p
    where rec: "checkout_lines uid ds (clear_wishlist uid (count_sale d p (take_stock d item s))) = Inr s'"
    by (rule checkout_lines_Cons_Inr)
  from Cons.IH [OF rec] show ?case
    by (auto simp: clear_wishlist_def intro: filter_cong)
qed

text \<open>The loop succeeds when the order's lines refer to existing rows, the user exists,
  the quantities are not negative and the unsigned stock and order-count columns can take
  them.\<close>

lemma checkout_lines_succeeds:
  assumes "set (map inventory_id ds) \<subseteq> set (map inv_id (inventories s))"
    and "set (map product_id (inventories s)) \<subseteq> set (map prod_id (products s))"
    and "uid \<in> set (map usr_id (users s))" and "\<forall>d \<in> set ds. 0 \<le> qty d"
    and "\<forall>i \<in> set (inventories s). stock i < 2 ^ 32 \<and> qty_for (\<lambda>d. inventory_id d = inv_id i) ds \<le> stock i"
    and "\<forall>p \<in> set (products s). 0 \<le> total_order p \<and>
           total_order p + qty_for (\<lambda>d. line_product s d = Some (prod_id p)) ds < 2 ^ 32"
  shows "\<exists>s'. checkout_lines uid ds s = Inr s'"
  using assms
proof (induction ds arbitrary: s)
  case Nil
  then show ?case by simp
next
  case (Cons d ds)
  have q0: "0 \<le> qty_for P ds" for P
    using Cons.prems(4) unfolding qty_for_def by (intro sum_list_nonneg) auto
  from Cons.prems(1) obtain item
    where item: "find (\<lambda>i. inv_id i = inventory_id d) (inventories s) = Some item"
    by (cases "find (\<lambda>i. inv_id i = inventory_id d) (inventories s)") (auto simp: find_None_iff)
  then have mem: "item \<in> set (inventories s)" and iid: "inv_id item = inventory_id d"
    by (auto dest: find_Some_mem)
  have "stock item < 2 ^ 32" and "qty d + qty_for (\<lambda>x. inventory_id x = inv_id item) ds \<le> stock item"
    using Cons.prems(5) mem iid by auto
  then have st: "unsigned_int_ok (stock item - qty d)"
    using q0 [of "\<lambda>x. inventory_id x = inv_id item"] Cons.prems(4) by (simp add: unsigned_int_ok_def)
  from mem Cons.prems(2) obtain p where p: "find_product (product_id item) (take_stock d item s) = Some p"
    by (cases "find_product (product_id item) (take_stock d item s)")
       (force simp: find_product_def find_None_iff)+
  then have pm: "p \<in> set (products s)" and pid: "prod_id p = product_id item"
    by (auto dest: find_product_Some)
  have lp: "line_product s d = Some (prod_id p)" using item pid by (simp add: line_product_def)
  have "0 \<le> total_order p" and "total_order p + (qty d + qty_for (\<lambda>x. line_product s x = Some (prod_id p)) ds) < 2 ^ 32"
    using Cons.prems(6) pm lp by auto
  then have tot: "unsigned_int_ok (total_order p + qty d)"
    using q0 [of "\<lambda>x. line_product s x = Some (prod_id p)"] Cons.prems(4) by (simp add: unsigned_int_ok_def)
  have u: "find (\<lambda>u. usr_id u = uid) (users (take_stock d item s)) \<noteq> None"
    using Cons.prems(3) by (auto simp: find_None_iff)
  let ?s2 = "clear_wishlist uid (count_sale d p (take_stock d item s))"
  have inv2: "inventories ?s2 = map (\<lambda>i. if inv_id i = inv_id item then i\<lparr>stock := stock i - qty d\<rparr> else i)
                                  (inventories s)"
    by (simp add: take_stock_def update_where_def)
  have pr2: "products ?s2 = map (\<lambda>x. if prod_id x = prod_id p then x\<lparr>total_order := total_order x + qty d\<rparr> else x)
                               (products s)"
    by (simp add: count_sale_def update_where_def)
  have "\<exists>s'. checkout_lines uid ds ?s2 = Inr s'"
  proof (rule Cons.IH)
    show "set (map inventory_id ds) \<subseteq> set (map inv_id (inventories ?s2))"
      using Cons.prems(1) by (simp only: take_stock_frame count_sale_frame clear_wishlist_frame) simp
    show "set (map product_id (inventories ?s2)) \<subseteq> set (map prod_id (products ?s2))"
      using Cons.prems(2) by (simp only: take_stock_frame count_sale_frame clear_wishlist_frame)
    show "uid \<in> set (map usr_id (users ?s2))" using Cons.prems(3) by simp
    show "\<forall>d \<in> set ds. 0 \<le> qty d" using Cons.prems(4) by simp
    show "\<forall>i \<in> set (inventories ?s2). stock i < 2 ^ 32 \<and> qty_for (\<lambda>d. inventory_id d = inv_id i) ds \<le> stock i"
      using Cons.prems(5) Cons.prems(4) iid unfolding inv2 by auto
    show "\<forall>q \<in> set (products ?s2). 0 \<le> total_order q \<and>
            total_order q + qty_for (\<lambda>d. line_product ?s2 d = Some (prod_id q)) ds < 2 ^ 32"
      using Cons.prems(6) Cons.prems(4) lp unfolding pr2 by (auto simp: add.assoc)
  qed
  with item st p u tot show ?case by (simp add: Let_def)
qed

lemma billing_rows_complete:
  "None \<notin> set (map snd fs) \<Longrightarrow> \<exists>bs. billing_rows oid n fs = Some bs \<and> length bs = length fs"
  by (induction oid n fs rule: billing_rows.induct) auto

lemma billing_rows_missing:
  "None \<in> set (map snd fs) \<Longrightarrow> billing_rows oid n fs = None"
  by (induction oid n fs rule: billing_rows.induct) auto

lemma length_billing_fields [simp]: "length (billing_fields f) = 10"
  by (simp add: billing_fields_def)

subsection \<open>Decomposition of a successful checkout\<close>

abbreviation checkout_log :: "nat \<Rightarrow> db \<Rightarrow> db" where
  "checkout_log uid \<equiv> log_activity uid ''Checkout Order'' ''Completed Checkout Current Order''
                         ''Your order has been finished.''"

definition place_order :: "order \<Rightarrow> order \<Rightarrow> order_billing list \<Rightarrow> db \<Rightarrow> db" where
  "place_order r r' bs s =
     s\<lparr>orders := update_where (\<lambda>x. ord_id x = ord_id r) (\<lambda>_. r') (orders s),
       billings := billings s @ bs, next_billing := next_billing s + length bs\<rparr>"

lemma view_order_checkout_submit_Inr:
  assumes "view_order_checkout_submit uid f s = Inr (r', s')"
  obtains r s1 bs where "draft_order uid s = Some r"
    and "checkout_lines uid (order_lines (ord_id r) s) s = Inr s1"
    and "billing_rows (ord_id r) (next_billing s1) (billing_fields f) = Some bs"
    and "r' = frozen_order r (settings s) (order_lines (ord_id r) s) (form_payment_id f)"
    and "s' = checkout_log uid (place_order r r' bs s1)"
    and "form_payment_id f \<in> set (map pay_id (payments s))"
  using assms checkout_lines_frame
  by (auto simp: view_order_checkout_submit_def place_order_def Let_def
           split: option.splits sum.splits if_splits)

lemma view_order_checkout_submit_eq:
  assumes "draft_order uid s = Some r"
    and "checkout_lines uid (order_lines (ord_id r) s) s = Inr s1"
    and "billing_rows (ord_id r) (next_billing s1) (billing_fields f) = Some bs"
    and "form_payment_id f \<in> set (map pay_id (payments s))"
  shows "view_order_checkout_submit uid f s =
    Inr (frozen_order r (settings s) (order_lines (ord_id r) s) (form_payment_id f),
         checkout_log uid (place_order r (frozen_order r (settings s) (order_lines (ord_id r) s)
           (form_payment_id f)) bs s1))"
  using assms checkout_lines_frame [OF assms(2)]
  by (simp add: view_order_checkout_submit_def place_order_def Let_def)

lemma frozen_order_keys [simp]:
  "ord_id (frozen_order r ss ls pay) = ord_id r"
  "user_id (frozen_order r ss ls pay) = user_id r"
  "ord_status (frozen_order r ss ls pay) = 1"
  "subtotal (frozen_order r ss ls pay) = subtotal r"
  "payment_id (frozen_order r ss ls pay) = Some pay"
  by (simp_all add: frozen_order_def Let_def)

lemma frozen_order_total_paid:
  "total_paid (frozen_order r ss ls pay) = numeric_18_4 (q_total_paid (quote (subtotal r) ss))"
  by (simp add: frozen_order_def Let_def)

lemma place_order_frame [simp]:
  "inventories (place_order r r' bs s) = inventories s"
  "products (place_order r r' bs s) = products s"
  "wishlists (place_order r r' bs s) = wishlists s"
  "details (place_order r r' bs s) = details s"
  "settings (place_order r r' bs s) = settings s"
  "reviews (place_order r r' bs s) = reviews s"
  "next_review (place_order r r' bs s) = next_review s"
  "accounts (place_order r r' bs s) = accounts s"
  by (simp_all add: place_order_def accounts_def)

subsection \<open>Checkout keeps the tables consistent\<close>

lemma checkout_lines_wf:
  assumes "db_wf s" and "checkout_lines uid ds s = Inr s'"
  shows "db_wf s'"
proof -
  note fr = checkout_lines_frame [OF assms(2)]
  have "set (map inv_id (inventories s')) = set (map inv_id (inventories s))"
    "set (map product_id (inventories s')) = set (map product_id (inventories s))"
    "set (map prod_id (products s')) = set (map prod_id (products s))"
    using fr by (simp_all only:)
  with assms(1) fr show ?thesis
    by (simp add: db_wf_def keys_ok_def single_draft_def unique_lines_def refs_ok_def
                  drafts_counted_def del: set_map)
qed

lemma place_order_wf:
  assumes wf: "db_wf s"
  shows "db_wf (place_order r (frozen_order r ss ls pay) bs s)"
proof -
  let ?r' = "frozen_order r ss ls pay"
  let ?os = "update_where (\<lambda>x. ord_id x = ord_id r) (\<lambda>_. ?r') (orders s)"
  have ids: "map ord_id ?os = map ord_id (orders s)"
    by (rule map_update_where_frame) simp
  have drafts: "filter (\<lambda>x. ord_status x = 0) ?os =
                filter (\<lambda>x. ord_status x = 0 \<and> \<not> ord_id x = ord_id r) (orders s)"
    by (simp add: filter_update_where_drop)
  from wf have "distinct (map user_id (filter (\<lambda>x. ord_status x = 0) (orders s)))"
    by (simp add: db_wf_def single_draft_def)
  then have single: "distinct (map user_id (filter (\<lambda>x. ord_status x = 0) ?os))"
    unfolding drafts by (rule distinct_map_filter_mono) simp
  have "\<forall>x \<in> set (map ord_id ?os). x < next_order s"
    using wf by (simp only: ids) (auto simp: db_wf_def keys_ok_def)
  then have lt: "\<forall>x \<in> set ?os. ord_id x < next_order s" by simp
  have counted: "\<forall>x \<in> set ?os. ord_status x = 0 \<longrightarrow> total_item x \<noteq> None"
    using wf by (auto simp: set_update_where db_wf_def drafts_counted_def)
  have "set (map ord_id ?os) = set (map ord_id (orders s))" by (simp only: ids)
  with wf ids single lt counted show ?thesis
    by (simp add: place_order_def db_wf_def keys_ok_def single_draft_def unique_lines_def
                  refs_ok_def drafts_counted_def del: set_map)
qed

lemma place_order_no_draft:
  assumes wf: "db_wf s" and d: "draft_order uid s = Some r" and o: "orders s1 = orders s"
  shows "draft_order uid (place_order r (frozen_order r ss ls pay) bs s1) = None"
proof -
  from d have r: "r \<in> set (orders s)" "is_draft_of uid r" by (auto dest: draft_order_Some simp: is_draft_of_def)
  from wf have single: "single_draft s" by (simp add: db_wf_def)
  have nd: "\<not> (ord_status x = 0 \<and> user_id x = uid)"
    if x: "x \<in> set (orders s)" "ord_id x \<noteq> ord_id r" for x
    using draft_unique [OF single x(1) r(1) _ r(2)] x(2) by (auto simp: is_draft_of_def)
  show ?thesis
    unfolding draft_order_None place_order_def
    by (auto simp: o set_update_where is_draft_of_def dest: nd)
qed

theorem view_order_checkout_submit_wf:
  assumes "db_wf s" and "view_order_checkout_submit uid f s = Inr (r', s')"
  shows "db_wf s'"
proof -
  from assms(2) obtain r s1 bs where l: "checkout_lines uid (order_lines (ord_id r) s) s = Inr s1"
    and r': "r' = frozen_order r (settings s) (order_lines (ord_id r) s) (form_payment_id f)"
    and s': "s' = checkout_log uid (place_order r r' bs s1)"
    by (rule view_order_checkout_submit_Inr)
  from checkout_lines_wf [OF assms(1) l] have "db_wf s1" .
  then show ?thesis by (simp add: s' r' place_order_wf)
qed

subsection \<open>Properties of checkout\<close>

lemma checkout_progress:
  assumes wf: "db_wf s" and d: "draft_order uid s = Some r"
    and u: "uid \<in> set (map usr_id (users s))" and fit: "lines_fit_columns (order_lines (ord_id r) s) s"
  obtains s1 where "checkout_lines uid (order_lines (ord_id r) s) s = Inr s1"
proof -
  from wf have refs: "set (map inventory_id (details s)) \<subseteq> set (map inv_id (inventories s))"
    "set (map product_id (inventories s)) \<subseteq> set (map prod_id (products s))"
    by (simp_all add: db_wf_def refs_ok_def)
  then have "set (map inventory_id (order_lines (ord_id r) s)) \<subseteq> set (map inv_id (inventories s))"
    by (auto simp: order_lines_def)
  with refs(2) u fit show ?thesis using checkout_lines_succeeds that
    unfolding lines_fit_columns_def by blast
qed

text \<open>C4.  A user with an account and a draft order can check out with a complete
  billing form that names an existing payment method, when the stock and order-count
  columns can take the order's quantities: the handler returns the same order, now
  placed, with the payment recorded, and the user has no draft order left.\<close>

theorem checkout_places_order:
  assumes wf: "db_wf s" and d: "draft_order uid s = Some r"
    and complete: "None \<notin> set (map snd (billing_fields f))"
    and pay: "form_payment_id f \<in> set (map pay_id (payments s))"
    and u: "uid \<in> set (map usr_id (users s))" and fit: "lines_fit_columns (order_lines (ord_id r) s) s"
  shows "\<exists>r' s'. view_order_checkout_submit uid f s = Inr (r', s') \<and> ord_id r' = ord_id r \<and>
           ord_status r' = 1 \<and> payment_id r' = Some (form_payment_id f) \<and>
           draft_order uid s' = None"
proof -
  obtain s1 where l: "checkout_lines uid (order_lines (ord_id r) s) s = Inr s1"
    using checkout_progress [OF wf d u fit] by blast
  obtain bs where b: "billing_rows (ord_id r) (next_billing s1) (billing_fields f) = Some bs"
    using billing_rows_complete [OF complete] by blast
  have o: "orders s1 = orders s" using checkout_lines_frame [OF l] by simp
  show ?thesis
    using view_order_checkout_submit_eq [OF d l b pay] place_order_no_draft [OF wf d o] by simp
qed

text \<open>C5.  A successful checkout takes from every inventory row's stock the quantity of
  the order's lines for that row and adds to every product's order count the quantity
  of the lines whose inventory row belongs to it; the handler checks no floor, only the
  unsigned column refuses a negative stock.\<close>

theorem checkout_stock_accounting:
  assumes "view_order_checkout_submit uid f s = Inr (r', s')" and "draft_order uid s = Some r"
  shows "inventories s' =
           map (\<lambda>i. i\<lparr>stock := stock i - qty_for (\<lambda>d. inventory_id d = inv_id i) (order_lines (ord_id r) s)\<rparr>)
             (inventories s) \<and>
         products s' =
           map (\<lambda>p. p\<lparr>total_order := total_order p +
                        qty_for (\<lambda>d. line_product s d = Some (prod_id p)) (order_lines (ord_id r) s)\<rparr>)
             (products s)"
proof -
  from assms(1) obtain r0 s1 bs where d: "draft_order uid s = Some r0"
    and l: "checkout_lines uid (order_lines (ord_id r0) s) s = Inr s1"
    and s': "s' = checkout_log uid (place_order r0 r' bs s1)"
    by (rule view_order_checkout_submit_Inr)
  from d assms(2) have "r0 = r" by simp
  with l s' show ?thesis by (simp add: checkout_lines_stock checkout_lines_products)
qed

text \<open>C6.  Checkout charges what the quote page shows for the same store: subtotal,
  discount, taxes, shipment and amount to pay of the placed order are those of
  \<open>view_order_initial\<close>, rounded to the columns' four decimals, and its item count
  is the quote's recount of the lines.\<close>

theorem checkout_charges_quote:
  assumes "view_order_initial uid s = Inr v"
    and "view_order_checkout_submit uid f s = Inr (r', s')"
  shows "ord_id r' = init_order_id v \<and> subtotal r' = q_subtotal (init_quote v) \<and>
         total_discount r' = numeric_18_4 (q_discount (init_quote v)) \<and>
         total_taxes r' = numeric_18_4 (q_taxes (init_quote v)) \<and>
         total_shipment r' = numeric_18_4 (q_shipment (init_quote v)) \<and>
         total_paid r' = numeric_18_4 (q_total_paid (init_quote v)) \<and>
         total_item r' = init_total_item v"
proof -
  from assms(2) obtain r where d: "draft_order uid s = Some r"
    and r': "r' = frozen_order r (settings s) (order_lines (ord_id r) s) (form_payment_id f)"
    by (rule view_order_checkout_submit_Inr)
  from assms(1) d have "v = \<lparr>init_order_id = ord_id r, init_invoice = invoice_number r,
      init_total_item = sql_sum qty (order_lines (ord_id r) s),
      init_quote = quote (subtotal r) (settings s),
      init_discount = setting_value ''discount_value'' (settings s),
      init_taxes = setting_value ''taxes_value'' (settings s),
      init_shipment = setting_value ''total_shipment'' (settings s)\<rparr>"
    by (simp add: view_order_initial_def)
  with r' show ?thesis by (simp add: frozen_order_def Let_def)
qed

text \<open>C7.  Because each amount is rounded on its own, the stored amount to pay can
  differ from stored subtotal plus taxes plus shipment minus discount, by at most
  0.0002.\<close>

theorem checkout_paid_rounding:
  assumes "view_order_checkout_submit uid f s = Inr (r', s')"
  shows "\<bar>total_paid r' - (subtotal r' + total_taxes r' + total_shipment r' - total_discount r')\<bar>
           \<le> 1 / 5000"
proof -
  from assms obtain r where
    r': "r' = frozen_order r (settings s) (order_lines (ord_id r) s) (form_payment_id f)"
    by (rule view_order_checkout_submit_Inr)
  let ?q = "quote (subtotal r) (settings s)"
  have "q_total_paid ?q = subtotal r + q_taxes ?q + q_shipment ?q - q_discount ?q"
    by simp
  then show ?thesis
    using numeric_18_4_sum_error [of "subtotal r" "q_taxes ?q" "q_shipment ?q" "q_discount ?q"]
    by (simp add: r' frozen_order_def Let_def)
qed

text \<open>C8.  Nothing checks that the draft has a line: a draft without lines (which an
  add-to-cart with an unknown size or colour leaves behind) is placed with any complete
  form naming an existing payment, its item count is SQL NULL, and stock and wishlist
  are untouched.\<close>

theorem checkout_empty_draft:
  assumes wf: "db_wf s" and d: "draft_order uid s = Some r"
    and empty: "order_lines (ord_id r) s = []"
    and complete: "None \<notin> set (map snd (billing_fields f))"
    and pay: "form_payment_id f \<in> set (map pay_id (payments s))"
  shows "\<exists>r' s'. view_order_checkout_submit uid f s = Inr (r', s') \<and> ord_status r' = 1 \<and>
           total_item r' = None \<and> wishlists s' = wishlists s \<and> inventories s' = inventories s"
proof -
  have l: "checkout_lines uid (order_lines (ord_id r) s) s = Inr s" by (simp add: empty)
  obtain bs where b: "billing_rows (ord_id r) (next_billing s) (billing_fields f) = Some bs"
    using billing_rows_complete [OF complete] by blast
  show ?thesis
    using view_order_checkout_submit_eq [OF d l b pay] empty
    by (simp add: frozen_order_def Let_def sql_sum_def)
qed

text \<open>C9.  A checkout with at least one line deletes every wishlist entry of the user,
  whatever product it names, and no entry of another user.\<close>

theorem checkout_clears_whole_wishlist:
  assumes "view_order_checkout_submit uid f s = Inr (r', s')" and "draft_order uid s = Some r"
    and "order_lines (ord_id r) s \<noteq> []"
  shows "wishlists s' = filter (\<lambda>(pid, u). u \<noteq> uid) (wishlists s)"
proof -
  from assms(1) obtain r0 s1 bs where d: "draft_order uid s = Some r0"
    and l: "checkout_lines uid (order_lines (ord_id r0) s) s = Inr s1"
    and s': "s' = checkout_log uid (place_order r0 r' bs s1)"
    by (rule view_order_checkout_submit_Inr)
  from d assms(2) have "r0 = r" by simp
  with l s' assms(3) show ?thesis by (simp add: checkout_lines_wishlists)
qed

text \<open>C10.  A billing form without one of the optional fields (address, country, city,
  zip code, notes) makes the whole checkout fail although the schema declares the fields
  optional: when every earlier check passes (the user, the stock and order-count
  columns, the payment's foreign key), the \<open>NOT NULL\<close> description column refuses the
  row and the session is rolled back.\<close>

theorem checkout_missing_billing_field:
  assumes wf: "db_wf s" and d: "draft_order uid s = Some r"
    and missing: "None \<in> set (map snd (billing_fields f))"
    and pay: "form_payment_id f \<in> set (map pay_id (payments s))"
    and u: "uid \<in> set (map usr_id (users s))" and fit: "lines_fit_columns (order_lines (ord_id r) s) s"
  shows "view_order_checkout_submit uid f s = Inl NotNullViolation"
proof -
  obtain s1 where l: "checkout_lines uid (order_lines (ord_id r) s) s = Inr s1"
    using checkout_progress [OF wf d u fit] by blast
  have "billing_rows (ord_id r) (next_billing s1) (billing_fields f) = None"
    using missing by (rule billing_rows_missing)
  moreover have "payments s1 = payments s" using checkout_lines_frame [OF l] by simp
  ultimately show ?thesis using d l pay by (simp add: view_order_checkout_submit_def)
qed

text \<open>C11.  After a successful checkout the same user cannot check out again (no second
  charge): the next checkout finds no draft order and fails.\<close>

theorem checkout_twice_fails:
  assumes wf: "db_wf s" and ok: "view_order_checkout_submit uid f s = Inr (r', s')"
  shows "view_order_checkout_submit uid f' s' = Inl AttributeError"
proof -
  from ok obtain r s1 bs where d: "draft_order uid s = Some r"
    and l: "checkout_lines uid (order_lines (ord_id r) s) s = Inr s1"
    and r': "r' = frozen_order r (settings s) (order_lines (ord_id r) s) (form_payment_id f)"
    and s': "s' = checkout_log uid (place_order r r' bs s1)"
    by (rule view_order_checkout_submit_Inr)
  have "orders s1 = orders s" using checkout_lines_frame [OF l] by simp
  from place_order_no_draft [OF wf d this] have "draft_order uid s' = None"
    by (simp add: s' r')
  then show ?thesis by (simp add: view_order_checkout_submit_def)
qed

lemma checkout_lines_overdrawn:
  assumes "set (map inventory_id ds) \<subseteq> set (map inv_id (inventories s))"
    and "set (map product_id (inventories s)) \<subseteq> set (map prod_id (products s))"
    and "distinct (map inv_id (inventories s))"
    and "uid \<in> set (map usr_id (users s))" and "\<forall>d \<in> set ds. 0 \<le> qty d"
    and "\<forall>i \<in> set (inventories s). unsigned_int_ok (stock i)"
    and "\<forall>p \<in> set (products s). 0 \<le> total_order p \<and>
           total_order p + qty_for (\<lambda>d. line_product s d = Some (prod_id p)) ds < 2 ^ 32"
    and "\<exists>i \<in> set (inventories s). stock i < qty_for (\<lambda>d. inventory_id d = inv_id i) ds"
  shows "checkout_lines uid ds s = Inl RangeError"
  using assms
proof (induction ds arbitrary: s)
  case Nil
  then show ?case by (auto simp: unsigned_int_ok_def)
next
  case (Cons d ds)
  have q0: "0 \<le> qty_for P ds" for P
    using Cons.prems(5) unfolding qty_for_def by (intro sum_list_nonneg) auto
  from Cons.prems(1) obtain item
    where item: "find (\<lambda>i. inv_id i = inventory_id d) (inventories s) = Some item"
    by (cases "find (\<lambda>i. inv_id i = inventory_id d) (inventories s)") (auto simp: find_None_iff)
  then have mem: "item \<in> set (inventories s)" and iid: "inv_id item = inventory_id d"
    by (auto dest: find_Some_mem)
  show ?case
  proof (cases "unsigned_int_ok (stock item - qty d)")
    case False
    with item show ?thesis by (simp add: Let_def)
  next
    case st: True
    from mem Cons.prems(2) obtain p where p: "find_product (product_id item) (take_stock d item s) = Some p"
      by (cases "find_product (product_id item) (take_stock d item s)")
         (force simp: find_product_def find_None_iff)+
    then have pm: "p \<in> set (products s)" and pid: "prod_id p = product_id item"
      by (auto dest: find_product_Some)
    have lp: "line_product s d = Some (prod_id p)" using item pid by (simp add: line_product_def)
    have "0 \<le> total_order p" and "total_order p + (qty d + qty_for (\<lambda>x. line_product s x = Some (prod_id p)) ds) < 2 ^ 32"
      using Cons.prems(7) pm lp by auto
    then have tot: "unsigned_int_ok (total_order p + qty d)"
      using q0 [of "\<lambda>x. line_product s x = Some (prod_id p)"] Cons.prems(5) by (simp add: unsigned_int_ok_def)
    have u: "find (\<lambda>u. usr_id u = uid) (users (take_stock d item s)) \<noteq> None"
      using Cons.prems(4) by (auto simp: find_None_iff)
    have same: "i = item" if "i \<in> set (inventories s)" "inv_id i = inv_id item" for i
      using distinct_map_eq [OF Cons.prems(3) that(1) mem that(2)] .
    let ?s2 = "clear_wishlist uid (count_sale d p (take_stock d item s))"
    have inv2: "inventories ?s2 = map (\<lambda>i. if inv_id i = inv_id item then i\<lparr>stock := stock i - qty d\<rparr> else i)
                                    (inventories s)"
      by (simp add: take_stock_def update_where_def)
    have pr2: "products ?s2 = map (\<lambda>x. if prod_id x = prod_id p then x\<lparr>total_order := total_order x + qty d\<rparr> else x)
                                 (products s)"
      by (simp add: count_sale_def update_where_def)
    have "checkout_lines uid ds ?s2 = Inl RangeError"
    proof (rule Cons.IH)
      show "set (map inventory_id ds) \<subseteq> set (map inv_id (inventories ?s2))"
        using Cons.prems(1) by (simp only: take_stock_frame count_sale_frame clear_wishlist_frame) simp
      show "set (map product_id (inventories ?s2)) \<subseteq> set (map prod_id (products ?s2))"
        using Cons.prems(2) by (simp only: take_stock_frame count_sale_frame clear_wishlist_frame)
      show "distinct (map inv_id (inventories ?s2))"
        using Cons.prems(3) by (simp only: take_stock_frame count_sale_frame clear_wishlist_frame)
      show "uid \<in> set (map usr_id (users ?s2))" using Cons.prems(4) by simp
      show "\<forall>d \<in> set ds. 0 \<le> qty d" using Cons.prems(5) by simp
      show "\<forall>i \<in> set (inventories ?s2). unsigned_int_ok (stock i)"
        using Cons.prems(6) st same unfolding inv2 by (auto dest: same)
      show "\<forall>q \<in> set (products ?s2). 0 \<le> total_order q \<and>
              total_order q + qty_for (\<lambda>d. line_product ?s2 d = Some (prod_id q)) ds < 2 ^ 32"
        using Cons.prems(7) Cons.prems(5) lp unfolding pr2 by (auto simp: add.assoc)
      show "\<exists>i \<in> set (inventories ?s2). stock i < qty_for (\<lambda>d. inventory_id d = inv_id i) ds"
      proof -
        obtain j where j: "j \<in> set (inventories s)" and def: "stock j < qty_for (\<lambda>x. inventory_id x = inv_id j) (d # ds)"
          using Cons.prems(8) by blast
        let ?j = "if inv_id j = inv_id item then j\<lparr>stock := stock j - qty d\<rparr> else j"
        have "?j \<in> set (inventories ?s2)" using j unfolding inv2 by auto
        moreover have "stock ?j < qty_for (\<lambda>x. inventory_id x = inv_id ?j) ds"
          using def iid by auto
        ultimately show ?thesis by blast
      qed
    qed
    with item st p u tot show ?thesis by (simp add: Let_def)
  qed
qed

text \<open>
  C39: the handler stores the form's payment id without looking it up: for a user with an
  account and a draft whose quantities the columns can take, a payment id that names no
  payment makes the commit fail on the foreign key \<open>orders.payment_id\<close>, before any
  billing row is written, and nothing is stored.
\<close>

theorem checkout_unknown_payment_fails:
  assumes wf: "db_wf s" and d: "draft_order uid s = Some r"
    and u: "uid \<in> set (map usr_id (users s))" and fit: "lines_fit_columns (order_lines (ord_id r) s) s"
    and unknown: "form_payment_id f \<notin> set (map pay_id (payments s))"
  shows "view_order_checkout_submit uid f s = Inl IntegrityError"
proof -
  obtain s1 where l: "checkout_lines uid (order_lines (ord_id r) s) s = Inr s1"
    using checkout_progress [OF wf d u fit] by blast
  have "payments s1 = payments s" using checkout_lines_frame [OF l] by simp
  with d l unknown show ?thesis by (simp add: view_order_checkout_submit_def)
qed

text \<open>
  C40: the handler lowers the stock without checking it: when the order's lines take more
  from some inventory row than its stock holds (and nothing else fails first), the write
  of the negative stock to the \<open>UNSIGNED\<close> column fails, so the database is the only
  floor, and the checkout fails with nothing stored.
\<close>

theorem checkout_overdrawn_stock_fails:
  assumes wf: "db_wf s" and d: "draft_order uid s = Some r"
    and u: "uid \<in> set (map usr_id (users s))"
    and q: "\<forall>d \<in> set (order_lines (ord_id r) s). 0 \<le> qty d"
    and st: "\<forall>i \<in> set (inventories s). unsigned_int_ok (stock i)"
    and tot: "\<forall>p \<in> set (products s). 0 \<le> total_order p \<and>
               total_order p + qty_for (\<lambda>d. line_product s d = Some (prod_id p)) (order_lines (ord_id r) s) < 2 ^ 32"
    and over: "\<exists>i \<in> set (inventories s). stock i < qty_for (\<lambda>d. inventory_id d = inv_id i) (order_lines (ord_id r) s)"
  shows "view_order_checkout_submit uid f s = Inl RangeError"
proof -
  from wf have refs: "set (map inventory_id (details s)) \<subseteq> set (map inv_id (inventories s))"
    "set (map product_id (inventories s)) \<subseteq> set (map prod_id (products s))"
    and dist: "distinct (map inv_id (inventories s))"
    by (simp_all add: db_wf_def refs_ok_def keys_ok_def)
  then have "set (map inventory_id (order_lines (ord_id r) s)) \<subseteq> set (map inv_id (inventories s))"
    by (auto simp: order_lines_def)
  from checkout_lines_overdrawn [OF this refs(2) dist u q st tot over] d show ?thesis
    by (simp add: view_order_checkout_submit_def)
qed

end
