(* ===== verification/Orders.thy ===== *)
theory Orders
  imports Checkout "HOL-Library.Sublist" "HOL-Library.Multiset"
begin

text \<open>
  The order query surface of \<open>src/backend/src/view_order.py\<close>: \<open>view_order_list\<close>
  (lines 432--463: the user's orders, optionally filtered by
  \<open>Order.invoice_number.ilike('%' + search + '%')\<close>, sorted, limited and offset),
  \<open>view_order_detail\<close> (lines 465--518: the order, its lines, payment and billing,
  and the discount and tax percentages recomputed from the stored amounts) and
  \<open>view_order_cancel\<close> (lines 520--549: deletes the order's lines, billing rows and
  cart associations and the order itself).
  \<open>ilike\<close> is rendered by SQLAlchemy for MySQL as \<open>lower(x) LIKE lower(p)\<close>: \<open>%\<close>
  matches any sequence, \<open>_\<close> any one character and \<open>\\\<close> escapes the next
  character; lower-casing is modelled on ASCII letters.  The sort clause is free SQL
  text in the source; the model takes the default, \<open>orders.id desc\<close>.
\<close>

subsection \<open>SQL LIKE\<close>

function like_match :: "string \<Rightarrow> string \<Rightarrow> bool" where
  "like_match [] t = (t = [])"
| "like_match (c # p) t =
     (if c = CHR ''%'' then like_match p t \<or> (case t of [] \<Rightarrow> False | _ # t' \<Rightarrow> like_match (c # p) t')
      else case t of [] \<Rightarrow> False | x # t' \<Rightarrow>
        if c = CHR ''_'' then like_match p t'
        else if c = CHR 0x5C \<and> p \<noteq> [] then x = hd p \<and> like_match (tl p) t'
        else x = c \<and> like_match p t')"
  by pat_completeness auto
termination by (relation "measures [\<lambda>(p, t). length p, \<lambda>(p, t). length t]") auto

definition lower_ascii :: "char \<Rightarrow> char" where
  "lower_ascii c = (let n = (of_char c :: nat) in if 65 \<le> n \<and> n \<le> 90 then char_of (n + 32) else c)"

definition ilike_contains :: "string \<Rightarrow> string \<Rightarrow> bool" where
  "ilike_contains search text =
     like_match (map lower_ascii (CHR ''%'' # search @ ''%'')) (map lower_ascii text)"

text \<open>A search term without the metacharacters \<open>%\<close>, \<open>_\<close> and \<open>\\\<close>.\<close>

definition like_plain :: "string \<Rightarrow> bool" where
  "like_plain q \<longleftrightarrow> (\<forall>c \<in> set q. c \<noteq> CHR ''%'' \<and> c \<noteq> CHR ''_'' \<and> c \<noteq> CHR 0x5C)"

subsection \<open>Listing\<close>

record list_view =
  lv_list :: "order list"
  lv_total_all :: nat
  lv_total_filtered :: nat
  lv_limit :: int

definition order_filter :: "nat \<Rightarrow> string option \<Rightarrow> order \<Rightarrow> bool" where
  "order_filter uid search r \<longleftrightarrow>
     user_id r = uid \<and> (case search of None \<Rightarrow> True | Some q \<Rightarrow> ilike_contains q (invoice_number r))"

definition view_order_list :: "nat \<Rightarrow> int \<Rightarrow> int \<Rightarrow> string option \<Rightarrow> db \<Rightarrow> error + list_view" where
  "view_order_list uid page limit search s =
     (let offset = (page - 1) * limit;
          total = sql_count (\<lambda>r. user_id r = uid) (orders s);
          data = filter (order_filter uid search) (rev (sort_key ord_id (orders s)))
      in if limit < 0 \<or> offset < 0 then Inl SqlError
         else Inr \<lparr>lv_list = take (nat limit) (drop (nat offset) data), lv_total_all = total,
                   lv_total_filtered = length data, lv_limit = limit\<rparr>)"

subsection \<open>Detail\<close>

text \<open>
  A line as the detail and session views show it: the joined product's name with the
  line's price, quantity and total (the image column is not modelled).  The query is
  an inner join of \<open>orders_details\<close> with \<open>products_inventories\<close> and
  \<open>products\<close>, so a line whose inventory row or product is missing is not shown.
\<close>

record cart_row =
  cr_name :: string
  cr_price :: money
  cr_qty :: int
  cr_total :: money

definition order_carts :: "nat \<Rightarrow> db \<Rightarrow> cart_row list" where
  "order_carts oid s =
     [\<lparr>cr_name = prod_name p, cr_price = det_price d, cr_qty = qty d, cr_total = det_total d\<rparr>.
        d \<leftarrow> order_lines oid s, i \<leftarrow> inventories s, inv_id i = inventory_id d,
        p \<leftarrow> products s, prod_id p = product_id i]"

text \<open>The \<open>billing\<close> dictionary: one entry per row, a later row overriding an earlier.\<close>

definition billing_map :: "order_billing list \<Rightarrow> string \<rightharpoonup> string" where
  "billing_map bs = fold (\<lambda>b m. m(bill_name b \<mapsto> bill_description b)) bs Map.empty"

text \<open>
  The payment row is represented by the order's \<open>payment_id\<close> (the \<open>payments\<close>
  table is not modelled).  The percentages divide by the stored subtotal: a zero
  subtotal raises \<open>decimal.DivisionByZero\<close> (or \<open>InvalidOperation\<close> for 0/0).
  \<open>Decimal\<close> division rounds to 28 significant digits; the model divides exactly.
\<close>

record detail_view =
  dv_discount :: money
  dv_taxes :: money
  dv_shipment :: money
  dv_carts :: "cart_row list"
  dv_order :: order
  dv_payment :: "nat option"
  dv_billing :: "string \<rightharpoonup> string"

definition view_order_detail :: "nat \<Rightarrow> db \<Rightarrow> error + detail_view reply" where
  "view_order_detail oid s =
     (case find_order oid s of
        None \<Rightarrow> Inr (BadRequest ''We can't find a record with id is invalid'')
      | Some r \<Rightarrow>
          if subtotal r = 0 then Inl DecimalError
          else Inr (Ok \<lparr>dv_discount = total_discount r / subtotal r * 100,
                        dv_taxes = total_taxes r / subtotal r * 100,
                        dv_shipment = total_shipment r,
                        dv_carts = order_carts oid s,
                        dv_order = r,
                        dv_payment = payment_id r,
                        dv_billing = billing_map (filter (\<lambda>b. bill_order_id b = oid) (billings s))\<rparr>))"

subsection \<open>Cancel\<close>

text \<open>
  \<open>view_order_cancel\<close> looks the order up by id alone: the caller's id is only used
  for the activity row.  The bulk deletes remove the order's lines and billing rows,
  \<open>order.products = []\<close> its rows of \<open>orders_carts\<close> (pairs of order and product
  id), and the last delete the order.  Nothing is given back to the stock.
\<close>

definition cancel_rows :: "nat \<Rightarrow> db \<Rightarrow> db" where
  "cancel_rows oid s =
     s\<lparr>details := delete_where (\<lambda>d. order_id d = oid) (details s),
       billings := delete_where (\<lambda>b. bill_order_id b = oid) (billings s),
       orders_carts := delete_where (\<lambda>(o', p). o' = oid) (orders_carts s),
       orders := delete_where (\<lambda>r. ord_id r = oid) (orders s)\<rparr>"

definition view_order_cancel :: "nat \<Rightarrow> nat \<Rightarrow> db \<Rightarrow> db reply" where
  "view_order_cancel oid uid s =
     (case find_order oid s of
        None \<Rightarrow> BadRequest ''We can't find a record with id is invalid''
      | Some r \<Rightarrow> Ok (log_activity uid ''Cancel Order'' ''Canceling Current Order''
                      ''Your has been canceling current order.'' (cancel_rows oid s)))"

subsection \<open>Properties of LIKE\<close>

lemma like_match_percent:
  "like_match (CHR ''%'' # p) t \<longleftrightarrow> (\<exists>u v. t = u @ v \<and> like_match p v)"
proof (induction t)
  case Nil then show ?case by simp
next
  case (Cons x t) then show ?case
    by (auto simp: Cons_eq_append_conv)
qed

lemma like_match_plain:
  "like_plain q \<Longrightarrow> like_match (q @ p) t \<longleftrightarrow> (\<exists>v. t = q @ v \<and> like_match p v)"
proof (induction q arbitrary: t)
  case Nil then show ?case by simp
next
  case (Cons c q) then show ?case
    by (cases t) (auto simp: like_plain_def)
qed

lemma like_match_any: "like_match ''%'' t"
  using like_match_percent [of "[]" t] by simp

lemma like_match_substring:
  assumes "like_plain q"
  shows "like_match (CHR ''%'' # q @ ''%'') t \<longleftrightarrow> sublist q t"
proof -
  have "like_match (CHR ''%'' # q @ ''%'') t \<longleftrightarrow> (\<exists>u v. t = u @ v \<and> like_match (q @ ''%'') v)"
    by (rule like_match_percent)
  also have "\<dots> \<longleftrightarrow> (\<exists>u w. t = u @ q @ w)"
    using like_match_plain [OF assms] like_match_any by auto
  finally show ?thesis by (simp add: sublist_def)
qed

lemma lower_ascii_meta [simp]:
  "lower_ascii c = CHR ''%'' \<longleftrightarrow> c = CHR ''%''"
  "lower_ascii c = CHR ''_'' \<longleftrightarrow> c = CHR ''_''"
  "lower_ascii c = CHR 0x5C \<longleftrightarrow> c = CHR 0x5C"
  by (auto simp: lower_ascii_def Let_def dest!: arg_cong [where f = "of_char :: char \<Rightarrow> nat"])

lemma like_plain_lower: "like_plain (map lower_ascii q) \<longleftrightarrow> like_plain q"
  by (simp add: like_plain_def)

lemma ilike_contains_plain:
  "like_plain q \<Longrightarrow> ilike_contains q t \<longleftrightarrow> sublist (map lower_ascii q) (map lower_ascii t)"
  using like_match_substring [of "map lower_ascii q"]
  by (simp add: ilike_contains_def like_plain_lower lower_ascii_def)

subsection \<open>Properties of the listing\<close>

abbreviation listed :: "nat \<Rightarrow> string option \<Rightarrow> db \<Rightarrow> order list" where
  "listed uid q s \<equiv> filter (order_filter uid q) (rev (sort_key ord_id (orders s)))"

lemma view_order_list_ok:
  assumes "0 \<le> limit" and "0 < page"
  shows "view_order_list uid page limit q s =
    Inr \<lparr>lv_list = take (nat limit) (drop (nat (page - 1) * nat limit) (listed uid q s)),
         lv_total_all = sql_count (\<lambda>r. user_id r = uid) (orders s),
         lv_total_filtered = length (listed uid q s), lv_limit = limit\<rparr>"
proof -
  have "\<not> (page - 1) * limit < 0" using assms by (simp add: not_less)
  with assms show ?thesis by (simp add: view_order_list_def Let_def nat_mult_distrib)
qed

lemma length_filter_perm:
  "mset ys = mset xs \<Longrightarrow> length (filter P ys) = length (filter P xs)"
  by (metis mset_filter size_mset)

lemma like_match_underscore_any: "like_match (CHR ''_'' # ''%'') v \<longleftrightarrow> v \<noteq> []"
  using like_match_any by (cases v) simp_all

lemma like_match_underscore:
  assumes "like_plain p"
  shows "like_match (CHR ''%'' # p @ CHR ''_'' # ''%'') t \<longleftrightarrow> (\<exists>u x w. t = u @ p @ x # w)"
proof -
  have "like_match (CHR ''%'' # p @ CHR ''_'' # ''%'') t \<longleftrightarrow>
        (\<exists>u v. t = u @ v \<and> like_match (p @ CHR ''_'' # ''%'') v)"
    by (rule like_match_percent)
  also have "\<dots> \<longleftrightarrow> (\<exists>u w. t = u @ p @ w \<and> w \<noteq> [])"
    using like_match_plain [OF assms] like_match_underscore_any by auto
  also have "\<dots> \<longleftrightarrow> (\<exists>u x w. t = u @ p @ x # w)"
    by (metis neq_Nil_conv)
  finally show ?thesis .
qed

text \<open>
  C12: a search term without LIKE metacharacters lists exactly the caller's orders
  whose invoice number contains the term, compared case-insensitively; the filtered
  count counts all of them, whatever the page.
\<close>

theorem list_search_substring:
  assumes "like_plain q" and "0 \<le> limit" and "0 < page"
  shows "\<exists>v. view_order_list uid page limit (Some q) s = Inr v \<and>
    (\<forall>r \<in> set (lv_list v). r \<in> set (orders s) \<and> user_id r = uid \<and>
        sublist (map lower_ascii q) (map lower_ascii (invoice_number r))) \<and>
    lv_total_filtered v = length (filter (\<lambda>r. user_id r = uid \<and>
        sublist (map lower_ascii q) (map lower_ascii (invoice_number r))) (orders s))"
proof -
  have f: "order_filter uid (Some q) = (\<lambda>r. user_id r = uid \<and>
        sublist (map lower_ascii q) (map lower_ascii (invoice_number r)))"
    using assms(1) by (auto simp: order_filter_def ilike_contains_plain)
  have "set (take n (drop m (listed uid (Some q) s))) \<subseteq> set (listed uid (Some q) s)" for n m
    by (meson in_set_dropD in_set_takeD subsetI)
  moreover have "length (listed uid (Some q) s) = length (filter (order_filter uid (Some q)) (orders s))"
    by (rule length_filter_perm) simp
  ultimately show ?thesis
    using assms(2,3) by (auto simp: view_order_list_ok f)
qed

text \<open>
  C13: \<open>_\<close> in a search term is a wildcard: searching for \<open>p_\<close> lists every order
  of the caller whose invoice number has some character after an occurrence of
  \<open>p\<close>, whether or not it contains the string \<open>p_\<close>.
\<close>

theorem list_search_underscore:
  assumes "like_plain p"
  shows "order_filter uid (Some (p @ ''_'')) r \<longleftrightarrow>
         user_id r = uid \<and> (\<exists>u x w. map lower_ascii (invoice_number r) = u @ map lower_ascii p @ x # w)"
  using like_match_underscore [of "map lower_ascii p"] assms
  by (simp add: order_filter_def ilike_contains_def like_plain_lower lower_ascii_def)

text \<open>
  C14: with a positive page size the pages partition the filtered, sorted list:
  pages \<open>1..n\<close> together are its first \<open>n * limit\<close> orders, in order, without
  gaps or repetitions.
\<close>

theorem list_pages_partition:
  assumes "0 < limit"
  shows "concat (map (\<lambda>k. lv_list (projr (view_order_list uid (int k) limit q s))) [1..<Suc n]) =
         take (n * nat limit) (filter (order_filter uid q) (rev (sort_key ord_id (orders s))))"
proof (induction n)
  case 0 then show ?case by simp
next
  case (Suc n)
  have "view_order_list uid (int (Suc n)) limit q s =
    Inr \<lparr>lv_list = take (nat limit) (drop (n * nat limit) (listed uid q s)),
         lv_total_all = sql_count (\<lambda>r. user_id r = uid) (orders s),
         lv_total_filtered = length (listed uid q s), lv_limit = limit\<rparr>"
    using assms by (simp add: view_order_list_ok)
  moreover have "Suc n * nat limit = n * nat limit + nat limit" by simp
  ultimately show ?case using Suc by (simp only: take_add) simp
qed

text \<open>
  C15: a page number below 1 with a positive page size gives a negative \<open>OFFSET\<close>,
  which MySQL rejects: the request fails.
\<close>

theorem list_bad_page:
  assumes "page < 1" and "0 < limit"
  shows "view_order_list uid page limit q s = Inl SqlError"
proof -
  have "(page - 1) * limit < 0" using assms by (simp add: mult_neg_pos)
  then show ?thesis by (simp add: view_order_list_def Let_def)
qed

subsection \<open>Properties of cancel and detail\<close>

lemma cancel_rows_tables [simp]:
  "inventories (cancel_rows oid s) = inventories s" "products (cancel_rows oid s) = products s"
  "settings (cancel_rows oid s) = settings s" "wishlists (cancel_rows oid s) = wishlists s"
  "reviews (cancel_rows oid s) = reviews s" "activities (cancel_rows oid s) = activities s"
  "next_order (cancel_rows oid s) = next_order s" "next_detail (cancel_rows oid s) = next_detail s"
  "next_billing (cancel_rows oid s) = next_billing s" "next_review (cancel_rows oid s) = next_review s"
  "accounts (cancel_rows oid s) = accounts s"
  by (simp_all add: cancel_rows_def accounts_def)

lemma cancel_rows_billings [simp]:
  "billings (cancel_rows oid s) = delete_where (\<lambda>b. bill_order_id b = oid) (billings s)"
  by (simp add: cancel_rows_def)

lemma find_order_cancel_rows:
  "find_order o' (cancel_rows oid s) = (if o' = oid then None else find_order o' s)"
proof (cases "o' = oid")
  case True then show ?thesis by (simp add: find_order_def cancel_rows_def find_delete_where_self)
next
  case False
  then have "find (\<lambda>r. ord_id r = o') (delete_where (\<lambda>r. ord_id r = oid) (orders s)) =
             find (\<lambda>r. ord_id r = o') (orders s)"
    by (intro find_delete_where_frame) simp
  with False show ?thesis by (simp add: find_order_def cancel_rows_def)
qed

lemma order_lines_cancel_rows:
  "order_lines o' (cancel_rows oid s) = (if o' = oid then [] else order_lines o' s)"
proof (cases "o' = oid")
  case True then show ?thesis by (simp add: order_lines_def cancel_rows_def filter_delete_where_self)
next
  case False
  then have "filter (\<lambda>d. order_id d = o') (delete_where (\<lambda>d. order_id d = oid) (details s)) =
             filter (\<lambda>d. order_id d = o') (details s)"
    by (intro filter_delete_where_frame) simp
  with False show ?thesis by (simp add: order_lines_def cancel_rows_def)
qed

lemma cancel_rows_wf:
  assumes "db_wf s"
  shows "db_wf (cancel_rows oid s)"
proof -
  have k: "keys_ok (cancel_rows oid s)"
    using assms by (simp add: db_wf_def keys_ok_def cancel_rows_def delete_where_def distinct_map_filter)
  have d: "single_draft (cancel_rows oid s)"
    using assms unfolding db_wf_def single_draft_def cancel_rows_def delete_where_def
    by (auto intro: distinct_map_filter_mono)
  have u: "unique_lines (cancel_rows oid s)"
    using assms by (simp add: db_wf_def unique_lines_def cancel_rows_def delete_where_def distinct_map_filter)
  have "set (map order_id (details s)) \<subseteq> set (map ord_id (orders s))"
    using assms by (simp add: db_wf_def refs_ok_def)
  then have "set (map order_id (delete_where (\<lambda>d. order_id d = oid) (details s))) \<subseteq>
             set (map ord_id (delete_where (\<lambda>r. ord_id r = oid) (orders s)))"
    by (auto simp: set_delete_where)
  then have r: "refs_ok (cancel_rows oid s)"
    using assms by (auto simp: db_wf_def refs_ok_def cancel_rows_def set_delete_where)
  have c: "drafts_counted (cancel_rows oid s)"
    using assms by (simp add: db_wf_def drafts_counted_def cancel_rows_def delete_where_def)
  from k d u r c show ?thesis by (simp add: db_wf_def)
qed
lemma view_order_cancel_Ok:
  "view_order_cancel oid uid s = Ok s' \<longleftrightarrow>
   find_order oid s \<noteq> None \<and> s' = log_activity uid ''Cancel Order'' ''Canceling Current Order''
                      ''Your has been canceling current order.'' (cancel_rows oid s)"
  by (auto simp: view_order_cancel_def split: option.splits)

text \<open>
  C16: a successful cancel removes the order, its lines and its billing rows, after
  which the detail view answers "not found"; every other order and its lines are
  unchanged.
\<close>

theorem cancel_removes_order:
  assumes "view_order_cancel oid uid s = Ok s'"
  shows "find_order oid s' = None \<and> order_lines oid s' = [] \<and>
         filter (\<lambda>b. bill_order_id b = oid) (billings s') = [] \<and>
         view_order_detail oid s' = Inr (BadRequest ''We can't find a record with id is invalid'') \<and>
         (\<forall>o'. o' \<noteq> oid \<longrightarrow> find_order o' s' = find_order o' s \<and> order_lines o' s' = order_lines o' s)"
  using assms
  by (simp add: view_order_cancel_Ok find_order_cancel_rows order_lines_cancel_rows
      view_order_detail_def filter_delete_where_self find_order_log_activity)

text \<open>Cancel keeps the integrity invariant \<open>db_wf\<close>.\<close>

theorem cancel_keeps_wf:
  "db_wf s \<Longrightarrow> view_order_cancel oid uid s = Ok s' \<Longrightarrow> db_wf s'"
  by (simp add: view_order_cancel_Ok cancel_rows_wf)

text \<open>
  C18: any caller can cancel any existing order, whoever owns it and whether or not
  it is placed; the taken stock and the products' sale counts are not restored.
\<close>

theorem cancel_any_order_keeps_stock:
  assumes "find_order oid s = Some r"
  shows "\<exists>s'. view_order_cancel oid uid s = Ok s' \<and> find_order oid s' = None \<and>
              inventories s' = inventories s \<and> products s' = products s"
  using assms by (simp add: view_order_cancel_def find_order_cancel_rows find_order_log_activity)

text \<open>
  The detail view of an existing order whose subtotal is 0 fails with a
  division by zero instead of showing the order.
\<close>

theorem detail_zero_subtotal:
  "find_order oid s = Some r \<Longrightarrow> subtotal r = 0 \<Longrightarrow> view_order_detail oid s = Inl DecimalError"
  by (simp add: view_order_detail_def)

end
