(* ===== verification/Wishlist.thy ===== *)
theory Wishlist
  imports Orders
begin

text \<open>
  The wishlist and the session view (\<open>src/backend/src/view_order.py\<close>).
  \<open>view_order_wishlist\<close> (\<open>GET /api/order/wishlist/{id}\<close>, lines 32--56) assigns
  \<open>product.users = [user]\<close>: SQLAlchemy replaces the product's rows of the
  association table \<open>products_wishlists\<close> (pairs of product and user id) by the one
  row of the caller, then logs an activity and returns the product.
  \<open>view_order_session\<close> (\<open>GET /api/order/session\<close>, lines 58--100) shows the caller's
  draft order, its lines joined with their products (\<open>order_carts\<close>) and the
  products on the caller's wishlist (\<open>user.products\<close>).  The association table is a
  set of pairs; the model keeps it as a list whose order is immaterial.  The caller is
  an existing user (the token check is not modelled).
\<close>

definition set_wishlist :: "nat \<Rightarrow> nat \<Rightarrow> db \<Rightarrow> db" where
  "set_wishlist pid uid s = s\<lparr>wishlists := filter (\<lambda>(p, u). p \<noteq> pid) (wishlists s) @ [(pid, uid)]\<rparr>"

definition view_order_wishlist :: "nat \<Rightarrow> nat \<Rightarrow> db \<Rightarrow> error + (product \<times> db)" where
  "view_order_wishlist uid pid s =
     (case find_product pid s of
        None \<Rightarrow> Inl AttributeError
      | Some p \<Rightarrow> Inr (p, log_activity uid ''Add Wishlist'' ''Add Product To Wishlist''
                          ''Your has been added product to your wishlist.'' (set_wishlist pid uid s)))"

record session_view =
  ss_carts :: "cart_row list"
  ss_order :: "order option"
  ss_wishlists :: "product list"

definition wishlist_products :: "nat \<Rightarrow> db \<Rightarrow> product list" where
  "wishlist_products uid s = filter (\<lambda>p. (prod_id p, uid) \<in> set (wishlists s)) (products s)"

definition view_order_session :: "nat \<Rightarrow> db \<Rightarrow> session_view" where
  "view_order_session uid s =
     (let r = draft_order uid s
      in \<lparr>ss_carts = (case r of None \<Rightarrow> [] | Some d \<Rightarrow> order_carts (ord_id d) s),
          ss_order = r, ss_wishlists = wishlist_products uid s\<rparr>)"

subsection \<open>Properties\<close>

lemma set_wishlist_tables [simp]:
  "orders (set_wishlist pid uid s) = orders s" "details (set_wishlist pid uid s) = details s"
  "inventories (set_wishlist pid uid s) = inventories s" "products (set_wishlist pid uid s) = products s"
  "billings (set_wishlist pid uid s) = billings s" "settings (set_wishlist pid uid s) = settings s"
  "reviews (set_wishlist pid uid s) = reviews s" "activities (set_wishlist pid uid s) = activities s"
  "next_order (set_wishlist pid uid s) = next_order s" "next_detail (set_wishlist pid uid s) = next_detail s"
  "next_billing (set_wishlist pid uid s) = next_billing s" "next_review (set_wishlist pid uid s) = next_review s"
  "accounts (set_wishlist pid uid s) = accounts s"
  by (simp_all add: set_wishlist_def accounts_def)

lemma set_wishlist_mem:
  "(q, u) \<in> set (wishlists (set_wishlist pid uid s)) \<longleftrightarrow>
   (if q = pid then u = uid else (q, u) \<in> set (wishlists s))"
  by (auto simp: set_wishlist_def)

lemma set_wishlist_wf [simp]: "db_wf (set_wishlist pid uid s) = db_wf s"
  by (simp add: db_wf_def keys_ok_def single_draft_def unique_lines_def refs_ok_def drafts_counted_def)

lemma view_order_wishlist_Inr:
  "view_order_wishlist uid pid s = Inr (p, s') \<longleftrightarrow>
   find_product pid s = Some p \<and>
   s' = log_activity uid ''Add Wishlist'' ''Add Product To Wishlist''
          ''Your has been added product to your wishlist.'' (set_wishlist pid uid s)"
  by (auto simp: view_order_wishlist_def split: option.splits)

text \<open>
  C25: adding a product to one's wishlist leaves the caller as the only user wishing
  for it: every other user's entry for that product is removed; entries for other
  products are unchanged and the integrity invariant is unaffected.
\<close>

theorem wishlist_replaces_holders:
  assumes "find_product pid s = Some p"
  shows "\<exists>s'. view_order_wishlist uid pid s = Inr (p, s') \<and>
    {u. (pid, u) \<in> set (wishlists s')} = {uid} \<and>
    (\<forall>q u. q \<noteq> pid \<longrightarrow> ((q, u) \<in> set (wishlists s') \<longleftrightarrow> (q, u) \<in> set (wishlists s))) \<and>
    db_wf s' = db_wf s"
  using assms by (simp add: view_order_wishlist_Inr set_wishlist_mem)

text \<open>
  C26: after a user adds a product to the wishlist, the user's session lists the
  product, and no other user's session does.
\<close>

theorem wishlist_then_session:
  assumes "view_order_wishlist uid pid s = Inr (p, s')"
  shows "p \<in> set (ss_wishlists (view_order_session uid s')) \<and>
         (\<forall>u. u \<noteq> uid \<longrightarrow> (\<forall>x \<in> set (ss_wishlists (view_order_session u s')). prod_id x \<noteq> pid))"
proof -
  from assms have f: "find_product pid s = Some p"
    and s': "s' = log_activity uid ''Add Wishlist'' ''Add Product To Wishlist''
          ''Your has been added product to your wishlist.'' (set_wishlist pid uid s)"
    by (simp_all add: view_order_wishlist_Inr)
  from find_product_Some [OF f] have "p \<in> set (products s)" and "prod_id p = pid" by simp_all
  then show ?thesis
    by (auto simp: s' view_order_session_def wishlist_products_def set_wishlist_mem Let_def)
qed

end
