(* ===== verification/Reviews.thy ===== *)
theory Reviews
  imports Store
begin

text \<open>
  Product reviews (\<open>src/backend/src/view_order.py\<close>).  \<open>view_order_create_review\<close>
  (\<open>POST /api/order/review/{id}\<close>, lines 247--278) inserts a review with the request's
  rating and text and logs an activity naming the product; \<open>view_order_review\<close>
  (\<open>GET /api/order/review/{id}\<close>, lines 230--245) lists a product's reviews newest
  first, each with its rating relative to the product's best rating as a percentage
  (rounded up) and as an index out of 5.  The request body is \<open>CreateReviewSchema\<close>
  (\<open>schema.py\<close>, lines 57--59): an int rating and a text of at least two
  characters.  The rating column is \<open>INTEGER UNSIGNED\<close> (\<open>model.py\<close>, line 269), so
  MySQL refuses a rating outside \<open>0 .. 2^32 - 1\<close> at the commit.
  The percentage is \<open>math.ceil\<close> of a \<open>Decimal\<close> quotient rounded to 28 digits; it
  equals the ceiling of the exact quotient, since \<open>100 * r / top\<close> with
  \<open>top < 2^32\<close> is either an integer (then the decimal quotient is exact) or at
  least \<open>1/top\<close> away from one.
\<close>

record review_form =
  form_rating :: int
  form_review :: string

definition review_form_valid :: "review_form \<Rightarrow> bool" where
  "review_form_valid f \<longleftrightarrow> 2 \<le> length (form_review f)"

definition new_review :: "nat \<Rightarrow> nat \<Rightarrow> review_form \<Rightarrow> db \<Rightarrow> product_review" where
  "new_review uid pid f s =
     \<lparr>rev_id = next_review s, rev_product_id = pid, rev_user_id = uid,
      rating = form_rating f, review_text = form_review f\<rparr>"

definition view_order_create_review ::
  "nat \<Rightarrow> nat \<Rightarrow> review_form \<Rightarrow> db \<Rightarrow> error + (product_review \<times> db)" where
  "view_order_create_review uid pid f s =
     (if \<not> review_form_valid f then Inl ValidationError
      else case find_product pid s of
        None \<Rightarrow> Inl AttributeError
      | Some p \<Rightarrow>
          if \<not> unsigned_int_ok (form_rating f) then Inl RangeError
          else (let r = new_review uid pid f s
                in Inr (r, log_activity uid ''Create new review'' (''Add review to '' @ prod_name p)
                             (''Your has been added new review to '' @ prod_name p)
                             (s\<lparr>reviews := reviews s @ [r], next_review := Suc (next_review s)\<rparr>))))"

record review_view =
  rv_id :: nat
  rv_review :: string
  rv_rating_index :: rat
  rv_percentage :: int

definition product_reviews :: "nat \<Rightarrow> db \<Rightarrow> product_review list" where
  "product_reviews pid s = filter (\<lambda>r. rev_product_id r = pid) (reviews s)"

text \<open>The rating of the first row of \<open>order_by(desc(rating)).first()\<close>: the greatest.\<close>

definition top_rating :: "nat \<Rightarrow> db \<Rightarrow> int option" where
  "top_rating pid s =
     (if product_reviews pid s = [] then None else Some (Max (set (map rating (product_reviews pid s)))))"

definition review_entry :: "int \<Rightarrow> product_review \<Rightarrow> review_view" where
  "review_entry best r =
     \<lparr>rv_id = rev_id r, rv_review = review_text r,
      rv_rating_index = of_int (rating r) / of_int best * 100 / 20,
      rv_percentage = \<lceil>of_int (rating r) / of_int best * (100 :: rat)\<rceil>\<rparr>"

text \<open>
  With no review the lambda is never applied, so the missing top row is not read.
  A top rating of 0 makes every quotient \<open>0/0\<close>, \<open>decimal.InvalidOperation\<close>.
\<close>

definition view_order_review :: "nat \<Rightarrow> db \<Rightarrow> error + review_view list" where
  "view_order_review pid s =
     (let rs = rev (sort_key rev_id (product_reviews pid s))
      in case top_rating pid s of
           None \<Rightarrow> Inr []
         | Some best \<Rightarrow> if best = 0 then Inl DecimalError else Inr (map (review_entry best) rs))"

text \<open>The review table's integrity: distinct ids below the counter, ratings in range.\<close>

definition reviews_ok :: "db \<Rightarrow> bool" where
  "reviews_ok s \<longleftrightarrow> distinct (map rev_id (reviews s)) \<and>
     (\<forall>r \<in> set (reviews s). rev_id r < next_review s \<and> unsigned_int_ok (rating r))"


subsection \<open>Properties of the review handlers\<close>

lemma view_order_create_review_ok:
  assumes "review_form_valid f" and "find_product pid s = Some p" and "unsigned_int_ok (form_rating f)"
  shows "view_order_create_review uid pid f s =
    Inr (new_review uid pid f s,
         log_activity uid ''Create new review'' (''Add review to '' @ prod_name p)
           (''Your has been added new review to '' @ prod_name p)
           (s\<lparr>reviews := reviews s @ [new_review uid pid f s], next_review := Suc (next_review s)\<rparr>))"
  using assms by (simp add: view_order_create_review_def Let_def)

lemma view_order_create_review_Inr:
  assumes "view_order_create_review uid pid f s = Inr (r, s')"
  obtains p where "review_form_valid f" and "find_product pid s = Some p"
    and "unsigned_int_ok (form_rating f)" and "r = new_review uid pid f s"
    and "s' = log_activity uid ''Create new review'' (''Add review to '' @ prod_name p)
           (''Your has been added new review to '' @ prod_name p)
           (s\<lparr>reviews := reviews s @ [r], next_review := Suc (next_review s)\<rparr>)"
  using assms by (auto simp: view_order_create_review_def Let_def split: if_splits option.splits)

lemma reviews_ok_log_activity [simp]: "reviews_ok (log_activity u a b c s) = reviews_ok s"
  by (simp add: reviews_ok_def log_activity_def)

lemma db_wf_reviews_update [simp]:
  "db_wf (s\<lparr>reviews := rs, next_review := n\<rparr>) = db_wf s"
  by (simp add: db_wf_def keys_ok_def single_draft_def unique_lines_def refs_ok_def drafts_counted_def)

lemma insert_review_ok:
  assumes "reviews_ok s" and "unsigned_int_ok (form_rating f)"
  shows "reviews_ok (s\<lparr>reviews := reviews s @ [new_review uid pid f s], next_review := Suc (next_review s)\<rparr>)"
proof -
  have "next_review s \<notin> set (map rev_id (reviews s))" using assms(1) by (auto simp: reviews_ok_def)
  with assms show ?thesis by (auto simp: reviews_ok_def new_review_def less_Suc_eq)
qed

text \<open>
  C20: with a valid body, an existing product and a rating in the column's range, the
  review is stored with the next id, the caller, the product, the rating and the
  text, the review counter advances, one activity naming the product is logged, and
  no order, product, line or inventory row changes.
\<close>

theorem create_review_appends:
  assumes "review_form_valid f" and "find_product pid s = Some p" and "unsigned_int_ok (form_rating f)"
  shows "\<exists>r s'. view_order_create_review uid pid f s = Inr (r, s') \<and>
    reviews s' = reviews s @ [r] \<and> rev_id r = next_review s \<and> rev_product_id r = pid \<and>
    rev_user_id r = uid \<and> rating r = form_rating f \<and> review_text r = form_review f \<and>
    next_review s' = Suc (next_review s) \<and>
    activities s' = activities s @ [\<lparr>act_user_id = uid, subject = ''Create new review'',
       event = ''Add review to '' @ prod_name p,
       act_description = ''Your has been added new review to '' @ prod_name p\<rparr>] \<and>
    orders s' = orders s \<and> products s' = products s \<and> details s' = details s \<and>
    inventories s' = inventories s"
  using assms by (simp add: view_order_create_review_ok new_review_def log_activity_def)

text \<open>
  Creating a review keeps the review table's integrity \<open>reviews_ok\<close>: distinct
  ids below the counter and every rating within the unsigned column's range.
\<close>

theorem create_review_keeps_reviews_ok:
  assumes "reviews_ok s" and "view_order_create_review uid pid f s = Inr (r, s')"
  shows "reviews_ok s'"
proof -
  from assms(2) obtain p where "review_form_valid f" and "find_product pid s = Some p"
    and ok: "unsigned_int_ok (form_rating f)" and r: "r = new_review uid pid f s"
    and s': "s' = log_activity uid ''Create new review'' (''Add review to '' @ prod_name p)
           (''Your has been added new review to '' @ prod_name p)
           (s\<lparr>reviews := reviews s @ [r], next_review := Suc (next_review s)\<rparr>)"
    by (rule view_order_create_review_Inr)
  from insert_review_ok [OF assms(1) ok] show ?thesis by (simp add: s' r)
qed

text \<open>
  C22: a rating the schema accepts but the \<open>INTEGER UNSIGNED\<close> column does not (a
  negative one, or one of \<open>2^32\<close> or more) makes the request fail at the commit.
\<close>

theorem create_review_rating_range:
  assumes "review_form_valid f" and "find_product pid s = Some p" and "\<not> unsigned_int_ok (form_rating f)"
  shows "view_order_create_review uid pid f s = Inl RangeError"
  using assms by (simp add: view_order_create_review_def)

lemma top_rating_Some:
  assumes "top_rating pid s = Some best"
  shows "product_reviews pid s \<noteq> [] \<and> (\<forall>r \<in> set (product_reviews pid s). rating r \<le> best) \<and>
         (\<exists>r \<in> set (product_reviews pid s). rating r = best)"
proof -
  have ne: "product_reviews pid s \<noteq> []" and b: "best = Max (set (map rating (product_reviews pid s)))"
    using assms by (auto simp: top_rating_def split: if_splits)
  then have "best \<in> rating ` set (product_reviews pid s)" by simp
  then obtain b where "b \<in> set (product_reviews pid s)" and "rating b = best" by blast
  with ne b show ?thesis by auto
qed

lemma review_entry_bounds:
  assumes "0 \<le> rating r" and "rating r \<le> best" and "0 < best"
  shows "0 \<le> rv_percentage (review_entry best r) \<and> rv_percentage (review_entry best r) \<le> 100 \<and>
         0 \<le> rv_rating_index (review_entry best r) \<and> rv_rating_index (review_entry best r) \<le> 5"
proof -
  let ?q = "of_int (rating r) / of_int best :: rat"
  have q0: "0 \<le> ?q" and q1: "?q \<le> 1" using assms by simp_all
  have "0 \<le> ?q * 100" using q0 by (rule mult_nonneg_nonneg) simp
  moreover have "?q * 100 \<le> 1 * 100" using q1 by (rule mult_right_mono) simp
  ultimately have "0 \<le> \<lceil>?q * 100\<rceil>" and "\<lceil>?q * 100\<rceil> \<le> 100"
    by (simp_all add: ceiling_le_iff)
  moreover have "0 \<le> ?q * 100 / 20" and "?q * 100 / 20 \<le> 5" using q0 q1 by simp_all
  ultimately show ?thesis by (simp add: review_entry_def)
qed

text \<open>
  C23: on a review table with \<open>reviews_ok\<close>, every listed review has a percentage
  between 0 and 100 and a rating index between 0 and 5, and a non-empty listing has a
  review at 100\%.
\<close>

theorem review_percentages_bounded:
  assumes "reviews_ok s" and "view_order_review pid s = Inr vs"
  shows "(\<forall>v \<in> set vs. 0 \<le> rv_percentage v \<and> rv_percentage v \<le> 100 \<and>
                       0 \<le> rv_rating_index v \<and> rv_rating_index v \<le> 5) \<and>
         (vs \<noteq> [] \<longrightarrow> (\<exists>v \<in> set vs. rv_percentage v = 100))"
proof (cases "top_rating pid s")
  case None
  with assms(2) show ?thesis by (simp add: view_order_review_def Let_def)
next
  case (Some best)
  from top_rating_Some [OF Some] obtain b where b: "b \<in> set (product_reviews pid s)" "rating b = best"
    and le: "\<forall>r \<in> set (product_reviews pid s). rating r \<le> best" by blast
  have nn: "\<forall>r \<in> set (product_reviews pid s). 0 \<le> rating r"
    using assms(1) by (auto simp: reviews_ok_def unsigned_int_ok_def product_reviews_def)
  from assms(2) Some have "best \<noteq> 0" and vs: "vs = map (review_entry best) (rev (sort_key rev_id (product_reviews pid s)))"
    by (auto simp: view_order_review_def Let_def split: if_splits)
  with b nn have pos: "0 < best" by force
  have "\<forall>v \<in> set vs. 0 \<le> rv_percentage v \<and> rv_percentage v \<le> 100 \<and>
                       0 \<le> rv_rating_index v \<and> rv_rating_index v \<le> 5"
    using vs le nn pos review_entry_bounds by auto
  moreover have "review_entry best b \<in> set vs" using vs b by simp
  moreover have "rv_percentage (review_entry best b) = 100" using b pos by (simp add: review_entry_def)
  ultimately show ?thesis by blast
qed

text \<open>
  If a product has reviews and all of them rate it 0, listing its reviews fails
  with a \<open>0/0\<close> Decimal error.
\<close>

theorem review_all_zero_fails:
  assumes "product_reviews pid s \<noteq> []" and "\<forall>r \<in> set (product_reviews pid s). rating r = 0"
  shows "view_order_review pid s = Inl DecimalError"
proof -
  obtain best where t: "top_rating pid s = Some best" using assms(1) by (simp add: top_rating_def)
  with top_rating_Some [OF t] assms(2) have "best = 0" by auto
  with t show ?thesis by (simp add: view_order_review_def)
qed

end
