(* ===== verification/Scenarios.thy ===== *)
theory Scenarios
  imports Wishlist Reviews
begin

text \<open>
  A small store used to instantiate the theorems: a laptop at 250 and a phone at
  99.99, one inventory row each, the pricing settings 5\% discount, 10\% taxes and
  50 shipment, one payment method (bank transfer, id 1), the customers 7, 8 and 9,
  user 7 holding a draft order with two laptops (and the phone on the
  wishlist), and user 9 holding a draft without lines; a variant of the store holds
  two laptop reviews rated 4 and 2.  Every witness below evaluates
  the handlers on this store with \<open>simp\<close>.
\<close>

definition demo_laptop :: product where
  "demo_laptop = \<lparr>prod_id = 1, prod_name = ''Laptop'', price = 250, total_order = 0, total_rating = 3,
     prod_brand_id = Some 1, prod_image = None, sku = ''LP-1'', published_date = Some 0,
     prod_details = ''16 GB'', prod_description = ''A laptop'', prod_status = 1\<rparr>"

definition demo_inventory :: inventory where
  "demo_inventory = \<lparr>inv_id = 1, product_id = 1, size_id = 2, colour_id = 3, stock = 10\<rparr>"

definition demo_phone :: product where
  "demo_phone = \<lparr>prod_id = 2, prod_name = ''Phone'', price = 9999 / 100, total_order = 5, total_rating = 4,
     prod_brand_id = Some 2, prod_image = None, sku = ''PH-2'', published_date = Some 0,
     prod_details = ''5G'', prod_description = ''A phone'', prod_status = 1\<rparr>"

definition demo_phone_inventory :: inventory where
  "demo_phone_inventory = \<lparr>inv_id = 2, product_id = 2, size_id = 1, colour_id = 1, stock = 3\<rparr>"

definition demo_empty_draft :: order where
  "demo_empty_draft = \<lparr>ord_id = 2, user_id = 9, payment_id = None, invoice_number = ''43'',
     total_item = Some 1, subtotal = 250, total_discount = 0, total_taxes = 0,
     total_shipment = 0, total_paid = 250, ord_status = 0\<rparr>"

definition demo_draft :: order where
  "demo_draft = \<lparr>ord_id = 1, user_id = 7, payment_id = None, invoice_number = ''42'',
     total_item = Some 2, subtotal = 500, total_discount = 0, total_taxes = 0,
     total_shipment = 0, total_paid = 500, ord_status = 0\<rparr>"

definition demo_line :: order_detail where
  "demo_line = \<lparr>det_id = 1, order_id = 1, inventory_id = 1, det_price = 250, qty = 2, det_total = 500\<rparr>"

definition demo_customer :: "nat \<Rightarrow> string \<Rightarrow> user" where
  "demo_customer i nm = \<lparr>usr_id = i, email = nm @ ''@example.com'', phone = None,
     password = Some (Bcrypt ''Secret#123''), image = None, first_name = Some nm,
     last_name = None, gender = None, city = None, zip_code = None, country = None,
     address = None, usr_status = 1\<rparr>"

definition demo_transfer :: payment where
  "demo_transfer = \<lparr>pay_id = 1, pay_name = ''Bank Transfer'', pay_status = 1\<rparr>"

definition demo_db :: db where
  "demo_db = \<lparr>products = [demo_laptop, demo_phone],
     inventories = [demo_inventory, demo_phone_inventory],
     orders = [demo_draft, demo_empty_draft], details = [demo_line], billings = [],
     settings = store_settings 5 10 50, wishlists = [(1, 7), (2, 7), (1, 8)], orders_carts = [],
     activities = [], reviews = [], next_order = 3, next_detail = 2, next_billing = 1,
     next_review = 1, users = [demo_customer 7 ''ann'', demo_customer 8 ''ben'', demo_customer 9 ''cal''],
     authentications = [], next_user = 10, next_auth = 1,
     categories = [], brands = [], products_categories = [], newsletters = [], next_newsletter = 1,
     sizes = [], colours = [], products_images = [], payments = [demo_transfer]\<rparr>"

definition demo_cart_form :: "int \<Rightarrow> cart_form" where
  "demo_cart_form q = \<lparr>form_size_id = 2, form_colour_id = 3, form_qty = q\<rparr>"

definition demo_checkout_form :: "string option \<Rightarrow> checkout_form" where
  "demo_checkout_form notes = \<lparr>form_payment_id = 1, form_email = ''ann@example.com'',
     form_phone = ''5550100'', form_first_name = ''Ann'', form_last_name = ''Lee'',
     form_gender = ''F'', form_address = Some ''1 Main St'', form_country = Some ''ID'',
     form_city = Some ''Jakarta'', form_zip_code = Some ''10110'', form_notes = notes\<rparr>"

definition demo_review_form :: "int \<Rightarrow> review_form" where
  "demo_review_form k = \<lparr>form_rating = k, form_review = ''Solid machine''\<rparr>"

definition demo_reviewed_db :: db where
  "demo_reviewed_db = demo_db\<lparr>reviews :=
     [\<lparr>rev_id = 1, rev_product_id = 1, rev_user_id = 7, rating = 4, review_text = ''Great''\<rparr>,
      \<lparr>rev_id = 2, rev_product_id = 1, rev_user_id = 8, rating = 2, review_text = ''Slow''\<rparr>],
     next_review := 3\<rparr>"

lemmas demo_defs = demo_laptop_def demo_inventory_def demo_draft_def demo_line_def demo_db_def
  demo_cart_form_def demo_phone_def demo_phone_inventory_def demo_empty_draft_def
  demo_checkout_form_def demo_customer_def demo_transfer_def

lemma demo_db_wf: "db_wf demo_db"
  by (simp add: demo_defs db_wf_def keys_ok_def single_draft_def unique_lines_def refs_ok_def
                drafts_counted_def)

lemma demo_add_eval:
  "\<exists>r' s'. view_order_create_cart 7 1 (demo_cart_form 3) 99 demo_db = Inr (r', s')"
  by (simp add: demo_defs view_order_create_cart_def find_product_def draft_order_def
      is_draft_of_def find_inventory_def add_line_def bump_order_def find_order_def
      update_where_def log_activity_def last_where_def)

lemmas demo_cart_simps = demo_defs view_order_create_cart_def find_product_def draft_order_def
  is_draft_of_def find_inventory_def add_line_def bump_order_def find_order_def update_where_def
  log_activity_def last_where_def open_order_def merge_line_def Let_def py_str_int_def nat_digits.simps

lemmas demo_checkout_simps = demo_defs view_order_checkout_submit_def draft_order_def
  last_where_def is_draft_of_def order_lines_def find_product_def update_where_def
  billing_fields_def frozen_order_def sql_sum_def log_activity_def Let_def numeric_18_4_def
  view_order_initial_def take_stock_def count_sale_def clear_wishlist_def unsigned_int_ok_def

lemma demo_find_laptop: "find_product 1 demo_db = Some demo_laptop"
  by (simp add: demo_defs find_product_def)

lemma demo_find_inventory:
  "find_inventory 1 (form_size_id (demo_cart_form q)) (form_colour_id (demo_cart_form q)) demo_db =
   Some demo_inventory"
  by (simp add: demo_defs find_inventory_def)

subsection \<open>Witnesses of the cart theorems\<close>

text \<open>User 7 has two laptops in the cart and adds three more: one line of five laptops
  for 1250 (the example of the specification).\<close>

theorem add_to_cart_merges_line_witness:
  "\<exists>r' s'. view_order_create_cart 7 1 (demo_cart_form 3) 99 demo_db = Inr (r', s') \<and>
     (\<exists>d. line_rows (ord_id r') (inv_id demo_inventory) s' = [d] \<and>
          qty d = 5 \<and> det_total d = 1250 \<and> det_price d = 250)"
proof -
  obtain r' s' where ok: "view_order_create_cart 7 1 (demo_cart_form 3) 99 demo_db = Inr (r', s')"
    using demo_add_eval by blast
  have r': "ord_id r' = 1" using ok by (auto simp: demo_cart_simps)
  have old: "line_rows 1 1 demo_db = [demo_line]" by (simp add: demo_defs line_rows_def)
  from add_to_cart_merges_line [OF demo_db_wf ok demo_find_laptop demo_find_inventory]
  obtain d where "line_rows (ord_id r') (inv_id demo_inventory) s' = [d]"
    and "qty d = sum_list (map qty (line_rows (ord_id r') (inv_id demo_inventory) demo_db)) + 3"
    and "det_total d = sum_list (map det_total (line_rows (ord_id r') (inv_id demo_inventory) demo_db)) + 3 * 250"
    and "det_price d = 250"
    by (auto simp: demo_defs)
  with ok r' old show ?thesis by (auto simp: demo_defs)
qed

text \<open>User 8 has no draft order and adds two laptops: the new order counts four
  laptops and 1000 while its only line holds two laptops for 500.\<close>

theorem first_add_to_cart_double_counts_witness:
  "\<exists>r' s'. view_order_create_cart 8 1 (demo_cart_form 2) 99 demo_db = Inr (r', s') \<and>
     total_item r' = Some 4 \<and> subtotal r' = 1000 \<and> total_paid r' = 1000 \<and>
     lines_total (ord_id r') s' = 500"
proof -
  have ev: "\<exists>r' s'. view_order_create_cart 8 1 (demo_cart_form 2) 99 demo_db = Inr (r', s')"
    by (simp add: demo_cart_simps)
  then obtain r' s' where ok: "view_order_create_cart 8 1 (demo_cart_form 2) 99 demo_db = Inr (r', s')"
    by blast
  have none: "draft_order 8 demo_db = None"
    by (simp add: demo_defs draft_order_def last_where_def is_draft_of_def)
  from first_add_to_cart_double_counts [OF demo_db_wf none ok demo_find_laptop demo_find_inventory]
  show ?thesis using ok by (auto simp: demo_defs)
qed

text \<open>User 7 adds three laptops to the draft holding two: subtotal 500 becomes 1250 and
  the lines grow by the same 750.\<close>

theorem add_to_cart_existing_draft_witness:
  "\<exists>r' s'. view_order_create_cart 7 1 (demo_cart_form 3) 99 demo_db = Inr (r', s') \<and>
     ord_id r' = 1 \<and> total_item r' = Some 5 \<and> subtotal r' = 1250 \<and>
     subtotal r' - lines_total (ord_id r') s' = 0"
proof -
  obtain r' s' where ok: "view_order_create_cart 7 1 (demo_cart_form 3) 99 demo_db = Inr (r', s')"
    using demo_add_eval by blast
  have draft: "draft_order 7 demo_db = Some demo_draft"
    by (simp add: demo_defs draft_order_def last_where_def is_draft_of_def)
  have lt: "lines_total 1 demo_db = 500"
    by (simp add: demo_defs lines_total_def order_lines_def)
  from add_to_cart_existing_draft [OF demo_db_wf draft ok demo_find_laptop demo_find_inventory]
  show ?thesis using ok lt by (auto simp: demo_defs)
qed

subsection \<open>Witnesses of the checkout theorems\<close>

lemma demo_draft_7: "draft_order 7 demo_db = Some demo_draft"
  by (simp add: demo_defs draft_order_def last_where_def is_draft_of_def)

lemma demo_draft_9: "draft_order 9 demo_db = Some demo_empty_draft"
  by (simp add: demo_defs draft_order_def last_where_def is_draft_of_def)

lemma demo_complete: "None \<notin> set (map snd (billing_fields (demo_checkout_form (Some ''ring twice''))))"
  by (simp add: demo_defs billing_fields_def)

lemma demo_pay: "form_payment_id (demo_checkout_form n) \<in> set (map pay_id (payments demo_db))"
  by (simp add: demo_defs)

lemma demo_customers: "7 \<in> set (map usr_id (users demo_db))" "9 \<in> set (map usr_id (users demo_db))"
  by (simp_all add: demo_defs)

lemma demo_fit: "lines_fit_columns (order_lines (ord_id demo_draft) demo_db) demo_db"
  by (simp add: demo_defs lines_fit_columns_def order_lines_def line_product_def)

lemma demo_checkout_eval:
  "\<exists>r' s'. view_order_checkout_submit 7 (demo_checkout_form (Some ''ring twice'')) demo_db = Inr (r', s')"
  by (simp add: demo_checkout_simps)

text \<open>User 7 checks out the two laptops.\<close>

theorem checkout_places_order_witness:
  "\<exists>r' s'. view_order_checkout_submit 7 (demo_checkout_form (Some ''ring twice'')) demo_db = Inr (r', s') \<and>
     ord_id r' = 1 \<and> ord_status r' = 1 \<and> payment_id r' = Some 1 \<and> draft_order 7 s' = None"
  using checkout_places_order [OF demo_db_wf demo_draft_7 demo_complete demo_pay demo_customers(1) demo_fit]
  by (simp add: demo_defs)

text \<open>The laptop's stock goes from 10 to 8 and its order count from 0 to 2; the phone is
  untouched.\<close>

theorem checkout_stock_accounting_witness:
  "\<exists>r' s'. view_order_checkout_submit 7 (demo_checkout_form (Some ''ring twice'')) demo_db = Inr (r', s') \<and>
     inventories s' = [demo_inventory\<lparr>stock := 8\<rparr>, demo_phone_inventory] \<and>
     products s' = [demo_laptop\<lparr>total_order := 2\<rparr>, demo_phone]"
proof -
  obtain r' s' where ok: "view_order_checkout_submit 7 (demo_checkout_form (Some ''ring twice'')) demo_db = Inr (r', s')"
    using demo_checkout_eval by blast
  from checkout_stock_accounting [OF ok demo_draft_7] ok show ?thesis
    by (auto simp: demo_defs order_lines_def line_product_def)
qed

text \<open>The quote shows 500 + 50 taxes + 50 shipment - 25 discount = 575, and checkout
  charges 575.\<close>

theorem checkout_charges_quote_witness:
  "\<exists>v r' s'. view_order_initial 7 demo_db = Inr v \<and>
     view_order_checkout_submit 7 (demo_checkout_form (Some ''ring twice'')) demo_db = Inr (r', s') \<and>
     q_total_paid (init_quote v) = 575 \<and> total_paid r' = 575 \<and> total_discount r' = 25"
proof -
  obtain r' s' where ok: "view_order_checkout_submit 7 (demo_checkout_form (Some ''ring twice'')) demo_db = Inr (r', s')"
    using demo_checkout_eval by blast
  have iv: "view_order_initial 7 demo_db = Inr \<lparr>init_order_id = 1, init_invoice = ''42'',
      init_total_item = Some 2, init_quote = quote 500 (store_settings 5 10 50),
      init_discount = 5, init_taxes = 10, init_shipment = 50\<rparr>"
    by (simp add: demo_checkout_simps)
  from checkout_charges_quote [OF iv ok] ok iv show ?thesis
    by (auto simp: numeric_18_4_def)
qed

theorem checkout_paid_rounding_witness:
  "\<exists>r' s'. view_order_checkout_submit 7 (demo_checkout_form (Some ''ring twice'')) demo_db = Inr (r', s') \<and>
     \<bar>total_paid r' - (subtotal r' + total_taxes r' + total_shipment r' - total_discount r')\<bar> \<le> 1 / 5000"
proof -
  obtain r' s' where ok: "view_order_checkout_submit 7 (demo_checkout_form (Some ''ring twice'')) demo_db = Inr (r', s')"
    using demo_checkout_eval by blast
  with checkout_paid_rounding [OF ok] show ?thesis by blast
qed

text \<open>User 9's draft has no line; it is placed with a NULL item count.\<close>

theorem checkout_empty_draft_witness:
  "\<exists>r' s'. view_order_checkout_submit 9 (demo_checkout_form (Some ''ring twice'')) demo_db = Inr (r', s') \<and>
     ord_status r' = 1 \<and> total_item r' = None \<and> wishlists s' = wishlists demo_db \<and>
     inventories s' = inventories demo_db"
proof -
  have "order_lines (ord_id demo_empty_draft) demo_db = []"
    by (simp add: demo_defs order_lines_def)
  from checkout_empty_draft [OF demo_db_wf demo_draft_9 this demo_complete demo_pay] show ?thesis .
qed

text \<open>User 7 wished for the phone but buys laptops: the phone leaves the wishlist too;
  user 8's entry stays.\<close>

theorem checkout_clears_whole_wishlist_witness:
  "\<exists>r' s'. view_order_checkout_submit 7 (demo_checkout_form (Some ''ring twice'')) demo_db = Inr (r', s') \<and>
     wishlists s' = [(1, 8)]"
proof -
  obtain r' s' where ok: "view_order_checkout_submit 7 (demo_checkout_form (Some ''ring twice'')) demo_db = Inr (r', s')"
    using demo_checkout_eval by blast
  have "order_lines (ord_id demo_draft) demo_db \<noteq> []" by (simp add: demo_defs order_lines_def)
  from checkout_clears_whole_wishlist [OF ok demo_draft_7 this] ok show ?thesis
    by (auto simp: demo_defs)
qed

theorem checkout_missing_billing_field_witness:
  "None \<in> set (map snd (billing_fields (demo_checkout_form None))) \<and>
   view_order_checkout_submit 7 (demo_checkout_form None) demo_db = Inl NotNullViolation"
proof -
  have m: "None \<in> set (map snd (billing_fields (demo_checkout_form None)))"
    by (simp add: demo_defs billing_fields_def)
  with checkout_missing_billing_field [OF demo_db_wf demo_draft_7 m demo_pay demo_customers(1) demo_fit]
  show ?thesis by simp
qed

theorem checkout_twice_fails_witness:
  "\<exists>r' s'. view_order_checkout_submit 7 (demo_checkout_form (Some ''ring twice'')) demo_db = Inr (r', s') \<and>
     view_order_checkout_submit 7 (demo_checkout_form (Some ''again'')) s' = Inl AttributeError"
proof -
  obtain r' s' where ok: "view_order_checkout_submit 7 (demo_checkout_form (Some ''ring twice'')) demo_db = Inr (r', s')"
    using demo_checkout_eval by blast
  with checkout_twice_fails [OF demo_db_wf ok] show ?thesis by blast
qed


subsection \<open>Witnesses of the order query theorems\<close>

text \<open>User 7 searches for \<open>42\<close>: the draft with invoice number \<open>42\<close> is the one match.\<close>

theorem list_search_substring_witness:
  "like_plain ''42'' \<and> (\<exists>v. view_order_list 7 1 10 (Some ''42'') demo_db = Inr v \<and>
     lv_total_filtered v = 1 \<and> set (lv_list v) \<subseteq> {demo_draft})"
proof -
  have p: "like_plain ''42''" by (simp add: like_plain_def)
  have n: "length (filter (\<lambda>r. user_id r = 7 \<and>
      sublist (map lower_ascii ''42'') (map lower_ascii (invoice_number r))) (orders demo_db)) = 1"
    by (simp add: demo_defs lower_ascii_def)
  have u: "\<And>r. r \<in> set (orders demo_db) \<Longrightarrow> user_id r = 7 \<Longrightarrow> r = demo_draft"
    by (auto simp: demo_defs)
  from list_search_substring [OF p, of 10 1 7 demo_db] p n u show ?thesis by fastforce
qed

text \<open>An invoice number \<open>4242\<close> matches the search \<open>4_\<close>, which it does not contain.\<close>

theorem list_search_underscore_witness:
  "like_plain ''4'' \<and> order_filter 7 (Some (''4'' @ ''_'')) (demo_draft\<lparr>invoice_number := ''4242''\<rparr>) \<and>
   \<not> sublist ''4_'' ''4242''"
proof -
  have p: "like_plain ''4''" by (simp add: like_plain_def)
  have "map lower_ascii (invoice_number (demo_draft\<lparr>invoice_number := ''4242''\<rparr>)) =
        [] @ map lower_ascii ''4'' @ CHR ''2'' # ''42''"
    by (simp add: lower_ascii_def)
  then have e: "\<exists>u x w. map lower_ascii (invoice_number (demo_draft\<lparr>invoice_number := ''4242''\<rparr>)) =
      u @ map lower_ascii ''4'' @ x # w" by blast
  have "user_id (demo_draft\<lparr>invoice_number := ''4242''\<rparr>) = 7" by (simp add: demo_defs)
  with e have "order_filter 7 (Some (''4'' @ ''_'')) (demo_draft\<lparr>invoice_number := ''4242''\<rparr>)"
    by (intro list_search_underscore [OF p, THEN iffD2] conjI)
  moreover have "\<not> sublist ''4_'' ''4242''" by code_simp
  ultimately show ?thesis using p by blast
qed

text \<open>Two pages of one order each hold user 7's only order once.\<close>

theorem list_pages_partition_witness:
  "concat (map (\<lambda>k. lv_list (projr (view_order_list 7 (int k) 1 None demo_db))) [1..<Suc 2]) = [demo_draft]"
proof -
  have "take (2 * nat 1) (filter (order_filter 7 None) (rev (sort_key ord_id (orders demo_db)))) = [demo_draft]"
    by (simp add: demo_defs order_filter_def)
  with list_pages_partition [of 1 7 None demo_db 2] show ?thesis by simp
qed

theorem list_bad_page_witness: "view_order_list 7 0 10 None demo_db = Inl SqlError"
  using list_bad_page [of 0 10 7 None demo_db] by simp

text \<open>User 7 cancels user 9's empty draft; user 7's own order and line are untouched.\<close>

theorem cancel_removes_order_witness:
  "\<exists>s'. view_order_cancel 2 7 demo_db = Ok s' \<and> find_order 2 s' = None \<and>
     order_lines 1 s' = [demo_line] \<and>
     view_order_detail 2 s' = Inr (BadRequest ''We can't find a record with id is invalid'')"
proof -
  have ok: "view_order_cancel 2 7 demo_db = Ok (log_activity 7 ''Cancel Order'' ''Canceling Current Order''
                      ''Your has been canceling current order.'' (cancel_rows 2 demo_db))"
    by (simp add: view_order_cancel_def demo_defs find_order_def)
  have "order_lines 1 demo_db = [demo_line]" by (simp add: demo_defs order_lines_def)
  with cancel_removes_order [OF ok] ok show ?thesis by auto
qed

theorem cancel_keeps_wf_witness:
  "db_wf demo_db \<and> (\<exists>s'. view_order_cancel 1 7 demo_db = Ok s' \<and> db_wf s')"
proof -
  have ok: "view_order_cancel 1 7 demo_db = Ok (log_activity 7 ''Cancel Order'' ''Canceling Current Order''
                      ''Your has been canceling current order.'' (cancel_rows 1 demo_db))"
    by (simp add: view_order_cancel_def demo_defs find_order_def)
  from cancel_keeps_wf [OF demo_db_wf ok] ok demo_db_wf show ?thesis by blast
qed

text \<open>User 7 places the order for two laptops; user 8 cancels it; the stock stays at 8.\<close>

theorem cancel_any_order_keeps_stock_witness:
  "\<exists>r' s1 s2. view_order_checkout_submit 7 (demo_checkout_form (Some ''ring twice'')) demo_db = Inr (r', s1) \<and>
     ord_status r' = 1 \<and> view_order_cancel 1 8 s1 = Ok s2 \<and> find_order 1 s2 = None \<and>
     inventories s2 = [demo_inventory\<lparr>stock := 8\<rparr>, demo_phone_inventory]"
proof -
  obtain r' s1 where ok: "view_order_checkout_submit 7 (demo_checkout_form (Some ''ring twice'')) demo_db = Inr (r', s1)"
    using demo_checkout_eval by blast
  have st: "ord_status r' = 1" and f: "find_order 1 s1 = Some r'"
    and inv: "inventories s1 = [demo_inventory\<lparr>stock := 8\<rparr>, demo_phone_inventory]"
    using ok by (auto simp: demo_checkout_simps find_order_def)
  from cancel_any_order_keeps_stock [OF f, of 8] st inv ok show ?thesis by auto
qed

text \<open>User 8 adds zero laptops: the new order has subtotal 0 and its detail view fails.\<close>

theorem detail_zero_subtotal_witness:
  "\<exists>r' s'. view_order_create_cart 8 1 (demo_cart_form 0) 99 demo_db = Inr (r', s') \<and>
     view_order_detail (ord_id r') s' = Inl DecimalError"
proof -
  have "\<exists>r' s'. view_order_create_cart 8 1 (demo_cart_form 0) 99 demo_db = Inr (r', s')"
    by (simp add: demo_cart_simps)
  then obtain r' s' where ok: "view_order_create_cart 8 1 (demo_cart_form 0) 99 demo_db = Inr (r', s')"
    by blast
  have f: "find_order (ord_id r') s' = Some r'" and z: "subtotal r' = 0"
    using ok by (auto simp: demo_cart_simps)
  from detail_zero_subtotal [OF f z] ok show ?thesis by blast
qed



subsection \<open>Witnesses of the review and wishlist theorems\<close>

lemmas demo_review_simps = demo_defs demo_review_form_def view_order_create_review_def
  review_form_valid_def unsigned_int_ok_def find_product_def new_review_def log_activity_def Let_def

lemma demo_reviews_ok: "reviews_ok demo_db"
  by (simp add: demo_defs reviews_ok_def)

text \<open>User 7 rates the laptop 4: the review gets id 1.\<close>

theorem create_review_appends_witness:
  "\<exists>r s'. view_order_create_review 7 1 (demo_review_form 4) demo_db = Inr (r, s') \<and>
     reviews s' = [r] \<and> rev_id r = 1 \<and> rating r = 4"
proof -
  have v: "review_form_valid (demo_review_form 4)" and u: "unsigned_int_ok (form_rating (demo_review_form 4))"
    by (simp_all add: demo_review_simps)
  have e: "reviews demo_db = []" "next_review demo_db = 1" by (simp_all add: demo_defs)
  from create_review_appends [OF v demo_find_laptop u, of 7] obtain r s' where
    "view_order_create_review 7 1 (demo_review_form 4) demo_db = Inr (r, s')"
    and "reviews s' = reviews demo_db @ [r]" and "rev_id r = next_review demo_db"
    and "rating r = form_rating (demo_review_form 4)" by blast
  with e show ?thesis by (auto simp: demo_review_form_def)
qed

theorem create_review_keeps_reviews_ok_witness:
  "reviews_ok demo_db \<and> (\<exists>r s'. view_order_create_review 7 1 (demo_review_form 4) demo_db = Inr (r, s') \<and>
     reviews_ok s')"
proof -
  have "\<exists>r s'. view_order_create_review 7 1 (demo_review_form 4) demo_db = Inr (r, s')"
    by (simp add: demo_review_simps)
  then obtain r s' where ok: "view_order_create_review 7 1 (demo_review_form 4) demo_db = Inr (r, s')" by blast
  from create_review_keeps_reviews_ok [OF demo_reviews_ok ok] ok demo_reviews_ok show ?thesis by blast
qed

text \<open>A rating of -1 passes the schema and is refused by the unsigned column.\<close>

theorem create_review_rating_range_witness:
  "view_order_create_review 7 1 (demo_review_form (-1)) demo_db = Inl RangeError"
proof -
  have v: "review_form_valid (demo_review_form (-1))" and u: "\<not> unsigned_int_ok (form_rating (demo_review_form (-1)))"
    by (simp_all add: demo_review_simps)
  from create_review_rating_range [OF v demo_find_laptop u] show ?thesis .
qed

text \<open>Ratings 4 and 2 are shown as 100\% and 50\%, newest first.\<close>

theorem review_percentages_bounded_witness:
  "reviews_ok demo_reviewed_db \<and> (\<exists>vs. view_order_review 1 demo_reviewed_db = Inr vs \<and>
     map rv_percentage vs = [50, 100] \<and>
     (\<forall>v \<in> set vs. 0 \<le> rv_percentage v \<and> rv_percentage v \<le> 100))"
proof -
  have ok: "reviews_ok demo_reviewed_db"
    by (simp add: demo_defs demo_reviewed_db_def reviews_ok_def unsigned_int_ok_def)
  have v: "view_order_review 1 demo_reviewed_db = Inr (map (review_entry 4)
     [\<lparr>rev_id = 2, rev_product_id = 1, rev_user_id = 8, rating = 2, review_text = ''Slow''\<rparr>,
      \<lparr>rev_id = 1, rev_product_id = 1, rev_user_id = 7, rating = 4, review_text = ''Great''\<rparr>])"
    by (simp add: demo_defs demo_reviewed_db_def view_order_review_def top_rating_def product_reviews_def)
  have p: "map rv_percentage (map (review_entry 4)
     [\<lparr>rev_id = 2, rev_product_id = 1, rev_user_id = 8, rating = 2, review_text = ''Slow''\<rparr>,
      \<lparr>rev_id = 1, rev_product_id = 1, rev_user_id = 7, rating = 4, review_text = ''Great''\<rparr>]) = [50, 100]"
    by (simp add: review_entry_def)
  from review_percentages_bounded [OF ok v] ok v p show ?thesis by auto
qed

text \<open>User 7 rates the laptop 0; the laptop's review page then fails.\<close>

theorem review_all_zero_fails_witness:
  "\<exists>r s'. view_order_create_review 7 1 (demo_review_form 0) demo_db = Inr (r, s') \<and>
     view_order_review 1 s' = Inl DecimalError"
proof -
  have "\<exists>r s'. view_order_create_review 7 1 (demo_review_form 0) demo_db = Inr (r, s')"
    by (simp add: demo_review_simps)
  then obtain r s' where ok: "view_order_create_review 7 1 (demo_review_form 0) demo_db = Inr (r, s')" by blast
  have ne: "product_reviews 1 s' \<noteq> []" and z: "\<forall>x \<in> set (product_reviews 1 s'). rating x = 0"
    using ok by (auto simp: demo_review_simps product_reviews_def)
  from review_all_zero_fails [OF ne z] ok show ?thesis by blast
qed

text \<open>User 8 wishes for the laptop, which user 7 wished for too: user 7's entry goes.\<close>

theorem wishlist_replaces_holders_witness:
  "\<exists>s'. view_order_wishlist 8 1 demo_db = Inr (demo_laptop, s') \<and>
     {u. (1, u) \<in> set (wishlists s')} = {8} \<and> (2, 7) \<in> set (wishlists s')"
proof -
  from wishlist_replaces_holders [OF demo_find_laptop, of 8] obtain s' where
    "view_order_wishlist 8 1 demo_db = Inr (demo_laptop, s')" and "{u. (1, u) \<in> set (wishlists s')} = {8}"
    and "\<forall>q u. q \<noteq> 1 \<longrightarrow> ((q, u) \<in> set (wishlists s') \<longleftrightarrow> (q, u) \<in> set (wishlists demo_db))"
    by blast
  then show ?thesis by (auto simp: demo_defs)
qed

theorem wishlist_then_session_witness:
  "\<exists>s'. view_order_wishlist 8 1 demo_db = Inr (demo_laptop, s') \<and>
     demo_laptop \<in> set (ss_wishlists (view_order_session 8 s')) \<and>
     demo_laptop \<notin> set (ss_wishlists (view_order_session 7 s'))"
proof -
  define S where "S = log_activity 8 ''Add Wishlist'' ''Add Product To Wishlist''
     ''Your has been added product to your wishlist.'' (set_wishlist 1 8 demo_db)"
  have ok: "view_order_wishlist 8 1 demo_db = Inr (demo_laptop, S)"
    using view_order_wishlist_Inr demo_find_laptop S_def by blast
  note w = wishlist_then_session [OF ok]
  then have a: "demo_laptop \<in> set (ss_wishlists (view_order_session 8 S))" by (rule conjunct1)
  have "(7::nat) \<noteq> 8" by simp
  with conjunct2 [OF w, THEN spec [of _ 7]]
  have b: "\<forall>x \<in> set (ss_wishlists (view_order_session 7 S)). prod_id x \<noteq> 1" by blast
  have "prod_id demo_laptop = 1" by (simp add: demo_laptop_def)
  with b have "demo_laptop \<notin> set (ss_wishlists (view_order_session 7 S))" by blast
  with ok a show ?thesis by blast
qed

text \<open>A form naming payment 2, which the store does not have: the commit fails on the
  foreign key.\<close>

theorem checkout_unknown_payment_fails_witness:
  "form_payment_id ((demo_checkout_form None)\<lparr>form_payment_id := 2\<rparr>) \<notin> set (map pay_id (payments demo_db)) \<and>
   view_order_checkout_submit 7 ((demo_checkout_form None)\<lparr>form_payment_id := 2\<rparr>) demo_db = Inl IntegrityError"
proof -
  have n: "form_payment_id ((demo_checkout_form None)\<lparr>form_payment_id := 2\<rparr>) \<notin> set (map pay_id (payments demo_db))"
    by (simp add: demo_defs)
  with checkout_unknown_payment_fails [OF demo_db_wf demo_draft_7 demo_customers(1) demo_fit n]
  show ?thesis by simp
qed

text \<open>The same store with one laptop left in stock: the draft's two laptops overdraw it.\<close>

definition demo_low_stock_db :: db where
  "demo_low_stock_db = demo_db\<lparr>inventories := [demo_inventory\<lparr>stock := 1\<rparr>, demo_phone_inventory]\<rparr>"

theorem checkout_overdrawn_stock_fails_witness:
  "view_order_checkout_submit 7 (demo_checkout_form (Some ''ring twice'')) demo_low_stock_db = Inl RangeError"
proof -
  have wf: "db_wf demo_low_stock_db"
    by (simp add: demo_low_stock_db_def demo_defs db_wf_def keys_ok_def single_draft_def
        unique_lines_def refs_ok_def drafts_counted_def)
  have d: "draft_order 7 demo_low_stock_db = Some demo_draft"
    by (simp add: demo_low_stock_db_def demo_defs draft_order_def last_where_def is_draft_of_def)
  have u: "7 \<in> set (map usr_id (users demo_low_stock_db))"
    by (simp add: demo_low_stock_db_def demo_defs)
  have q: "\<forall>d \<in> set (order_lines (ord_id demo_draft) demo_low_stock_db). 0 \<le> qty d"
    by (simp add: demo_low_stock_db_def demo_defs order_lines_def)
  have st: "\<forall>i \<in> set (inventories demo_low_stock_db). unsigned_int_ok (stock i)"
    by (simp add: demo_low_stock_db_def demo_defs unsigned_int_ok_def)
  have tot: "\<forall>p \<in> set (products demo_low_stock_db). 0 \<le> total_order p \<and>
     total_order p + qty_for (\<lambda>d. line_product demo_low_stock_db d = Some (prod_id p))
       (order_lines (ord_id demo_draft) demo_low_stock_db) < 2 ^ 32"
    by (simp add: demo_low_stock_db_def demo_defs order_lines_def line_product_def)
  have over: "\<exists>i \<in> set (inventories demo_low_stock_db).
     stock i < qty_for (\<lambda>d. inventory_id d = inv_id i) (order_lines (ord_id demo_draft) demo_low_stock_db)"
    by (simp add: demo_low_stock_db_def demo_defs order_lines_def)
  from checkout_overdrawn_stock_fails [OF wf d u q st tot over] show ?thesis .
qed

end
