(* ===== verification/Auth.thy ===== *)
theory Auth
  imports Store
begin

text \<open>
  The authentication handlers of \<open>src/backend/src/view_auth.py\<close>: \<open>view_auth_login\<close>
  (lines 31--67), \<open>view_auth_register\<close> (lines 70--142), \<open>view_auth_confirm\<close>
  (lines 144--178), \<open>view_auth_email_forgot\<close> (lines 180--220) and
  \<open>view_auth_email_reset\<close> (lines 222--267), over the tables \<open>users\<close> and
  \<open>authentications\<close> (\<open>model.py\<close>, lines 42--84) and the request bodies of
  \<open>schema.py\<close> (lines 14--31).  Three library calls are abstracted: the password
  policy \<open>PasswordPolicy.from_names(length=8, uppercase=1, numbers=1, special=1,
  nonletters=1)\<close> is the parameter \<open>pol\<close> (its verdict on a password), \<open>fake.uuid4()\<close>
  is the parameter \<open>tok\<close>, and bcrypt is the abstract hash \<open>Bcrypt\<close> of \<open>Store\<close>.
  \<open>signJWT\<close> (\<open>auth.py\<close>, not in the repository) is the value \<open>SignJWT email\<close>.
  pydantic's \<open>min_length\<close> checks are modelled (\<open>ValidationError\<close>); the \<open>EmailStr\<close>
  syntax check is not (an e-mail address is any string).  \<open>expired_at\<close> is written
  but never compared with the clock by any handler, so it is not modelled.
\<close>

record login_form =
  login_email :: string
  login_password :: string

record register_form =
  reg_name :: string
  reg_email :: string
  reg_password :: string
  reg_password_confirm :: string

record reset_form =
  reset_email :: string
  reset_password :: string
  reset_password_confirm :: string

datatype jwt = SignJWT string

text \<open>\<open>CryptContext.verify\<close>; a NULL hash never verifies.  Real bcrypt reads only the
  first 72 bytes of the password, so two passwords sharing those bytes verify alike; the
  injective \<open>Bcrypt\<close> distinguishes them, which no claim depends on.\<close>

definition bcrypt_verify :: "string \<Rightarrow> pw_hash option \<Rightarrow> bool" where
  "bcrypt_verify p h \<longleftrightarrow> h = Some (Bcrypt p)"

text \<open>\<open>db.query(User).filter(User.email == email).first()\<close>.  The model compares by
  equality; MySQL's default collation of the column ignores case (and the unique index
  with it), so on the server \<open>Ann@x\<close> and \<open>ann@x\<close> are the same address: the
  lookups of the model agree with the server's on addresses that differ other than in
  case, and the witnesses use only such addresses.\<close>

definition find_user_by_email :: "string \<Rightarrow> db \<Rightarrow> user option" where
  "find_user_by_email e s = find (\<lambda>u. email u = e) (users s)"

text \<open>Python's \<open>str.split(c)\<close> for a one-character separator, and \<open>c.join\<close>.\<close>

fun py_split :: "char \<Rightarrow> string \<Rightarrow> string list" where
  "py_split c [] = [[]]"
| "py_split c (x # xs) =
     (let ws = py_split c xs in if x = c then [] # ws else (x # hd ws) # tl ws)"

definition py_join :: "string \<Rightarrow> string list \<Rightarrow> string" where
  "py_join sep ws = (case ws of [] \<Rightarrow> [] | w # vs \<Rightarrow> w @ concat (map (\<lambda>v. sep @ v) vs))"

text \<open>Lines 92--103: the first word is the first name, the rest the last name.\<close>

definition split_name :: "string \<Rightarrow> string \<times> string option" where
  "split_name n =
     (let names = py_split CHR '' '' n
      in if 1 < length names then (hd names, Some (py_join '' '' (tl names))) else (hd names, None))"

text \<open>
  MySQL in strict mode refuses a string longer than its \<open>VARCHAR\<close> column:
  \<open>email\<close> 180, \<open>first_name\<close> and \<open>last_name\<close> 191 characters.
\<close>

definition fits :: "nat \<Rightarrow> string option \<Rightarrow> bool" where
  "fits n v \<longleftrightarrow> (case v of None \<Rightarrow> True | Some x \<Rightarrow> length x \<le> n)"

definition new_user :: "register_form \<Rightarrow> db \<Rightarrow> user" where
  "new_user f s =
     (let (fname, lname) = split_name (reg_name f)
      in \<lparr>usr_id = next_user s, email = reg_email f, phone = None,
          password = Some (Bcrypt (reg_password f)), image = None, first_name = Some fname,
          last_name = lname, gender = None, city = None, zip_code = None, country = None,
          address = None, usr_status = 0\<rparr>)"

definition new_auth :: "nat \<Rightarrow> string \<Rightarrow> string \<Rightarrow> string \<Rightarrow> db \<Rightarrow> authentication" where
  "new_auth uid ty cred tok s =
     \<lparr>auth_id = next_auth s, auth_user_id = uid, auth_type = ty, credential = cred, token = tok,
      auth_status = 0\<rparr>"

definition add_auth :: "authentication \<Rightarrow> db \<Rightarrow> db" where
  "add_auth a s = s\<lparr>authentications := authentications s @ [a], next_auth := Suc (next_auth s)\<rparr>"

subsection \<open>The handlers\<close>

definition view_auth_login :: "login_form \<Rightarrow> db \<Rightarrow> error + (jwt reply \<times> db)" where
  "view_auth_login f s =
     (case find_user_by_email (login_email f) s of
        None \<Rightarrow> Inr (Unauthorized ''You have entered an invalid credential and password. Please try again.'', s)
      | Some u \<Rightarrow>
          if \<not> bcrypt_verify (login_password f) (password u)
          then Inr (Unauthorized ''The password your entered is incorrect. Please try again.'', s)
          else if sql_count (\<lambda>a. auth_user_id a = usr_id u \<and> auth_status a = 1 \<and>
                                  auth_type a = ''email-confirm'') (authentications s) = 0
          then Inr (Unauthorized ''We have sent you an email confirmation. Please confirm your email and then we will active your account.'', s)
          else Inr (Ok (SignJWT (email u)),
                    log_activity (usr_id u) ''Sign In To Application'' ''Sign In'' ''Sign in to application'' s))"

definition view_auth_register ::
  "(string \<Rightarrow> bool) \<Rightarrow> string \<Rightarrow> register_form \<Rightarrow> db \<Rightarrow> error + (string reply \<times> db)" where
  "view_auth_register pol tok f s =
     (if \<not> (8 \<le> length (reg_name f) \<and> 8 \<le> length (reg_password f) \<and> 8 \<le> length (reg_password_confirm f))
      then Inl ValidationError
      else if find_user_by_email (reg_email f) s \<noteq> None
      then Inr (BadRequest (''User with e-mail address `'' @ reg_email f @ ''` already exists. Please try with another one.''), s)
      else if reg_password f \<noteq> reg_password_confirm f
      then Inr (BadRequest ''Please make sure your passwords match.'', s)
      else if \<not> pol (reg_password f)
      then Inr (BadRequest ''Password is weak. Recommended passwords contain at least 8 characters, one uppercase, one lowercase, one number, and one special character.'', s)
      else (let u = new_user f s
            in if \<not> (fits 180 (Some (email u)) \<and> fits 191 (first_name u) \<and> fits 191 (last_name u))
               then Inl RangeError
               else Inr (Ok tok,
                 log_activity (usr_id u) ''Sign Up To Application'' ''Sign Up'' ''Register new user account''
                   (add_auth (new_auth (usr_id u) ''email-confirm'' (reg_email f) tok s)
                     (s\<lparr>users := users s @ [u], next_user := Suc (next_user s)\<rparr>)))))"

text \<open>Confirmation looks the token up among all unused rows, whatever their type.\<close>

definition consume_token :: "string \<Rightarrow> db \<Rightarrow> db" where
  "consume_token tok s =
     s\<lparr>authentications := update_where (\<lambda>a. token a = tok) (\<lambda>a. a\<lparr>auth_status := 2\<rparr>) (authentications s)\<rparr>"

definition view_auth_confirm :: "string \<Rightarrow> db \<Rightarrow> error + (string reply \<times> db)" where
  "view_auth_confirm tok s =
     (case find (\<lambda>a. token a = tok \<and> auth_status a = 0) (authentications s) of
        None \<Rightarrow> Inr (BadRequest ''This e-mail confirmation token is invalid.'', s)
      | Some a \<Rightarrow>
          Inr (Ok ''Your e-mail is verified. You can now login.'',
               log_activity (auth_user_id a) ''Confirmation'' ''E-mail Confirmation''
                 ''Your has been confirmed a registration account.''
                 (consume_token tok
                   (s\<lparr>users := update_where (\<lambda>u. usr_id u = auth_user_id a) (\<lambda>u. u\<lparr>usr_status := 1\<rparr>) (users s)\<rparr>))))"

definition view_auth_email_forgot :: "string \<Rightarrow> string \<Rightarrow> db \<Rightarrow> error + (string reply \<times> db)" where
  "view_auth_email_forgot tok e s =
     (case find_user_by_email e s of
        None \<Rightarrow> Inr (BadRequest ''We can't find a user with that e-mail address.'', s)
      | Some u \<Rightarrow>
          Inr (Ok tok,
               log_activity (usr_id u) ''Confirmation'' ''E-mail Confirmation''
                 ''Your has been confirmed a registration account.''
                 (add_auth (new_auth (usr_id u) ''reset-password'' e tok s) s)))"

text \<open>
  Lines 242--248: the filter \<open>User == password_reset.user\<close> compares the mapped class
  with an instance in Python, which is \<open>False\<close>; SQLAlchemy (1.4 and later) renders it
  as \<open>WHERE false\<close>, so the update matches no row.  (The dictionary's second
  \<open>'password'\<close> key, \<open>None\<close>, overrides the hash.)
\<close>

definition view_auth_email_reset ::
  "(string \<Rightarrow> bool) \<Rightarrow> string \<Rightarrow> reset_form \<Rightarrow> db \<Rightarrow> error + (string reply \<times> db)" where
  "view_auth_email_reset pol tok f s =
     (if \<not> (8 \<le> length (reset_password f) \<and> 8 \<le> length (reset_password_confirm f))
      then Inl ValidationError
      else case find (\<lambda>a. token a = tok \<and> credential a = reset_email f \<and> auth_status a = 0)
                  (authentications s) of
        None \<Rightarrow> Inr (BadRequest ''We can't find a user with that e-mail address or password reset token is invalid.'', s)
      | Some a \<Rightarrow>
          if reset_password f \<noteq> reset_password_confirm f
          then Inr (BadRequest ''Please make sure your passwords match.'', s)
          else if \<not> pol (reset_password f)
          then Inr (BadRequest ''This password reset token is invalid.'', s)
          else Inr (Ok ''You have successfully updated your password.'',
                 log_activity (auth_user_id a) ''Update Current Password'' ''Reset Password''
                   ''Your has been changed a current password.''
                   (consume_token tok
                     (s\<lparr>users := update_where (\<lambda>u. False)
                                   (\<lambda>u. u\<lparr>usr_status := 1, password := None\<rparr>) (users s)\<rparr>))))"

text \<open>
  The integrity of the account tables: distinct user ids below the counter, distinct
  e-mail addresses and (non-NULL) phone numbers (the unique indexes), distinct
  authentication ids below their counter, each row referring to an existing user.
\<close>

definition users_ok :: "db \<Rightarrow> bool" where
  "users_ok s \<longleftrightarrow>
     distinct (map usr_id (users s)) \<and> (\<forall>i \<in> set (map usr_id (users s)). i < next_user s) \<and>
     distinct (map email (users s)) \<and> distinct (List.map_filter id (map phone (users s))) \<and>
     distinct (map auth_id (authentications s)) \<and>
     (\<forall>i \<in> set (map auth_id (authentications s)). i < next_auth s) \<and>
     set (map auth_user_id (authentications s)) \<subseteq> set (map usr_id (users s))"

abbreviation registered :: "string \<Rightarrow> register_form \<Rightarrow> db \<Rightarrow> db" where
  "registered tok f s \<equiv>
     log_activity (next_user s) ''Sign Up To Application'' ''Sign Up'' ''Register new user account''
       (add_auth (new_auth (next_user s) ''email-confirm'' (reg_email f) tok s)
         (s\<lparr>users := users s @ [new_user f s], next_user := Suc (next_user s)\<rparr>))"


abbreviation reset_done :: "string \<Rightarrow> nat \<Rightarrow> db \<Rightarrow> db" where
  "reset_done tok uid s \<equiv>
     log_activity uid ''Update Current Password'' ''Reset Password'' ''Your has been changed a current password.''
       (consume_token tok (s\<lparr>users := update_where (\<lambda>u. False) (\<lambda>u. u\<lparr>usr_status := 1, password := None\<rparr>) (users s)\<rparr>))"


section \<open>Properties of the authentication handlers\<close>

lemma py_split_ne [simp]: "py_split c s \<noteq> []"
  by (induction s) (simp_all add: Let_def)

lemma py_join_Cons: "py_join sep (w # vs) = w @ concat (map (\<lambda>v. sep @ v) vs)"
  by (simp add: py_join_def)

lemma py_join_split: "py_join [c] (py_split c s) = s"
proof (induction s)
  case Nil then show ?case by (simp add: py_join_def)
next
  case (Cons x xs)
  obtain w vs where ws: "py_split c xs = w # vs" using py_split_ne by (cases "py_split c xs") auto
  with Cons show ?case by (simp add: py_join_Cons Let_def)
qed

lemma length_py_split: "length (py_split c s) = Suc (count_list s c)"
proof (induction s)
  case Nil then show ?case by simp
next
  case (Cons x xs)
  obtain w vs where "py_split c xs = w # vs" using py_split_ne by (cases "py_split c xs") auto
  with Cons show ?case by (simp add: Let_def)
qed

lemma count_list_zero: "count_list xs x = 0 \<longleftrightarrow> x \<notin> set xs"
  by (induction xs) auto

lemma split_name_join:
  assumes "split_name n = (fname, lname)"
  shows "fname @ (case lname of None \<Rightarrow> [] | Some l \<Rightarrow> CHR '' '' # l) = n \<and>
         (lname = None \<longleftrightarrow> CHR '' '' \<notin> set n)"
proof -
  obtain w vs where ws: "py_split CHR '' '' n = w # vs"
    using py_split_ne by (cases "py_split CHR '' '' n") auto
  have j: "py_join '' '' (w # vs) = n" using py_join_split [of "CHR '' ''" n] ws by simp
  have "vs = [] \<longleftrightarrow> CHR '' '' \<notin> set n"
    using length_py_split [of "CHR '' ''" n] ws by (auto simp: count_list_zero [symmetric] simp del: length_0_conv dest: sym)
  moreover have "fname @ (case lname of None \<Rightarrow> [] | Some l \<Rightarrow> CHR '' '' # l) = n"
  proof (cases vs)
    case Nil with assms ws j show ?thesis by (simp add: split_name_def py_join_Cons)
  next
    case (Cons v vs')
    with assms ws have "fname = w" and "lname = Some (py_join '' '' vs)"
      by (auto simp: split_name_def)
    with j Cons show ?thesis by (simp add: py_join_Cons)
  qed
  moreover have "lname = None \<longleftrightarrow> vs = []" using assms ws by (auto simp: split_name_def Let_def split: if_splits)
  ultimately show ?thesis by simp
qed

lemma usr_id_new_user [simp]: "usr_id (new_user f s) = next_user s"
  and email_new_user [simp]: "email (new_user f s) = reg_email f"
  and password_new_user [simp]: "password (new_user f s) = Some (Bcrypt (reg_password f))"
  and phone_new_user [simp]: "phone (new_user f s) = None"
  by (simp_all add: new_user_def split_name_def Let_def)

lemma new_auth_fields [simp]:
  "auth_id (new_auth uid ty c tok s) = next_auth s" "auth_user_id (new_auth uid ty c tok s) = uid"
  "auth_type (new_auth uid ty c tok s) = ty" "credential (new_auth uid ty c tok s) = c"
  "token (new_auth uid ty c tok s) = tok" "auth_status (new_auth uid ty c tok s) = 0"
  by (simp_all add: new_auth_def)

lemma view_auth_register_Ok:
  assumes "view_auth_register pol tok f s = Inr (Ok t, s')"
  shows "t = tok \<and> find_user_by_email (reg_email f) s = None \<and> s' = registered tok f s"
  using assms by (auto simp: view_auth_register_def Let_def split: if_splits)

lemma find_user_by_email_None: "find_user_by_email e s = None \<longleftrightarrow> e \<notin> email ` set (users s)"
  by (auto simp: find_user_by_email_def find_None_iff)

text \<open>
  C31: a user who registers with a fresh token and confirms the e-mail can still never sign
  in: the confirmation sets the row's status to 2, while \<open>view_auth_login\<close> looks for an
  e-mail-confirm row with status 1 and answers 401.
\<close>

theorem register_confirm_login_fails:
  assumes ok: "users_ok s" and fresh: "tok \<notin> set (map token (authentications s))"
    and reg: "view_auth_register pol tok f s = Inr (Ok t, s1)"
  shows "\<exists>s2. view_auth_confirm tok s1 = Inr (Ok ''Your e-mail is verified. You can now login.'', s2) \<and>
    view_auth_login \<lparr>login_email = reg_email f, login_password = reg_password f\<rparr> s2 =
      Inr (Unauthorized ''We have sent you an email confirmation. Please confirm your email and then we will active your account.'', s2)"
proof -
  let ?u = "new_user f s" and ?a = "new_auth (next_user s) ''email-confirm'' (reg_email f) tok s"
  from view_auth_register_Ok [OF reg] have nf: "find_user_by_email (reg_email f) s = None"
    and s1: "s1 = registered tok f s" by simp_all
  have auths1: "authentications s1 = authentications s @ [?a]" and users1: "users s1 = users s @ [?u]"
    by (simp_all add: s1 add_auth_def)
  have "find (\<lambda>a. token a = tok \<and> auth_status a = 0) (authentications s1) = Some ?a"
  proof -
    have "find (\<lambda>a. token a = tok \<and> auth_status a = 0) (authentications s) = None"
      using fresh by (auto simp: find_None_iff)
    then show ?thesis by (simp add: auths1 find_append)
  qed
  then obtain s2 where c: "view_auth_confirm tok s1 = Inr (Ok ''Your e-mail is verified. You can now login.'', s2)"
    and s2: "s2 = log_activity (next_user s) ''Confirmation'' ''E-mail Confirmation''
                 ''Your has been confirmed a registration account.''
                 (consume_token tok
                   (s1\<lparr>users := update_where (\<lambda>u. usr_id u = next_user s) (\<lambda>u. u\<lparr>usr_status := 1\<rparr>) (users s1)\<rparr>))"
    by (simp add: view_auth_confirm_def)
  have fu: "find_user_by_email (reg_email f) s2 = Some (?u\<lparr>usr_status := 1\<rparr>)"
  proof -
    have "find (\<lambda>u. email u = reg_email f) (users s1) = Some ?u"
      using nf by (simp add: users1 find_append find_user_by_email_def)
    then show ?thesis
      by (simp add: s2 consume_token_def find_user_by_email_def find_update_where_keep)
  qed
  have old: "\<forall>a \<in> set (authentications s). auth_user_id a \<noteq> next_user s"
    using ok by (fastforce simp: users_ok_def)
  have "sql_count (\<lambda>a. auth_user_id a = next_user s \<and> auth_status a = 1 \<and> auth_type a = ''email-confirm'')
          (authentications s2) = 0"
    using old by (auto simp: s2 consume_token_def auths1 sql_count_def update_where_def filter_empty_conv)
  with fu have "view_auth_login \<lparr>login_email = reg_email f, login_password = reg_password f\<rparr> s2 =
      Inr (Unauthorized ''We have sent you an email confirmation. Please confirm your email and then we will active your account.'', s2)"
    by (simp add: view_auth_login_def bcrypt_verify_def)
  with c show ?thesis by blast
qed

text \<open>
  C34: a successful registration stores a user whose first and last names, joined by the
  space they were split at, give back the submitted name (with no last name exactly when the
  name has no space), with the bcrypt hash of the submitted password and status 0.
\<close>

theorem register_name_roundtrip:
  assumes "view_auth_register pol tok f s = Inr (Ok t, s')"
  shows "\<exists>u fname. find_user_by_email (reg_email f) s' = Some u \<and> first_name u = Some fname \<and>
    fname @ (case last_name u of None \<Rightarrow> [] | Some l \<Rightarrow> CHR '' '' # l) = reg_name f \<and>
    (last_name u = None \<longleftrightarrow> CHR '' '' \<notin> set (reg_name f)) \<and>
    password u = Some (Bcrypt (reg_password f)) \<and> usr_status u = 0"
proof -
  from view_auth_register_Ok [OF assms] have nf: "find_user_by_email (reg_email f) s = None"
    and s': "s' = registered tok f s" by simp_all
  obtain fname lname where sn: "split_name (reg_name f) = (fname, lname)"
    by (cases "split_name (reg_name f)") blast
  have u: "first_name (new_user f s) = Some fname" "last_name (new_user f s) = lname"
    "usr_status (new_user f s) = 0"
    by (simp_all add: new_user_def sn Let_def)
  have "find_user_by_email (reg_email f) s' = Some (new_user f s)"
    using nf by (simp add: s' add_auth_def find_user_by_email_def find_append)
  with u split_name_join [OF sn] show ?thesis
    by (intro exI [of _ "new_user f s"] exI [of _ fname]) simp
qed

lemma consume_token_tables [simp]:
  "users (consume_token tok s) = users s" "activities (consume_token tok s) = activities s"
  "next_user (consume_token tok s) = next_user s" "next_auth (consume_token tok s) = next_auth s"
  by (simp_all add: consume_token_def)

lemma consume_token_keys [simp]:
  "map auth_id (authentications (consume_token tok s)) = map auth_id (authentications s)"
  "map auth_user_id (authentications (consume_token tok s)) = map auth_user_id (authentications s)"
  unfolding consume_token_def by (simp_all add: update_where_def)

lemma consume_token_status:
  assumes "a \<in> set (authentications (consume_token tok s))" and "token a = tok"
  shows "auth_status a = 2"
proof -
  have "authentications (consume_token tok s) =
        update_where (\<lambda>a. token a = tok) (\<lambda>a. a\<lparr>auth_status := 2\<rparr>) (authentications s)"
    by (simp add: consume_token_def)
  with assms(1) have "a \<in> {r \<in> set (authentications s). \<not> token r = tok} \<union>
      (\<lambda>r. r\<lparr>auth_status := 2\<rparr>) ` {r \<in> set (authentications s). token r = tok}"
    by (simp only: set_update_where)
  with assms(2) obtain r where "a = r\<lparr>auth_status := 2\<rparr>" by blast
  then show ?thesis by simp
qed

lemma view_auth_email_reset_Ok:
  assumes "view_auth_email_reset pol tok f s = Inr (Ok m, s')"
  obtains a where "find (\<lambda>a. token a = tok \<and> credential a = reset_email f \<and> auth_status a = 0)
      (authentications s) = Some a"
    and "m = ''You have successfully updated your password.''" and "s' = reset_done tok (auth_user_id a) s"
proof -
  from assms obtain a where "find (\<lambda>a. token a = tok \<and> credential a = reset_email f \<and> auth_status a = 0)
      (authentications s) = Some a"
    by (cases "find (\<lambda>a. token a = tok \<and> credential a = reset_email f \<and> auth_status a = 0)
      (authentications s)") (simp_all add: view_auth_email_reset_def split: if_splits)
  with assms that show ?thesis by (simp add: view_auth_email_reset_def split: if_splits)
qed

text \<open>
  C32: a password reset that answers success leaves the users table unchanged (the new
  password is never stored) while it spends the reset token.
\<close>

theorem reset_keeps_password:
  assumes "view_auth_email_reset pol tok f s = Inr (Ok m, s')"
  shows "m = ''You have successfully updated your password.'' \<and> users s' = users s \<and>
         (\<forall>a \<in> set (authentications s'). token a = tok \<longrightarrow> auth_status a = 2)"
proof -
  from assms obtain a where "find (\<lambda>a. token a = tok \<and> credential a = reset_email f \<and> auth_status a = 0)
      (authentications s) = Some a"
    and m: "m = ''You have successfully updated your password.''"
    and s': "s' = reset_done tok (auth_user_id a) s"
    by (rule view_auth_email_reset_Ok)
  then show ?thesis by (auto simp: log_activity_def intro: consume_token_status)
qed

text \<open>
  C33: the token issued by the forgot-password handler is accepted by the e-mail confirmation
  handler, which activates the account: confirmation does not check the token's type.
\<close>

theorem forgot_token_confirms:
  assumes fresh: "tok \<notin> set (map token (authentications s))"
    and fg: "view_auth_email_forgot tok e s = Inr (Ok t, s1)"
  shows "\<exists>u s2. find_user_by_email e s = Some u \<and>
    view_auth_confirm tok s1 = Inr (Ok ''Your e-mail is verified. You can now login.'', s2) \<and>
    (\<forall>x \<in> set (users s2). usr_id x = usr_id u \<longrightarrow> usr_status x = 1)"
proof -
  obtain u where u: "find_user_by_email e s = Some u"
    using fg by (cases "find_user_by_email e s") (simp_all add: view_auth_email_forgot_def)
  with fg have s1: "s1 = log_activity (usr_id u) ''Confirmation'' ''E-mail Confirmation''
                 ''Your has been confirmed a registration account.''
                 (add_auth (new_auth (usr_id u) ''reset-password'' e tok s) s)"
    by (auto simp: view_auth_email_forgot_def)
  have "find (\<lambda>a. token a = tok \<and> auth_status a = 0) (authentications s) = None"
    using fresh by (auto simp: find_None_iff)
  then have "find (\<lambda>a. token a = tok \<and> auth_status a = 0) (authentications s1) =
             Some (new_auth (usr_id u) ''reset-password'' e tok s)"
    by (simp add: s1 add_auth_def find_append)
  then have "view_auth_confirm tok s1 = Inr (Ok ''Your e-mail is verified. You can now login.'',
      log_activity (usr_id u) ''Confirmation'' ''E-mail Confirmation''
        ''Your has been confirmed a registration account.''
        (consume_token tok (s1\<lparr>users := update_where (\<lambda>x. usr_id x = usr_id u)
           (\<lambda>x. x\<lparr>usr_status := 1\<rparr>) (users s1)\<rparr>)))"
    by (simp add: view_auth_confirm_def)
  moreover have "\<forall>x \<in> set (update_where (\<lambda>x. usr_id x = usr_id u) (\<lambda>x. x\<lparr>usr_status := 1\<rparr>) (users s1)).
      usr_id x = usr_id u \<longrightarrow> usr_status x = 1"
    by (auto simp: set_update_where)
  ultimately show ?thesis using u by (auto simp: log_activity_def)
qed

subsection \<open>The account tables stay consistent\<close>

lemma users_ok_log_activity [simp]: "users_ok (log_activity u a b c s) = users_ok s"
  by (simp add: users_ok_def)

lemma users_ok_frame:
  assumes "map usr_id (users s') = map usr_id (users s)" and "map email (users s') = map email (users s)"
    and "map phone (users s') = map phone (users s)" and "next_user s' = next_user s"
    and "map auth_id (authentications s') = map auth_id (authentications s)"
    and "map auth_user_id (authentications s') = map auth_user_id (authentications s)"
    and "next_auth s' = next_auth s"
  shows "users_ok s' = users_ok s"
  unfolding users_ok_def by (simp only: assms)


lemma view_auth_register_Inr:
  assumes "view_auth_register pol tok f s = Inr (r, s')"
  shows "s' = s \<or> (find_user_by_email (reg_email f) s = None \<and> s' = registered tok f s)"
  using assms by (auto simp: view_auth_register_def Let_def split: if_splits)

lemma registered_users_ok:
  assumes "users_ok s" and "find_user_by_email (reg_email f) s = None"
  shows "users_ok (registered tok f s)"
proof -
  have "next_user s \<notin> set (map usr_id (users s))" and "next_auth s \<notin> set (map auth_id (authentications s))"
    using assms(1) by (auto simp: users_ok_def)
  moreover have "reg_email f \<notin> set (map email (users s))"
    using assms(2) by (simp add: find_user_by_email_None)
  ultimately show ?thesis
    using assms(1) by (auto simp: users_ok_def add_auth_def map_filter_def less_Suc_eq)
qed

lemma register_users_ok:
  "users_ok s \<Longrightarrow> view_auth_register pol tok f s = Inr (r, s') \<Longrightarrow> users_ok s'"
  by (auto dest!: view_auth_register_Inr intro: registered_users_ok)

lemma login_users_ok:
  assumes "view_auth_login f s = Inr (r, s')"
  shows "users_ok s' = users_ok s"
proof (cases "find_user_by_email (login_email f) s")
  case None with assms show ?thesis by (simp add: view_auth_login_def)
next
  case (Some u)
  with assms have "s' = s \<or> s' = log_activity (usr_id u) ''Sign In To Application'' ''Sign In''
                                   ''Sign in to application'' s"
    by (simp add: view_auth_login_def split: if_splits)
  then show ?thesis by auto
qed

lemma add_auth_users_ok:
  assumes "users_ok s" and "uid \<in> set (map usr_id (users s))"
  shows "users_ok (add_auth (new_auth uid ty c tok s) s)"
proof -
  have "next_auth s \<notin> set (map auth_id (authentications s))"
    using assms(1) by (auto simp: users_ok_def)
  with assms show ?thesis by (simp add: users_ok_def add_auth_def less_Suc_eq)
qed

lemma users_ok_consume_token [simp]: "users_ok (consume_token tok s) = users_ok s"
  by (rule users_ok_frame) simp_all

lemma confirm_users_ok:
  assumes "users_ok s" and "view_auth_confirm tok s = Inr (r, s')"
  shows "users_ok s'"
proof (cases "find (\<lambda>a. token a = tok \<and> auth_status a = 0) (authentications s)")
  case None with assms show ?thesis by (simp add: view_auth_confirm_def)
next
  case (Some a)
  let ?us = "update_where (\<lambda>u. usr_id u = auth_user_id a) (\<lambda>u. u\<lparr>usr_status := 1\<rparr>) (users s)"
  from Some assms(2) have s': "s' = log_activity (auth_user_id a) ''Confirmation'' ''E-mail Confirmation''
      ''Your has been confirmed a registration account.'' (consume_token tok (s\<lparr>users := ?us\<rparr>))"
    by (simp add: view_auth_confirm_def)
  have "users_ok (s\<lparr>users := ?us\<rparr>) = users_ok s"
    by (rule users_ok_frame) (simp_all add: map_update_where_frame)
  with assms(1) show ?thesis by (simp add: s')
qed

lemma forgot_users_ok:
  assumes "users_ok s" and "view_auth_email_forgot tok e s = Inr (r, s')"
  shows "users_ok s'"
proof (cases "find_user_by_email e s")
  case None with assms show ?thesis by (simp add: view_auth_email_forgot_def)
next
  case (Some u)
  then have "usr_id u \<in> set (map usr_id (users s))"
    by (auto simp: find_user_by_email_def dest: find_Some_mem)
  then have "users_ok (add_auth (new_auth (usr_id u) ''reset-password'' e tok s) s)"
    by (rule add_auth_users_ok [OF assms(1)])
  with Some assms(2) show ?thesis by (auto simp: view_auth_email_forgot_def)
qed

lemma view_auth_email_reset_Inr:
  assumes "view_auth_email_reset pol tok f s = Inr (r, s')"
  shows "s' = s \<or> (\<exists>uid. s' = log_activity uid ''Update Current Password'' ''Reset Password''
                             ''Your has been changed a current password.'' (consume_token tok s))"
proof (cases "find (\<lambda>a. token a = tok \<and> credential a = reset_email f \<and> auth_status a = 0)
                  (authentications s)")
  case None with assms show ?thesis by (simp add: view_auth_email_reset_def split: if_splits)
next
  case (Some a) with assms show ?thesis by (auto simp: view_auth_email_reset_def split: if_splits)
qed

lemma reset_users_ok:
  assumes "users_ok s" and "view_auth_email_reset pol tok f s = Inr (r, s')"
  shows "users_ok s'"
  using view_auth_email_reset_Inr [OF assms(2)] assms(1) by auto

lemma users_ok_accounts: "accounts s' = accounts s \<Longrightarrow> users_ok s' = users_ok s"
  by (simp add: users_ok_def accounts_def)

subsection \<open>The authentication handlers write only the account tables\<close>

lemma login_shop: "view_auth_login f s = Inr (r, s') \<Longrightarrow> shop_unchanged s s'"
  by (cases "find_user_by_email (login_email f) s") (auto simp: view_auth_login_def split: if_splits)

lemma register_shop: "view_auth_register pol tok f s = Inr (r, s') \<Longrightarrow> shop_unchanged s s'"
  by (auto dest!: view_auth_register_Inr simp: shop_unchanged_def add_auth_def)

lemma confirm_shop: "view_auth_confirm tok s = Inr (r, s') \<Longrightarrow> shop_unchanged s s'"
  by (cases "find (\<lambda>a. token a = tok \<and> auth_status a = 0) (authentications s)")
     (auto simp: view_auth_confirm_def shop_unchanged_def consume_token_def)

lemma forgot_shop: "view_auth_email_forgot tok e s = Inr (r, s') \<Longrightarrow> shop_unchanged s s'"
  by (cases "find_user_by_email e s") (auto simp: view_auth_email_forgot_def shop_unchanged_def add_auth_def)

lemma reset_shop: "view_auth_email_reset pol tok f s = Inr (r, s') \<Longrightarrow> shop_unchanged s s'"
  by (auto dest!: view_auth_email_reset_Inr simp: shop_unchanged_def consume_token_def)

end
