(* ===== verification/Profile.thy ===== *)
theory Profile
  imports Auth Orders
begin

text \<open>
  The profile handlers of \<open>src/backend/src/view_profile.py\<close>: \<open>view_profile_activity\<close>
  (lines 42--70), \<open>view_profile_update\<close> (lines 73--119), the database part of
  \<open>view_profile_upload\<close> (lines 121--162) and \<open>view_profile_password\<close> (lines 164--200),
  with the request bodies \<open>UserProfileSchema\<close> and \<open>UserPasswordSchema\<close> of
  \<open>schema.py\<close> (lines 33--47).  The caller's id \<open>uid\<close> is the one \<open>auth_user\<close>
  (\<open>auth.py\<close>, not in the repository) reads from the bearer token; \<open>view_profile_me\<close>
  only returns that session and is not modelled.  The activity listing's free-text sort
  clause is fixed to its default \<open>activities.id desc\<close>.
\<close>

record profile_form =
  pf_email :: string
  pf_phone :: string
  pf_first_name :: string
  pf_last_name :: string
  pf_gender :: string
  pf_address :: "string option"
  pf_country :: "string option"
  pf_city :: "string option"
  pf_zip_code :: "string option"

record password_form =
  current_password :: string
  new_password :: string
  new_password_confirm :: string

text \<open>The \<open>min_length\<close> constraints of \<open>UserProfileSchema\<close> (a violation answers 422).\<close>

definition profile_form_valid :: "profile_form \<Rightarrow> bool" where
  "profile_form_valid f \<longleftrightarrow>
     7 \<le> length (pf_phone f) \<and> 3 \<le> length (pf_first_name f) \<and> 3 \<le> length (pf_last_name f) \<and>
     1 \<le> length (pf_gender f)"

definition password_form_valid :: "password_form \<Rightarrow> bool" where
  "password_form_valid f \<longleftrightarrow>
     8 \<le> length (current_password f) \<and> 8 \<le> length (new_password f) \<and>
     8 \<le> length (new_password_confirm f)"

text \<open>
  The \<open>VARCHAR\<close> limits of the updated columns (\<open>model.py\<close>, lines 47--57):
  \<open>email\<close> 180, \<open>phone\<close> 64, names 191, \<open>gender\<close> 2, \<open>city\<close> and \<open>country\<close> 255,
  \<open>zip_code\<close> 64; \<open>address\<close> is \<open>TEXT\<close>.
\<close>

definition profile_fits :: "profile_form \<Rightarrow> bool" where
  "profile_fits f \<longleftrightarrow>
     fits 180 (Some (pf_email f)) \<and> fits 64 (Some (pf_phone f)) \<and>
     fits 191 (Some (pf_first_name f)) \<and> fits 191 (Some (pf_last_name f)) \<and>
     fits 2 (Some (pf_gender f)) \<and> fits 255 (pf_country f) \<and> fits 255 (pf_city f) \<and>
     fits 64 (pf_zip_code f)"

definition set_profile :: "profile_form \<Rightarrow> user \<Rightarrow> user" where
  "set_profile f u =
     u\<lparr>email := pf_email f, phone := Some (pf_phone f), first_name := Some (pf_first_name f),
       last_name := Some (pf_last_name f), gender := Some (pf_gender f), country := pf_country f,
       city := pf_city f, address := pf_address f, zip_code := pf_zip_code f\<rparr>"

subsection \<open>The handlers\<close>

text \<open>
  The update is committed (line 103) before the activity (line 114); a column overflow
  fails the first commit, so nothing is written.
\<close>

definition view_profile_update ::
  "nat \<Rightarrow> profile_form \<Rightarrow> db \<Rightarrow> error + (jwt reply \<times> db)" where
  "view_profile_update uid f s =
     (if \<not> profile_form_valid f then Inl ValidationError
      else if 0 < sql_count (\<lambda>u. email u = pf_email f \<and> usr_id u \<noteq> uid) (users s)
      then Inr (BadRequest ''The e-mail address has already been taken.!'', s)
      else if 0 < sql_count (\<lambda>u. phone u = Some (pf_phone f) \<and> usr_id u \<noteq> uid) (users s)
      then Inr (BadRequest ''The phone number has already been taken.!'', s)
      else if \<not> profile_fits f then Inl RangeError
      else Inr (Ok (SignJWT (pf_email f)),
             log_activity uid ''Update Current User Profile'' ''Update Profile'' ''Edit user profile account''
               (s\<lparr>users := update_where (\<lambda>u. usr_id u = uid) (set_profile f) (users s)\<rparr>)))"

text \<open>
  The upload stores the file as \<open>uploads/<name>.<ext>\<close>, \<open>name\<close> a fresh uuid (the
  parameter \<open>fname\<close>) and \<open>ext\<close> the text after the last dot of the client's file name
  (line 131: \<open>split(".")[-1]\<close>); the file system is not modelled, the \<open>image\<close> column
  (\<open>VARCHAR(255)\<close>) is.
\<close>

definition upload_path :: "string \<Rightarrow> string \<Rightarrow> string" where
  "upload_path fname filename = ''uploads/'' @ fname @ ''.'' @ last (py_split CHR ''.'' filename)"

definition view_profile_upload ::
  "nat \<Rightarrow> string \<Rightarrow> string \<Rightarrow> db \<Rightarrow> error + (string reply \<times> db)" where
  "view_profile_upload uid fname filename s =
     (let path = upload_path fname filename
      in if \<not> fits 255 (Some path) then Inl RangeError
         else Inr (Ok path,
                log_activity uid ''Upload Current User Image'' ''Upload Profile Image'' ''Upload new user profile image''
                  (s\<lparr>users := update_where (\<lambda>u. usr_id u = uid) (\<lambda>u. u\<lparr>image := Some path\<rparr>) (users s)\<rparr>)))"

text \<open>
  The password change reads \<open>session_user.password\<close> (line 173), which raises
  \<open>AttributeError\<close> when no user has the caller's id.  No password policy is applied.
\<close>

definition view_profile_password ::
  "nat \<Rightarrow> password_form \<Rightarrow> db \<Rightarrow> error + (string reply \<times> db)" where
  "view_profile_password uid f s =
     (if \<not> password_form_valid f then Inl ValidationError
      else case find (\<lambda>u. usr_id u = uid) (users s) of
        None \<Rightarrow> Inl AttributeError
      | Some u \<Rightarrow>
          if new_password f \<noteq> new_password_confirm f
          then Inr (BadRequest ''Please make sure your passwords match.'', s)
          else if \<not> bcrypt_verify (current_password f) (password u)
          then Inr (BadRequest ''Your password was not updated, since the provided current password does not match.!!'', s)
          else Inr (Ok ''Your password has been changed!!'',
                 log_activity uid ''Update Current User Password'' ''Change Password'' ''Change new password account''
                   (s\<lparr>users := update_where (\<lambda>u. usr_id u = uid)
                                 (\<lambda>u. u\<lparr>password := Some (Bcrypt (new_password f))\<rparr>) (users s)\<rparr>)))"

text \<open>
  The activity listing queries \<open>Activity\<close> filtered by \<open>User.id == user_id\<close> with no
  join condition: SQL takes the product of \<open>activities\<close> and \<open>users\<close> and keeps the
  pairs whose user has the caller's id, whoever wrote the activity.  The search
  matches event or description with \<open>ilike\<close>; sorting by id descending reverses the
  table, which is kept in id order.
\<close>

record activity_page =
  ap_total :: nat
  ap_data :: "activity list"

definition activity_filter :: "string option \<Rightarrow> activity \<Rightarrow> bool" where
  "activity_filter search a \<longleftrightarrow>
     (case search of None \<Rightarrow> True
      | Some q \<Rightarrow> ilike_contains q (event a) \<or> ilike_contains q (act_description a))"

definition activity_rows :: "nat \<Rightarrow> db \<Rightarrow> activity list" where
  "activity_rows uid s = [a. a \<leftarrow> activities s, u \<leftarrow> users s, usr_id u = uid]"

definition view_profile_activity ::
  "nat \<Rightarrow> int \<Rightarrow> int \<Rightarrow> string option \<Rightarrow> db \<Rightarrow> error + activity_page" where
  "view_profile_activity uid page limit search s =
     (let offset = (page - 1) * limit;
          data = filter (activity_filter search) (rev (activity_rows uid s))
      in if limit < 0 \<or> offset < 0 then Inl SqlError
         else Inr \<lparr>ap_total = length (activity_rows uid s),
                   ap_data = take (nat limit) (drop (nat offset) data)\<rparr>)"

section \<open>Properties of the profile handlers\<close>

lemma sql_count_zero: "sql_count P xs = 0 \<longleftrightarrow> (\<forall>x \<in> set xs. \<not> P x)"
  by (simp add: sql_count_def filter_empty_conv)

lemma users_ok_update_one:
  assumes ok: "users_ok s" and id: "\<And>u. usr_id (f u) = usr_id u"
    and em: "\<And>x y. x \<in> set (users s) \<Longrightarrow> y \<in> set (users s) \<Longrightarrow> usr_id x = uid \<Longrightarrow> usr_id y \<noteq> uid \<Longrightarrow>
               email (f x) \<noteq> email y"
    and ph: "\<And>x y b. x \<in> set (users s) \<Longrightarrow> y \<in> set (users s) \<Longrightarrow> usr_id x = uid \<Longrightarrow> usr_id y \<noteq> uid \<Longrightarrow>
               phone (f x) = Some b \<Longrightarrow> phone y \<noteq> Some b"
  shows "users_ok (s\<lparr>users := update_where (\<lambda>u. usr_id u = uid) f (users s)\<rparr>)"
proof -
  let ?us = "update_where (\<lambda>u. usr_id u = uid) f (users s)"
  have dk: "distinct (map usr_id (users s))" using ok by (simp add: users_ok_def)
  then have d: "distinct (users s)" by (simp add: distinct_map)
  have one: "\<And>x y. x \<in> set (users s) \<Longrightarrow> y \<in> set (users s) \<Longrightarrow> usr_id x = uid \<Longrightarrow> usr_id y = uid \<Longrightarrow> x = y"
    using dk by (metis distinct_map_eq)
  have ids: "map usr_id ?us = map usr_id (users s)" by (rule map_update_where_frame) (simp add: id)
  have "distinct (List.map_filter (\<lambda>u. Some (email u)) ?us)"
  proof (rule distinct_map_filter_update_where [OF d])
    show "distinct (List.map_filter (\<lambda>u. Some (email u)) (users s))"
      using ok by (simp add: users_ok_def map_filter_Some)
  qed (auto intro: one dest: em)
  then have e: "distinct (map email ?us)" by (simp add: map_filter_Some)
  have "distinct (List.map_filter phone ?us)"
  proof (rule distinct_map_filter_update_where [OF d])
    show "distinct (List.map_filter phone (users s))"
      using ok by (simp add: users_ok_def map_filter_id_map)
  qed (auto intro: one dest: ph)
  then have p: "distinct (List.map_filter id (map phone ?us))" by (simp add: map_filter_id_map)
  from ok ids e p show ?thesis by (simp add: users_ok_def)
qed

lemma set_profile_fields [simp]:
  "usr_id (set_profile f u) = usr_id u" "email (set_profile f u) = pf_email f"
  "phone (set_profile f u) = Some (pf_phone f)" "password (set_profile f u) = password u"
  by (simp_all add: set_profile_def)

lemma view_profile_update_Inr:
  assumes "view_profile_update uid f s = Inr (r, s')"
  shows "s' = s \<or> (profile_form_valid f \<and> profile_fits f \<and> r = Ok (SignJWT (pf_email f)) \<and>
           (\<forall>u \<in> set (users s). usr_id u \<noteq> uid \<longrightarrow> email u \<noteq> pf_email f \<and> phone u \<noteq> Some (pf_phone f)) \<and>
           s' = log_activity uid ''Update Current User Profile'' ''Update Profile'' ''Edit user profile account''
                  (s\<lparr>users := update_where (\<lambda>u. usr_id u = uid) (set_profile f) (users s)\<rparr>))"
  using assms by (auto simp: view_profile_update_def sql_count_zero split: if_splits)

lemma update_users_ok:
  assumes "users_ok s" and "view_profile_update uid f s = Inr (r, s')"
  shows "users_ok s'"
  using view_profile_update_Inr [OF assms(2)]
proof
  assume "s' = s" with assms(1) show ?thesis by simp
next
  assume h: "profile_form_valid f \<and> profile_fits f \<and> r = Ok (SignJWT (pf_email f)) \<and>
           (\<forall>u \<in> set (users s). usr_id u \<noteq> uid \<longrightarrow> email u \<noteq> pf_email f \<and> phone u \<noteq> Some (pf_phone f)) \<and>
           s' = log_activity uid ''Update Current User Profile'' ''Update Profile'' ''Edit user profile account''
                  (s\<lparr>users := update_where (\<lambda>u. usr_id u = uid) (set_profile f) (users s)\<rparr>)"
  have "users_ok (s\<lparr>users := update_where (\<lambda>u. usr_id u = uid) (set_profile f) (users s)\<rparr>)"
    by (rule users_ok_update_one [OF assms(1)]) (use h in auto)
  with h show ?thesis by simp
qed

lemma upload_users_ok:
  assumes "users_ok s" and "view_profile_upload uid fname filename s = Inr (r, s')"
  shows "users_ok s'"
proof -
  let ?us = "update_where (\<lambda>u. usr_id u = uid) (\<lambda>u. u\<lparr>image := Some (upload_path fname filename)\<rparr>) (users s)"
  have "users_ok (s\<lparr>users := ?us\<rparr>) = users_ok s"
    by (rule users_ok_frame) (simp_all add: map_update_where_frame)
  with assms show ?thesis by (auto simp: view_profile_upload_def Let_def split: if_splits)
qed

lemma view_profile_password_Inr:
  assumes "view_profile_password uid f s = Inr (r, s')"
  shows "s' = s \<or> s' = log_activity uid ''Update Current User Password'' ''Change Password'' ''Change new password account''
                   (s\<lparr>users := update_where (\<lambda>u. usr_id u = uid)
                                 (\<lambda>u. u\<lparr>password := Some (Bcrypt (new_password f))\<rparr>) (users s)\<rparr>)"
  using assms by (cases "find (\<lambda>u. usr_id u = uid) (users s)")
    (auto simp: view_profile_password_def split: if_splits)

lemma password_users_ok:
  assumes "users_ok s" and "view_profile_password uid f s = Inr (r, s')"
  shows "users_ok s'"
proof -
  let ?us = "update_where (\<lambda>u. usr_id u = uid) (\<lambda>u. u\<lparr>password := Some (Bcrypt (new_password f))\<rparr>) (users s)"
  have "users_ok (s\<lparr>users := ?us\<rparr>) = users_ok s"
    by (rule users_ok_frame) (simp_all add: map_update_where_frame)
  with assms(1) view_profile_password_Inr [OF assms(2)] show ?thesis by auto
qed

lemma update_shop: "view_profile_update uid f s = Inr (r, s') \<Longrightarrow> shop_unchanged s s'"
  by (auto dest!: view_profile_update_Inr simp: shop_unchanged_def)

lemma upload_shop: "view_profile_upload uid fname filename s = Inr (r, s') \<Longrightarrow> shop_unchanged s s'"
  by (auto simp: view_profile_upload_def shop_unchanged_def Let_def split: if_splits)

lemma password_shop: "view_profile_password uid f s = Inr (r, s') \<Longrightarrow> shop_unchanged s s'"
  by (auto dest!: view_profile_password_Inr simp: shop_unchanged_def)

lemma view_profile_update_Ok:
  assumes "view_profile_update uid f s = Inr (Ok j, s')"
  shows "j = SignJWT (pf_email f) \<and>
    (\<forall>u \<in> set (users s). usr_id u \<noteq> uid \<longrightarrow> email u \<noteq> pf_email f \<and> phone u \<noteq> Some (pf_phone f)) \<and>
    s' = log_activity uid ''Update Current User Profile'' ''Update Profile'' ''Edit user profile account''
           (s\<lparr>users := update_where (\<lambda>u. usr_id u = uid) (set_profile f) (users s)\<rparr>)"
  using assms by (auto simp: view_profile_update_def sql_count_zero split: if_splits)

lemma no_match_comprehension: "uid \<notin> set (map usr_id us) \<Longrightarrow> [a. u \<leftarrow> us, usr_id u = uid] = []"
  by (induction us) auto

lemma one_match_comprehension:
  "distinct (map usr_id us) \<Longrightarrow> uid \<in> set (map usr_id us) \<Longrightarrow> [y. u \<leftarrow> us, usr_id u = uid] = [y]"
  by (induction us) (fastforce simp: no_match_comprehension)+

lemma rows_all_comprehension:
  "distinct (map usr_id us) \<Longrightarrow> uid \<in> set (map usr_id us) \<Longrightarrow> [a. a \<leftarrow> as, u \<leftarrow> us, usr_id u = uid] = as"
  by (induction as) (simp_all add: one_match_comprehension)

lemma activity_rows_all:
  "distinct (map usr_id (users s)) \<Longrightarrow> uid \<in> set (map usr_id (users s)) \<Longrightarrow> activity_rows uid s = activities s"
  by (simp add: activity_rows_def rows_all_comprehension)

text \<open>
  C35: for a caller who has an account, the first page of the activity listing without a
  search holds the newest activities of every user, and its total counts all
  activities of the store, not only the caller's.
\<close>

theorem activity_lists_everyone:
  assumes "users_ok s" and "uid \<in> set (map usr_id (users s))" and "0 \<le> limit"
  shows "view_profile_activity uid 1 limit None s =
           Inr \<lparr>ap_total = length (activities s), ap_data = take (nat limit) (rev (activities s))\<rparr>"
proof -
  have "activity_rows uid s = activities s"
    using assms(1,2) by (intro activity_rows_all) (simp_all add: users_ok_def)
  with assms(3) show ?thesis by (simp add: view_profile_activity_def activity_filter_def)
qed

text \<open>
  C36: a profile update whose gender has more than two characters (as \<open>male\<close>) passes
  the schema and the uniqueness checks and then fails: the \<open>gender\<close> column is
  \<open>VARCHAR(2)\<close>, so nothing is stored.
\<close>

theorem update_gender_too_long:
  assumes "profile_form_valid f"
    and "\<forall>u \<in> set (users s). usr_id u \<noteq> uid \<longrightarrow> email u \<noteq> pf_email f \<and> phone u \<noteq> Some (pf_phone f)"
    and "2 < length (pf_gender f)"
  shows "view_profile_update uid f s = Inl RangeError"
proof -
  have "sql_count (\<lambda>u. email u = pf_email f \<and> usr_id u \<noteq> uid) (users s) = 0"
    "sql_count (\<lambda>u. phone u = Some (pf_phone f) \<and> usr_id u \<noteq> uid) (users s) = 0"
    using assms(2) by (auto simp: sql_count_zero)
  with assms(1,3) show ?thesis by (simp add: view_profile_update_def profile_fits_def fits_def)
qed

text \<open>
  C37: a successful profile update of an existing account stores the new e-mail address
  and phone number on the caller's row, after which no other user has either, and the
  account tables stay consistent.
\<close>

theorem update_profile_unique:
  assumes ok: "users_ok s" and mem: "uid \<in> set (map usr_id (users s))"
    and upd: "view_profile_update uid f s = Inr (Ok j, s')"
  shows "j = SignJWT (pf_email f) \<and> users_ok s' \<and>
    (\<exists>u \<in> set (users s'). usr_id u = uid \<and> email u = pf_email f \<and> phone u = Some (pf_phone f)) \<and>
    (\<forall>u \<in> set (users s'). email u = pf_email f \<or> phone u = Some (pf_phone f) \<longrightarrow> usr_id u = uid)"
proof -
  note h = view_profile_update_Ok [OF upd]
  let ?us = "update_where (\<lambda>u. usr_id u = uid) (set_profile f) (users s)"
  have us: "users s' = ?us" using h by simp
  have nb: "\<forall>u \<in> set (users s). usr_id u \<noteq> uid \<longrightarrow> email u \<noteq> pf_email f \<and> phone u \<noteq> Some (pf_phone f)"
    using h by simp
  obtain x where x: "x \<in> set (users s)" "usr_id x = uid" using mem by auto
  then have "set_profile f x \<in> set ?us" unfolding set_update_where by blast
  with x have ex: "\<exists>u \<in> set ?us. usr_id u = uid \<and> email u = pf_email f \<and> phone u = Some (pf_phone f)"
    by (intro bexI [of _ "set_profile f x"]) simp_all
  have "\<forall>u \<in> set ?us. email u = pf_email f \<or> phone u = Some (pf_phone f) \<longrightarrow> usr_id u = uid"
  proof
    fix u assume "u \<in> set ?us"
    then consider (old) "u \<in> set (users s)" "usr_id u \<noteq> uid" | (new) y where "u = set_profile f y" "usr_id y = uid"
      unfolding set_update_where by blast
    then show "email u = pf_email f \<or> phone u = Some (pf_phone f) \<longrightarrow> usr_id u = uid"
    proof cases
      case old with nb show ?thesis by blast
    next
      case new then show ?thesis by simp
    qed
  qed
  moreover have "j = SignJWT (pf_email f)" using h by simp
  ultimately show ?thesis using ex update_users_ok [OF ok upd] unfolding us by blast
qed

text \<open>
  C38: a password change with the right current password and a matching confirmation
  succeeds whatever the new password (no strength policy is applied); afterwards the
  stored hash verifies the new password and no longer the old one.
\<close>

theorem password_change_roundtrip:
  assumes "password_form_valid f" and u: "find (\<lambda>u. usr_id u = uid) (users s) = Some u"
    and "bcrypt_verify (current_password f) (password u)" and "new_password f = new_password_confirm f"
  shows "\<exists>s'. view_profile_password uid f s = Inr (Ok ''Your password has been changed!!'', s') \<and>
    (\<exists>u'. find (\<lambda>u. usr_id u = uid) (users s') = Some u' \<and> bcrypt_verify (new_password f) (password u') \<and>
       (current_password f \<noteq> new_password f \<longrightarrow> \<not> bcrypt_verify (current_password f) (password u')))"
proof -
  let ?g = "\<lambda>u. u\<lparr>password := Some (Bcrypt (new_password f))\<rparr>"
  let ?s' = "log_activity uid ''Update Current User Password'' ''Change Password'' ''Change new password account''
               (s\<lparr>users := update_where (\<lambda>u. usr_id u = uid) ?g (users s)\<rparr>)"
  have r: "view_profile_password uid f s = Inr (Ok ''Your password has been changed!!'', ?s')"
    using assms by (simp add: view_profile_password_def)
  have "find (\<lambda>u. usr_id u = uid) (users ?s') = Some (?g u)"
    using u find_Some_mem [OF u] by (simp add: find_update_where_keep)
  then show ?thesis using r by (auto simp: bcrypt_verify_def)
qed

end
