(* ===== verification/Account_Scenarios.thy ===== *)
theory Account_Scenarios
  imports Scenarios Profile
begin

text \<open>
  Account witnesses: Ada registers on the store of \<open>Scenarios\<close> (no users yet) with
  token \<open>tok-1\<close>; a second store holds Ada as user 1 with a spent confirmation row.
  The password policy is taken to accept the passwords of eight or more characters
  that contain a digit.
\<close>

definition demo_policy :: "string \<Rightarrow> bool" where
  "demo_policy p \<longleftrightarrow> 8 \<le> length p \<and> (\<exists>c \<in> set p. c \<in> set ''0123456789'')"

definition demo_register_form :: register_form where
  "demo_register_form = \<lparr>reg_name = ''Ada King Lovelace'', reg_email = ''ada@example.com'',
     reg_password = ''Secret#123'', reg_password_confirm = ''Secret#123''\<rparr>"

definition demo_ada :: user where
  "demo_ada = \<lparr>usr_id = 1, email = ''ada@example.com'', phone = None,
     password = Some (Bcrypt ''Secret#123''), image = None, first_name = Some ''Ada'',
     last_name = Some ''King Lovelace'', gender = None, city = None, zip_code = None,
     country = None, address = None, usr_status = 1\<rparr>"

definition demo_account_db :: db where
  "demo_account_db = demo_db\<lparr>users := [demo_ada],
     authentications := [\<lparr>auth_id = 1, auth_user_id = 1, auth_type = ''email-confirm'',
        credential = ''ada@example.com'', token = ''tok-1'', auth_status = 2\<rparr>],
     next_user := 2, next_auth := 2\<rparr>"

definition demo_reset_form :: reset_form where
  "demo_reset_form = \<lparr>reset_email = ''ada@example.com'', reset_password = ''NewPass#99'',
     reset_password_confirm = ''NewPass#99''\<rparr>"

text \<open>The store after Ada asks for a password reset with token \<open>tok-2\<close>.\<close>

definition demo_forgot_db :: db where
  "demo_forgot_db = log_activity 1 ''Confirmation'' ''E-mail Confirmation''
     ''Your has been confirmed a registration account.''
     (add_auth (new_auth 1 ''reset-password'' ''ada@example.com'' ''tok-2'' demo_account_db) demo_account_db)"

text \<open>
  A store with two accounts, Ada (user 1) and Bob (user 2), each with one activity, and
  the profile and password forms used on it.
\<close>

definition demo_bob :: user where
  "demo_bob = \<lparr>usr_id = 2, email = ''bob@example.com'', phone = Some ''5550199'',
     password = Some (Bcrypt ''Hunter#222''), image = None, first_name = Some ''Bob'',
     last_name = None, gender = Some ''M'', city = None, zip_code = None,
     country = None, address = None, usr_status = 1\<rparr>"

definition demo_ada_activity :: activity where
  "demo_ada_activity = \<lparr>act_user_id = 1, subject = ''Sign In To Application'', event = ''Sign In'',
     act_description = ''Sign in to application''\<rparr>"

definition demo_bob_activity :: activity where
  "demo_bob_activity = \<lparr>act_user_id = 2, subject = ''Checkout Order'', event = ''Completed Checkout Current Order'',
     act_description = ''Your has been completed checkout order.''\<rparr>"

definition demo_profile_db :: db where
  "demo_profile_db = demo_account_db\<lparr>users := [demo_ada, demo_bob],
     activities := [demo_ada_activity, demo_bob_activity], next_user := 3\<rparr>"

definition demo_profile_form :: "string \<Rightarrow> profile_form" where
  "demo_profile_form g = \<lparr>pf_email = ''ada@lovelace.org'', pf_phone = ''5550123'',
     pf_first_name = ''Ada'', pf_last_name = ''Lovelace'', pf_gender = g,
     pf_address = None, pf_country = Some ''UK'', pf_city = Some ''London'', pf_zip_code = None\<rparr>"

definition demo_password_form :: password_form where
  "demo_password_form = \<lparr>current_password = ''Secret#123'', new_password = ''aaaaaaaa'',
     new_password_confirm = ''aaaaaaaa''\<rparr>"

lemma demo_users_ok: "users_ok demo_db"
  by (simp add: users_ok_def demo_db_def demo_customer_def map_filter_def)

lemma demo_register_eval:
  "view_auth_register demo_policy ''tok-1'' demo_register_form demo_db =
     Inr (Ok ''tok-1'', registered ''tok-1'' demo_register_form demo_db)"
  by (simp add: view_auth_register_def demo_policy_def demo_register_form_def demo_db_def demo_customer_def
      find_user_by_email_def fits_def new_user_def split_name_def py_join_def)

theorem register_confirm_login_fails_witness:
  "\<exists>s1 s2. view_auth_register demo_policy ''tok-1'' demo_register_form demo_db = Inr (Ok ''tok-1'', s1) \<and>
     view_auth_confirm ''tok-1'' s1 = Inr (Ok ''Your e-mail is verified. You can now login.'', s2) \<and>
     view_auth_login \<lparr>login_email = ''ada@example.com'', login_password = ''Secret#123''\<rparr> s2 =
       Inr (Unauthorized ''We have sent you an email confirmation. Please confirm your email and then we will active your account.'', s2)"
proof -
  have fresh: "''tok-1'' \<notin> set (map token (authentications demo_db))" by (simp add: demo_db_def)
  from register_confirm_login_fails [OF demo_users_ok fresh demo_register_eval] obtain s2
    where c: "view_auth_confirm ''tok-1'' (registered ''tok-1'' demo_register_form demo_db) =
                Inr (Ok ''Your e-mail is verified. You can now login.'', s2)"
      and l: "view_auth_login \<lparr>login_email = reg_email demo_register_form,
                login_password = reg_password demo_register_form\<rparr> s2 =
       Inr (Unauthorized ''We have sent you an email confirmation. Please confirm your email and then we will active your account.'', s2)"
    by blast
  have e: "reg_email demo_register_form = ''ada@example.com''"
    "reg_password demo_register_form = ''Secret#123''" by (simp_all add: demo_register_form_def)
  show ?thesis using demo_register_eval c l unfolding e by blast
qed

theorem register_name_roundtrip_witness:
  "\<exists>s'. view_auth_register demo_policy ''tok-1'' demo_register_form demo_db = Inr (Ok ''tok-1'', s') \<and>
     (\<exists>u fname. find_user_by_email ''ada@example.com'' s' = Some u \<and> first_name u = Some fname \<and>
       fname @ (case last_name u of None \<Rightarrow> [] | Some l \<Rightarrow> CHR '' '' # l) = ''Ada King Lovelace'' \<and>
       (last_name u = None \<longleftrightarrow> CHR '' '' \<notin> set ''Ada King Lovelace'') \<and>
       password u = Some (Bcrypt ''Secret#123'') \<and> usr_status u = 0)"
proof -
  have e: "reg_email demo_register_form = ''ada@example.com''" "reg_name demo_register_form = ''Ada King Lovelace''"
    "reg_password demo_register_form = ''Secret#123''" by (simp_all add: demo_register_form_def)
  from demo_register_eval obtain s' where
    ev: "view_auth_register demo_policy ''tok-1'' demo_register_form demo_db = Inr (Ok ''tok-1'', s')"
    by blast
  note h = register_name_roundtrip [OF ev, unfolded e]
  show ?thesis by (rule exI [of _ s'], rule conjI [OF ev h])
qed

lemma demo_forgot_eval:
  "view_auth_email_forgot ''tok-2'' ''ada@example.com'' demo_account_db = Inr (Ok ''tok-2'', demo_forgot_db)"
  by (simp add: view_auth_email_forgot_def find_user_by_email_def demo_account_db_def demo_ada_def
      demo_forgot_db_def)

theorem forgot_token_confirms_witness:
  "\<exists>s1 u s2. view_auth_email_forgot ''tok-2'' ''ada@example.com'' demo_account_db = Inr (Ok ''tok-2'', s1) \<and>
     find_user_by_email ''ada@example.com'' demo_account_db = Some u \<and>
     view_auth_confirm ''tok-2'' s1 = Inr (Ok ''Your e-mail is verified. You can now login.'', s2) \<and>
     (\<forall>x \<in> set (users s2). usr_id x = usr_id u \<longrightarrow> usr_status x = 1)"
proof -
  have fresh: "''tok-2'' \<notin> set (map token (authentications demo_account_db))"
    by (simp add: demo_account_db_def)
  show ?thesis using demo_forgot_eval forgot_token_confirms [OF fresh demo_forgot_eval] by blast
qed

lemma demo_reset_eval:
  "\<exists>s'. view_auth_email_reset demo_policy ''tok-2'' demo_reset_form demo_forgot_db =
     Inr (Ok ''You have successfully updated your password.'', s')"
  by (simp add: view_auth_email_reset_def demo_reset_form_def demo_forgot_db_def demo_account_db_def
      add_auth_def demo_policy_def)

theorem reset_keeps_password_witness:
  "\<exists>s'. view_auth_email_reset demo_policy ''tok-2'' demo_reset_form demo_forgot_db =
       Inr (Ok ''You have successfully updated your password.'', s') \<and>
     users s' = [demo_ada] \<and> (\<forall>a \<in> set (authentications s'). token a = ''tok-2'' \<longrightarrow> auth_status a = 2)"
proof -
  obtain s' where r: "view_auth_email_reset demo_policy ''tok-2'' demo_reset_form demo_forgot_db =
       Inr (Ok ''You have successfully updated your password.'', s')" using demo_reset_eval by blast
  have u: "users demo_forgot_db = [demo_ada]" by (simp add: demo_forgot_db_def demo_account_db_def add_auth_def)
  show ?thesis using r reset_keeps_password [OF r] unfolding u by blast
qed

lemmas demo_profile_simps = demo_profile_db_def demo_account_db_def demo_db_def demo_customer_def demo_ada_def demo_bob_def

lemma demo_profile_users_ok: "users_ok demo_profile_db"
  by (simp add: users_ok_def demo_profile_simps map_filter_def)

theorem activity_lists_everyone_witness:
  "view_profile_activity 1 1 10 None demo_profile_db =
     Inr \<lparr>ap_total = 2, ap_data = [demo_bob_activity, demo_ada_activity]\<rparr>"
proof -
  have "(1::nat) \<in> set (map usr_id (users demo_profile_db))" by (simp add: demo_profile_simps)
  from activity_lists_everyone [OF demo_profile_users_ok this, of 10] show ?thesis
    by (simp add: demo_profile_db_def)
qed

theorem update_gender_too_long_witness:
  "view_profile_update 1 (demo_profile_form ''male'') demo_profile_db = Inl RangeError"
proof -
  have "profile_form_valid (demo_profile_form ''male'')"
    by (simp add: profile_form_valid_def demo_profile_form_def)
  moreover have "\<forall>u \<in> set (users demo_profile_db). usr_id u \<noteq> 1 \<longrightarrow>
      email u \<noteq> pf_email (demo_profile_form ''male'') \<and> phone u \<noteq> Some (pf_phone (demo_profile_form ''male''))"
    by (simp add: demo_profile_simps demo_profile_form_def)
  moreover have "2 < length (pf_gender (demo_profile_form ''male''))" by (simp add: demo_profile_form_def)
  ultimately show ?thesis by (rule update_gender_too_long)
qed

lemma demo_update_eval:
  "\<exists>s'. view_profile_update 1 (demo_profile_form ''F'') demo_profile_db = Inr (Ok (SignJWT ''ada@lovelace.org''), s')"
  by (simp add: view_profile_update_def demo_profile_simps demo_profile_form_def profile_form_valid_def
      profile_fits_def fits_def sql_count_def)

theorem update_profile_unique_witness:
  "\<exists>s'. view_profile_update 1 (demo_profile_form ''F'') demo_profile_db = Inr (Ok (SignJWT ''ada@lovelace.org''), s') \<and>
     users_ok s' \<and>
     (\<exists>u \<in> set (users s'). usr_id u = 1 \<and> email u = ''ada@lovelace.org'' \<and> phone u = Some ''5550123'') \<and>
     (\<forall>u \<in> set (users s'). email u = ''ada@lovelace.org'' \<or> phone u = Some ''5550123'' \<longrightarrow> usr_id u = 1)"
proof -
  obtain s' where ev: "view_profile_update 1 (demo_profile_form ''F'') demo_profile_db =
      Inr (Ok (SignJWT ''ada@lovelace.org''), s')" using demo_update_eval by blast
  have mem: "(1::nat) \<in> set (map usr_id (users demo_profile_db))" by (simp add: demo_profile_simps)
  have e: "pf_email (demo_profile_form ''F'') = ''ada@lovelace.org''" "pf_phone (demo_profile_form ''F'') = ''5550123''"
    by (simp_all add: demo_profile_form_def)
  from update_profile_unique [OF demo_profile_users_ok mem ev] ev show ?thesis unfolding e by blast
qed

theorem password_change_roundtrip_witness:
  "\<exists>s'. view_profile_password 1 demo_password_form demo_profile_db = Inr (Ok ''Your password has been changed!!'', s') \<and>
     (\<exists>u'. find (\<lambda>u. usr_id u = 1) (users s') = Some u' \<and> bcrypt_verify ''aaaaaaaa'' (password u') \<and>
        \<not> bcrypt_verify ''Secret#123'' (password u'))"
proof -
  have v: "password_form_valid demo_password_form" by (simp add: password_form_valid_def demo_password_form_def)
  have u: "find (\<lambda>u. usr_id u = 1) (users demo_profile_db) = Some demo_ada" by (simp add: demo_profile_simps)
  have c: "bcrypt_verify (current_password demo_password_form) (password demo_ada)"
    by (simp add: bcrypt_verify_def demo_password_form_def demo_ada_def)
  have m: "new_password demo_password_form = new_password_confirm demo_password_form"
    by (simp add: demo_password_form_def)
  have e: "current_password demo_password_form = ''Secret#123''" "new_password demo_password_form = ''aaaaaaaa''"
    by (simp_all add: demo_password_form_def)
  from password_change_roundtrip [OF v u c m] show ?thesis unfolding e by simp
qed

end
