(* ===== verification/Catalogue.thy ===== *)
theory Catalogue
  imports Orders Auth "HOL-Library.Char_ord" "HOL-Library.List_Lexorder"
begin

text \<open>
  The catalogue views: \<open>view_home_component\<close>, \<open>view_home_page\<close> and \<open>view_newsletter\<close>
  of \<open>src/backend/src/view_home.py\<close> (lines 35--127) and \<open>view_shop_filter\<close> and
  \<open>view_shop_list\<close> of \<open>src/backend/src/view_shop.py\<close> (lines 27--143), over the
  \<open>products\<close>, \<open>categories\<close>, \<open>brands\<close>, \<open>products_categories\<close> and \<open>newsLetters\<close>
  tables.  \<open>func.now()\<close> is the parameter \<open>now\<close>.  The product cards' \<open>newest\<close> and
  \<open>discount\<close> flags are \<open>random.randint\<close> draws and are not modelled.  An SQL
  \<open>ORDER BY\<close> leaves ties in an unspecified order; here they keep the table's (id)
  order.  \<open>ORDER BY name\<close> uses MySQL's case-insensitive collation, modelled as the
  lexicographic order of the ASCII lower-cased names.  The free-text sort clause of
  \<open>view_shop_list\<close> is fixed to its default \<open>products.id desc\<close>.
\<close>

subsection \<open>Queries\<close>

text \<open>\<open>Product.status == 1 and Product.published_date <= func.now()\<close>; a NULL date is not
  published.\<close>

definition published :: "int \<Rightarrow> product \<Rightarrow> bool" where
  "published now p \<longleftrightarrow>
     prod_status p = 1 \<and> (case published_date p of None \<Rightarrow> False | Some d \<Rightarrow> d \<le> now)"

text \<open>\<open>ORDER BY k DESC\<close> over rows in id order, ties kept in id order.\<close>

definition order_desc :: "('a \<Rightarrow> 'b :: linordered_idom) \<Rightarrow> 'a list \<Rightarrow> 'a list" where
  "order_desc k xs = sort_key (\<lambda>x. - k x) xs"

definition live_products :: "int \<Rightarrow> db \<Rightarrow> product list" where
  "live_products now s = filter (published now) (products s)"

text \<open>\<open>topProduct\<close>: the published product with the best rating.\<close>

definition top_product :: "int \<Rightarrow> db \<Rightarrow> product option" where
  "top_product now s =
     (case order_desc total_rating (live_products now s) of [] \<Rightarrow> None | p # _ \<Rightarrow> Some p)"

text \<open>\<open>row.categories\<close>: the categories of a product, in the order of the association rows.\<close>

definition product_categories :: "product \<Rightarrow> db \<Rightarrow> category list" where
  "product_categories p s =
     [c. (pid, cid) \<leftarrow> products_categories s, pid = prod_id p, c \<leftarrow> categories s, cat_id c = cid]"

definition shown_categories :: "db \<Rightarrow> category list" where
  "shown_categories s =
     sort_key (\<lambda>c. map lower_ascii (cat_name c))
       (filter (\<lambda>c. cat_status c = 1 \<and> displayed c = 1) (categories s))"

subsection \<open>Product cards\<close>

text \<open>
  \<open>Decimal(0.05)\<close> converts the binary floating-point number nearest to 0.05, which is
  \<open>3602879701896397 / 2^56\<close>; \<open>price_old\<close> is the price plus the price times that
  number (Decimal's rounding to 28 digits is not modelled).
\<close>

definition float_0_05 :: rat where
  "float_0_05 = 3602879701896397 / 72057594037927936"

definition price_old :: "product \<Rightarrow> money" where
  "price_old p = price p + price p * float_0_05"

text \<open>
  \<open>math.ceil(((Decimal(rating) / Decimal(top) * 100) / 20))\<close>: the rating as a number of
  stars relative to the best product; no best product raises \<open>AttributeError\<close>, a best
  rating of 0 a Decimal division error.
\<close>

definition stars :: "product option \<Rightarrow> product \<Rightarrow> error + int" where
  "stars best p =
     (case best of None \<Rightarrow> Inl AttributeError
      | Some t \<Rightarrow> if total_rating t = 0 then Inl DecimalError
                 else Inr \<lceil>of_int (total_rating p) / of_int (total_rating t) * 100 / 20 :: rat\<rceil>)"

record card =
  card_id :: nat
  card_name :: string
  card_image :: "string option"
  card_category :: string
  card_price :: money
  card_price_old :: money
  card_rating :: int

text \<open>
  The home page and the shop filter show the first category's name
  (\<open>[cat.name for cat in row.categories][0]\<close>: \<open>IndexError\<close> for a product without
  a category); the shop list joins all names with \<open>", "\<close>.  The rating is computed
  last, as the dictionary is built in order.
\<close>

definition first_category_card :: "product option \<Rightarrow> db \<Rightarrow> product \<Rightarrow> error + card" where
  "first_category_card best s p =
     (case product_categories p s of
        [] \<Rightarrow> Inl IndexError
      | c # _ \<Rightarrow> (case stars best p of
                   Inl e \<Rightarrow> Inl e
                 | Inr r \<Rightarrow> Inr \<lparr>card_id = prod_id p, card_name = prod_name p, card_image = prod_image p,
                               card_category = cat_name c, card_price = price p,
                               card_price_old = price_old p, card_rating = r\<rparr>))"

definition joined_category_card :: "product option \<Rightarrow> db \<Rightarrow> product \<Rightarrow> error + card" where
  "joined_category_card best s p =
     (case stars best p of
        Inl e \<Rightarrow> Inl e
      | Inr r \<Rightarrow> Inr \<lparr>card_id = prod_id p, card_name = prod_name p, card_image = prod_image p,
                    card_category = py_join '', '' (map cat_name (product_categories p s)),
                    card_price = price p, card_price_old = price_old p, card_rating = r\<rparr>)"

text \<open>\<open>list(map(f, rows))\<close>: the first failing row raises.\<close>

fun map_err :: "('a \<Rightarrow> error + 'b) \<Rightarrow> 'a list \<Rightarrow> error + 'b list" where
  "map_err f [] = Inr []"
| "map_err f (x # xs) =
     (case f x of Inl e \<Rightarrow> Inl e
      | Inr y \<Rightarrow> (case map_err f xs of Inl e \<Rightarrow> Inl e | Inr ys \<Rightarrow> Inr (y # ys)))"

subsection \<open>Home\<close>

definition setting_map :: "setting list \<Rightarrow> string \<rightharpoonup> money" where
  "setting_map ss = fold (\<lambda>r m. m(key_name r \<mapsto> key_value r)) ss Map.empty"

record home_component =
  hc_setting :: "string \<rightharpoonup> money"
  hc_categories :: "category list"

definition view_home_component :: "db \<Rightarrow> home_component" where
  "view_home_component s = \<lparr>hc_setting = setting_map (settings s), hc_categories = shown_categories s\<rparr>"

record home_page =
  hp_categories :: "category list"
  hp_products :: "card list"
  hp_top_sellings :: "card list"
  hp_best_sellers :: "card list"

definition view_home_page :: "int \<Rightarrow> db \<Rightarrow> error + home_page" where
  "view_home_page now s =
     (let best = top_product now s;
          live = live_products now s;
          card = first_category_card best s
      in case map_err card (take 4 (rev live)) of
           Inl e \<Rightarrow> Inl e
         | Inr ps \<Rightarrow> (case map_err card (take 6 (order_desc total_rating live)) of
             Inl e \<Rightarrow> Inl e
           | Inr ts \<Rightarrow> (case map_err card (take 3 (order_desc total_order live)) of
               Inl e \<Rightarrow> Inl e
             | Inr bs \<Rightarrow> Inr \<lparr>hp_categories = take 3 (shown_categories s), hp_products = ps,
                             hp_top_sellings = ts, hp_best_sellers = bs\<rparr>)))"

text \<open>The newsletter subscription: one row with the client's address; the \<open>VARCHAR\<close>
  limits are 45 for the address and 180 for the e-mail.\<close>

definition view_newsletter :: "string \<Rightarrow> string \<Rightarrow> db \<Rightarrow> error + (newsletter \<times> db)" where
  "view_newsletter ip e s =
     (let n = \<lparr>nl_id = next_newsletter s, ip_address = ip, nl_email = e, nl_status = 1\<rparr>
      in if \<not> (fits 45 (Some ip) \<and> fits 180 (Some e)) then Inl RangeError
         else Inr (n, s\<lparr>newsletters := newsletters s @ [n], next_newsletter := Suc (next_newsletter s)\<rparr>))"

subsection \<open>Shop\<close>

record shop_filter =
  sf_categories :: "(nat \<times> string \<times> nat) list"
  sf_brands :: "(nat \<times> string \<times> nat) list"
  sf_tops :: "card list"
  sf_max_price :: money
  sf_min_price :: money

text \<open>
  The grouped counts are inner joins: a category is listed with its number of association
  rows and a brand with its number of products, whatever their status, and a category or
  brand without any is not listed.  Groups come in table order.
\<close>

definition category_count :: "db \<Rightarrow> category \<Rightarrow> nat" where
  "category_count s c = length (filter (\<lambda>(pid, cid). cid = cat_id c) (products_categories s))"

definition category_counts :: "db \<Rightarrow> (nat \<times> string \<times> nat) list" where
  "category_counts s =
     map (\<lambda>c. (cat_id c, cat_name c, category_count s c)) (filter (\<lambda>c. 0 < category_count s c) (categories s))"

definition brand_count :: "db \<Rightarrow> brand \<Rightarrow> nat" where
  "brand_count s b = length (filter (\<lambda>p. prod_brand_id p = Some (br_id b)) (products s))"

definition brand_counts :: "db \<Rightarrow> (nat \<times> string \<times> nat) list" where
  "brand_counts s =
     map (\<lambda>b. (br_id b, br_name b, brand_count s b)) (filter (\<lambda>b. 0 < brand_count s b) (brands s))"

text \<open>\<open>topPrice.price\<close> and \<open>minPrice.price\<close> raise \<open>AttributeError\<close> when nothing is published.\<close>

definition view_shop_filter :: "int \<Rightarrow> db \<Rightarrow> error + shop_filter" where
  "view_shop_filter now s =
     (let live = live_products now s;
          best = top_product now s
      in case map_err (first_category_card best s) (take 3 (order_desc total_rating live)) of
           Inl e \<Rightarrow> Inl e
         | Inr tops \<Rightarrow>
             (case (order_desc price live, sort_key price live) of
                (hi # _, lo # _) \<Rightarrow>
                  Inr \<lparr>sf_categories = category_counts s, sf_brands = brand_counts s, sf_tops = tops,
                       sf_max_price = price hi, sf_min_price = price lo\<rparr>
              | _ \<Rightarrow> Inl AttributeError))"

text \<open>
  Python's \<open>int()\<close> on the pieces of \<open>category.split(",")\<close> and \<open>brand.split(",")\<close>:
  surrounding ASCII white space is stripped, a sign is allowed, and the digits may be
  grouped by single underscores; anything else raises \<open>ValueError\<close>.  (Non-ASCII digits,
  which Python also accepts, are not modelled.)
\<close>

definition py_space :: "char \<Rightarrow> bool" where
  "py_space c \<longleftrightarrow> c \<in> set '' \<newline>'' \<or> c = CHR 0x09 \<or> c = CHR 0x0B \<or> c = CHR 0x0C \<or> c = CHR 0x0D"

definition py_strip :: "string \<Rightarrow> string" where
  "py_strip t = rev (dropWhile py_space (rev (dropWhile py_space t)))"

definition is_digit :: "char \<Rightarrow> bool" where
  "is_digit c \<longleftrightarrow> CHR ''0'' \<le> c \<and> c \<le> CHR ''9''"

fun digits_ok :: "string \<Rightarrow> bool" where
  "digits_ok [] = False"
| "digits_ok [c] = is_digit c"
| "digits_ok (c # d # ds) =
     (is_digit c \<and> (if d = CHR ''_'' then ds \<noteq> [] \<and> is_digit (hd ds) \<and> digits_ok ds else digits_ok (d # ds)))"

definition digits_value :: "string \<Rightarrow> int" where
  "digits_value ds = foldl (\<lambda>n c. 10 * n + (int (of_char c) - 48)) 0 (filter is_digit ds)"

definition py_int :: "string \<Rightarrow> int option" where
  "py_int t =
     (let u = py_strip t;
          (sg, ds) = (case u of
                        c # r \<Rightarrow> if c = CHR ''-'' then (-1, r) else if c = CHR ''+'' then (1, r) else (1, u)
                      | [] \<Rightarrow> (1, []))
      in if digits_ok ds then Some (sg * digits_value ds) else None)"

definition parse_ids :: "string option \<Rightarrow> error + int list option" where
  "parse_ids v =
     (case v of None \<Rightarrow> Inr None
      | Some t \<Rightarrow> (let xs = map py_int (py_split CHR '','' t)
                  in if None \<in> set xs then Inl ValueError else Inr (Some (map the xs))))"

text \<open>
  The rows of the listing: products with status 1 in id-descending order, narrowed by
  the search (name, SKU, description or details, with \<open>ilike\<close>), by the categories
  (an inner join through \<open>products_categories\<close>: a product is repeated once per
  matching category), by the brands and by the price bounds (applied only when both
  bounds are given; the query-string bounds are modelled as numbers).
\<close>

definition category_join :: "int list \<Rightarrow> product \<Rightarrow> db \<Rightarrow> unit list" where
  "category_join cs p s =
     [(). (pid, cid) \<leftarrow> products_categories s, pid = prod_id p, c \<leftarrow> categories s, cat_id c = cid,
          int cid \<in> set cs]"

definition shop_rows ::
  "string option \<Rightarrow> int list option \<Rightarrow> int list option \<Rightarrow> (money \<times> money) option \<Rightarrow> db \<Rightarrow> product list" where
  "shop_rows search cats brs bounds s =
     [p. p \<leftarrow> rev (products s), prod_status p = 1,
         case search of None \<Rightarrow> True
         | Some q \<Rightarrow> ilike_contains q (prod_name p) \<or> ilike_contains q (sku p) \<or>
                    ilike_contains q (prod_description p) \<or> ilike_contains q (prod_details p),
         case brs of None \<Rightarrow> True
         | Some bs \<Rightarrow> (case prod_brand_id p of None \<Rightarrow> False | Some b \<Rightarrow> int b \<in> set bs),
         case bounds of None \<Rightarrow> True | Some (lo, hi) \<Rightarrow> lo \<le> price p \<and> price p \<le> hi,
         q \<leftarrow> (case cats of None \<Rightarrow> [()] | Some cs \<Rightarrow> category_join cs p s)]"

record shop_list =
  sl_total_filtered :: nat
  sl_total_all :: nat
  sl_list :: "card list"
  sl_limit :: int

text \<open>
  \<open>total_filtered\<close> is the SQL count of the rows; the page is the rows at
  \<open>OFFSET\<close>/\<open>LIMIT\<close>, of which SQLAlchemy's legacy \<open>Query\<close> returns each product once
  (it uniquifies mapped entities), so a product matched through two categories fills one
  place of the page while it is counted twice.
\<close>

definition view_shop_list ::
  "int \<Rightarrow> int \<Rightarrow> int \<Rightarrow> string option \<Rightarrow> string option \<Rightarrow> string option \<Rightarrow>
   (money \<times> money) option \<Rightarrow> db \<Rightarrow> error + shop_list" where
  "view_shop_list now page limit search brand category bounds s =
     (let offset = (page - 1) * limit;
          best = top_product now s;
          total = sql_count (\<lambda>p. prod_status p = 1) (products s)
      in case parse_ids category of
           Inl e \<Rightarrow> Inl e
         | Inr cats \<Rightarrow> (case parse_ids brand of
             Inl e \<Rightarrow> Inl e
           | Inr brs \<Rightarrow>
               (let rows = shop_rows search cats brs bounds s
                in if limit < 0 \<or> offset < 0 then Inl SqlError
                   else case map_err (joined_category_card best s) (remdups (take (nat limit) (drop (nat offset) rows))) of
                     Inl e \<Rightarrow> Inl e
                   | Inr cards \<Rightarrow> Inr \<lparr>sl_total_filtered = length rows, sl_total_all = total,
                                      sl_list = cards, sl_limit = limit\<rparr>)))"

subsection \<open>Product page\<close>

text \<open>
  \<open>view_order_list_cart\<close> (\<open>view_order.py\<close>, lines 101--148), the product page: the
  product, its images and inventory rows, three best-selling other products, the active
  sizes by name and the colours.  The colour query filters and sorts on \<open>Size\<close>, which
  it does not join: SQL pairs every colour with every active size, and the legacy
  \<open>Query\<close> keeps the first occurrence of each colour, so the page lists all colours
  (active or not) when some size is active and none otherwise.  The product is taken as
  \<open>product[0]\<close>: an unknown id raises \<open>IndexError\<close> once the lists are built.  The
  inventory filter compares the column with the text of the id, which MySQL converts to
  the same number as \<open>int()\<close> does except for digits grouped by underscores, where
  MySQL stops at the first underscore; the model uses \<open>int()\<close>'s value.
\<close>

record detail_card =
  dc_id :: nat
  dc_name :: string
  dc_image :: "string option"
  dc_categories :: "category list"
  dc_price :: money
  dc_price_old :: money
  dc_rating :: int
  dc_description :: string
  dc_details :: string

record product_page =
  pp_images :: "product_image list"
  pp_product :: detail_card
  pp_related :: "card list"
  pp_sizes :: "size_row list"
  pp_colours :: "colour_row list"
  pp_inventories :: "inventory list"

definition detail_card_of :: "product option \<Rightarrow> db \<Rightarrow> product \<Rightarrow> error + detail_card" where
  "detail_card_of best s p =
     (case stars best p of
        Inl e \<Rightarrow> Inl e
      | Inr r \<Rightarrow> Inr \<lparr>dc_id = prod_id p, dc_name = prod_name p, dc_image = prod_image p,
                    dc_categories = product_categories p s, dc_price = price p,
                    dc_price_old = price_old p, dc_rating = r, dc_description = prod_description p,
                    dc_details = prod_details p\<rparr>)"

definition active_sizes :: "db \<Rightarrow> size_row list" where
  "active_sizes s = sort_key (\<lambda>z. map lower_ascii (sz_name z)) (filter (\<lambda>z. sz_status z = 1) (sizes s))"

definition page_colours :: "db \<Rightarrow> colour_row list" where
  "page_colours s = remdups [c. z \<leftarrow> active_sizes s, c \<leftarrow> colours s]"

definition view_order_list_cart :: "int \<Rightarrow> string \<Rightarrow> db \<Rightarrow> error + product_page" where
  "view_order_list_cart now pid_text s =
     (case py_int pid_text of
        None \<Rightarrow> Inl ValueError
      | Some pid \<Rightarrow>
          (let best = top_product now s;
               found = filter (\<lambda>p. int (prod_id p) = pid) (products s);
               related = take 3 (order_desc total_order
                           (filter (\<lambda>p. int (prod_id p) \<noteq> pid) (live_products now s)))
           in case map_err (detail_card_of best s) found of
                Inl e \<Rightarrow> Inl e
              | Inr cards \<Rightarrow> (case map_err (first_category_card best s) related of
                  Inl e \<Rightarrow> Inl e
                | Inr rel \<Rightarrow> (case cards of
                    [] \<Rightarrow> Inl IndexError
                  | c # _ \<Rightarrow> Inr \<lparr>pp_images = filter (\<lambda>i. int (pi_product_id i) = pid) (products_images s),
                                 pp_product = c, pp_related = rel, pp_sizes = active_sizes s,
                                 pp_colours = page_colours s,
                                 pp_inventories = filter (\<lambda>i. int (product_id i) = pid) (inventories s)\<rparr>))))"

section \<open>Properties of the catalogue views\<close>

lemma map_err_Inr_length: "map_err f xs = Inr ys \<Longrightarrow> length ys = length xs"
  by (induction xs arbitrary: ys) (auto split: sum.splits)

lemma map_err_only_error:
  assumes "\<And>x e. x \<in> set xs \<Longrightarrow> f x = Inl e \<Longrightarrow> e = E" and "x \<in> set xs" and "f x = Inl e"
  shows "map_err f xs = Inl E"
  using assms
proof (induction xs)
  case Nil then show ?case by simp
next
  case (Cons y ys)
  show ?case
  proof (cases "f y")
    case (Inl e') with Cons.prems(1) [of y e'] show ?thesis by simp
  next
    case (Inr z)
    with Cons.prems have "x \<in> set ys" by auto
    with Cons.prems have "map_err f ys = Inl E" by (intro Cons.IH) auto
    with Inr show ?thesis by simp
  qed
qed

lemma top_product_Some:
  assumes "live_products now s \<noteq> []"
  shows "\<exists>t. top_product now s = Some t \<and> t \<in> set (live_products now s) \<and>
            (\<forall>q \<in> set (live_products now s). total_rating q \<le> total_rating t)"
proof -
  let ?xs = "sort_key (\<lambda>x. - total_rating x) (live_products now s)"
  have set_eq: "set ?xs = set (live_products now s)" by simp
  have "?xs \<noteq> []" using assms by (metis length_0_conv length_sort)
  then obtain t ts where xs: "?xs = t # ts" by (meson neq_Nil_conv)
  have "sorted (map (\<lambda>x. - total_rating x) ?xs)" by simp
  then have "\<forall>q \<in> set ts. - total_rating t \<le> - total_rating q" by (simp add: xs)
  with set_eq xs show ?thesis by (auto simp: top_product_def order_desc_def)
qed

lemma first_category_card_Inl:
  assumes "best = Some t" and "total_rating t \<noteq> 0" and "first_category_card best s p = Inl e"
  shows "e = IndexError"
  using assms by (auto simp: first_category_card_def stars_def split: list.splits)

text \<open>
  C17: the home page fails with \<open>IndexError\<close> (HTTP 500) as soon as one of the four
  newest published products has no category, when some published product has a rating.
\<close>

theorem home_page_needs_category:
  assumes p: "p \<in> set (take 4 (rev (live_products now s)))" and nc: "product_categories p s = []"
    and q: "q \<in> set (live_products now s)" and r: "0 < total_rating q"
  shows "view_home_page now s = Inl IndexError"
proof -
  from q obtain t where t: "top_product now s = Some t"
    and tq: "total_rating q \<le> total_rating t" using top_product_Some [of now s] by force
  with r have t0: "total_rating t \<noteq> 0" by simp
  have "first_category_card (top_product now s) s p = Inl IndexError"
    by (simp add: first_category_card_def nc)
  then have "map_err (first_category_card (top_product now s) s) (take 4 (rev (live_products now s))) = Inl IndexError"
    using p by (intro map_err_only_error) (auto intro: first_category_card_Inl [OF t t0])
  then show ?thesis by (simp add: view_home_page_def Let_def)
qed

lemma length_concat_filter_map:
  "length (concat (map (\<lambda>p. if P p then map (\<lambda>q. p) (g p) else []) xs)) =
   sum_list (map (\<lambda>p. if P p then length (g p) else 0) xs)"
  by (induction xs) auto

lemma shop_rows_categories:
  "shop_rows None (Some cs) None None s =
     concat (map (\<lambda>p. if prod_status p = 1 then map (\<lambda>q. p) (category_join cs p s) else []) (rev (products s)))"
  unfolding shop_rows_def by (simp cong: if_cong)

lemma set_shop_rows: "set (shop_rows search cats brs bounds s) \<subseteq> set (products s)"
  by (auto simp: shop_rows_def)

lemma map_err_map:
  "map_err f xs = Inr ys \<Longrightarrow> (\<And>x y. x \<in> set xs \<Longrightarrow> f x = Inr y \<Longrightarrow> g y = h x) \<Longrightarrow> map g ys = map h xs"
  by (induction xs arbitrary: ys) (auto split: sum.splits)

lemma joined_category_card_id: "joined_category_card best s p = Inr c \<Longrightarrow> card_id c = prod_id p"
  by (auto simp: joined_category_card_def split: sum.splits)

text \<open>
  C28: filtering the shop list by categories counts a product once per matching category
  in \<open>total_filtered\<close>, while the page lists every product at most once.
\<close>

theorem shop_list_counts_rows:
  assumes ok: "view_shop_list now page limit None None (Some t) None s = Inr v"
    and ids: "parse_ids (Some t) = Inr (Some cs)" and keys: "distinct (map prod_id (products s))"
  shows "sl_total_filtered v =
           sum_list (map (\<lambda>p. if prod_status p = 1 then length (category_join cs p s) else 0) (products s)) \<and>
         distinct (map card_id (sl_list v))"
proof -
  let ?rows = "shop_rows None (Some cs) None None s"
  let ?page = "remdups (take (nat limit) (drop (nat ((page - 1) * limit)) ?rows))"
  from ok ids have v: "sl_total_filtered v = length ?rows"
    and m: "map_err (joined_category_card (top_product now s) s) ?page = Inr (sl_list v)"
    by (auto simp: view_shop_list_def parse_ids_def Let_def split: if_splits sum.splits)
  have "sl_total_filtered v =
          sum_list (map (\<lambda>p. if prod_status p = 1 then length (category_join cs p s) else 0) (rev (products s)))"
    unfolding v shop_rows_categories by (rule length_concat_filter_map)
  moreover have "map card_id (sl_list v) = map prod_id ?page"
    using m by (rule map_err_map) (rule joined_category_card_id)
  moreover have "set ?page \<subseteq> set (products s)"
    using set_shop_rows [of None "Some cs" None None s] set_take_subset set_drop_subset by fastforce
  then have "distinct (map prod_id ?page)"
    using keys by (auto simp: distinct_map intro: inj_on_subset)
  ultimately show ?thesis by (simp add: rev_map [symmetric] sum_list_rev)
qed

lemma newsletter_shop: "view_newsletter ip e s = Inr (n, s') \<Longrightarrow> shop_unchanged s s'"
  by (auto simp: view_newsletter_def shop_unchanged_def Let_def split: if_splits)

lemma newsletter_users_ok:
  assumes "view_newsletter ip e s = Inr (n, s')"
  shows "users_ok s' = users_ok s"
proof (rule users_ok_accounts)
  show "accounts s' = accounts s"
    using assms by (auto simp: view_newsletter_def Let_def accounts_def split: if_splits)
qed

lemma parse_ids_None [simp]: "parse_ids None = Inr None"
  by (simp add: parse_ids_def)

end
