(* ===== verification/Catalogue_Scenarios.thy ===== *)
theory Catalogue_Scenarios
  imports Scenarios Catalogue
begin

text \<open>
  Catalogue witnesses on the store of \<open>Scenarios\<close> at time 0, where the laptop (rated 3)
  and the phone (rated 4) are published and no category exists yet, and on a variant in
  which the laptop belongs to two categories.
\<close>

definition demo_category :: "nat \<Rightarrow> string \<Rightarrow> category" where
  "demo_category i n = \<lparr>cat_id = i, cat_name = n, cat_image = None, cat_status = 1, displayed = 1\<rparr>"

definition demo_catalogue_db :: db where
  "demo_catalogue_db = demo_db\<lparr>categories := [demo_category 1 ''Computers'', demo_category 2 ''Office''],
     products_categories := [(1, 1), (1, 2)]\<rparr>"

lemmas demo_catalogue_simps = demo_catalogue_db_def demo_category_def demo_db_def demo_customer_def demo_laptop_def demo_phone_def

lemma demo_live: "live_products 0 demo_db = [demo_laptop, demo_phone]"
  by (simp add: live_products_def published_def demo_db_def demo_laptop_def demo_phone_def)

theorem home_page_needs_category_witness: "view_home_page 0 demo_db = Inl IndexError"
proof -
  have p: "demo_phone \<in> set (take 4 (rev (live_products 0 demo_db)))" by (simp add: demo_live)
  have nc: "product_categories demo_phone demo_db = []"
    by (simp add: product_categories_def demo_db_def)
  have q: "demo_laptop \<in> set (live_products 0 demo_db)" by (simp add: demo_live)
  have r: "0 < total_rating demo_laptop" by (simp add: demo_laptop_def)
  show ?thesis by (rule home_page_needs_category [OF p nc q r])
qed

lemma demo_parse_ids: "parse_ids (Some ''1,2'') = Inr (Some [1, 2])"
  by (simp add: parse_ids_def py_int_def py_strip_def py_space_def is_digit_def digits_value_def)

lemma demo_shop_eval: "\<exists>v. view_shop_list 0 1 10 None None (Some ''1,2'') None demo_catalogue_db = Inr v"
  by (simp add: view_shop_list_def demo_parse_ids Let_def shop_rows_def category_join_def top_product_def
      order_desc_def live_products_def published_def joined_category_card_def stars_def
      demo_catalogue_simps)

theorem shop_list_counts_rows_witness:
  "\<exists>v. view_shop_list 0 1 10 None None (Some ''1,2'') None demo_catalogue_db = Inr v \<and>
     sl_total_filtered v = 2 \<and> distinct (map card_id (sl_list v))"
proof -
  obtain v where ok: "view_shop_list 0 1 10 None None (Some ''1,2'') None demo_catalogue_db = Inr v"
    using demo_shop_eval by blast
  have keys: "distinct (map prod_id (products demo_catalogue_db))" by (simp add: demo_catalogue_simps)
  note h = shop_list_counts_rows [OF ok demo_parse_ids keys]
  have "sum_list (map (\<lambda>p. if prod_status p = 1 then length (category_join [1, 2] p demo_catalogue_db) else 0)
          (products demo_catalogue_db)) = 2"
    by (simp add: category_join_def demo_catalogue_simps)
  with h ok show ?thesis by auto
qed

end
