(* ===== verification/Requests.thy ===== *)
theory Requests
  imports Wishlist Reviews Profile Catalogue
begin

text \<open>
  The requests that change the store, as one datatype of operations with one step
  function.  \<open>src/backend/main.py\<close> (lines 34--38) mounts the routers; every request
  runs in its own database session (\<open>get_db\<close>, in \<open>database.py\<close>, which is not part
  of the repository) that the handler commits at its end (the profile handlers commit the user row and then
  the activity, which is one step here).  A handler that raises
  before its commit leaves the database as it was (\<open>commit\<close>); one that answers
  HTTP 400 has written nothing.  Read-only handlers (the order listing, detail, session,
  review and quote views, the activity listing and the catalogue views) are not requests of this type: they leave every state
  unchanged.  \<open>reachable s0\<close> is the set of states that a sequence of requests leads
  to from \<open>s0\<close>, and \<open>run\<close> executes a given sequence in order.
\<close>

datatype request =
    AddToCart nat nat cart_form int
  | CheckoutOrder nat checkout_form
  | CancelOrder nat nat
  | AddWishlist nat nat
  | CreateReview nat nat review_form
  | Login login_form
  | Register "string \<Rightarrow> bool" string register_form
  | Confirm string
  | Forgot string string
  | Reset "string \<Rightarrow> bool" string reset_form
  | UpdateProfile nat profile_form
  | UploadImage nat string string
  | ChangePassword nat password_form
  | Subscribe string string

definition commit :: "error + ('a \<times> db) \<Rightarrow> db \<Rightarrow> db" where
  "commit res s = (case res of Inl _ \<Rightarrow> s | Inr (_, s') \<Rightarrow> s')"

fun handle :: "request \<Rightarrow> db \<Rightarrow> db" where
  "handle (AddToCart uid pid f t) s = commit (view_order_create_cart uid pid f t s) s"
| "handle (CheckoutOrder uid f) s = commit (view_order_checkout_submit uid f s) s"
| "handle (CancelOrder oid uid) s = (case view_order_cancel oid uid s of Ok s' \<Rightarrow> s' | _ \<Rightarrow> s)"
| "handle (AddWishlist uid pid) s = commit (view_order_wishlist uid pid s) s"
| "handle (CreateReview uid pid f) s = commit (view_order_create_review uid pid f s) s"
| "handle (Login f) s = commit (view_auth_login f s) s"
| "handle (Register pol tok f) s = commit (view_auth_register pol tok f s) s"
| "handle (Confirm tok) s = commit (view_auth_confirm tok s) s"
| "handle (Forgot tok e) s = commit (view_auth_email_forgot tok e s) s"
| "handle (Reset pol tok f) s = commit (view_auth_email_reset pol tok f s) s"
| "handle (UpdateProfile uid f) s = commit (view_profile_update uid f s) s"
| "handle (UploadImage uid fname filename) s = commit (view_profile_upload uid fname filename s) s"
| "handle (ChangePassword uid f) s = commit (view_profile_password uid f s) s"
| "handle (Subscribe ip e) s = commit (view_newsletter ip e s) s"

definition run :: "request list \<Rightarrow> db \<Rightarrow> db" where
  "run rs s = fold handle rs s"

inductive reachable :: "db \<Rightarrow> db \<Rightarrow> bool" for s0 :: db where
  init: "reachable s0 s0"
| step: "reachable s0 s \<Longrightarrow> reachable s0 (handle r s)"

text \<open>The invariant of the whole store: the integrity of the shop's tables, of the reviews and of the accounts.\<close>

definition store_ok :: "db \<Rightarrow> bool" where
  "store_ok s \<longleftrightarrow> db_wf s \<and> reviews_ok s \<and> users_ok s"

subsection \<open>Every request keeps the invariant\<close>

lemma commit_cases:
  "P (commit res s) \<longleftrightarrow> (\<forall>e. res = Inl e \<longrightarrow> P s) \<and> (\<forall>x s'. res = Inr (x, s') \<longrightarrow> P s')"
  by (cases res) (auto simp: commit_def)

lemma reviews_ok_frame:
  "reviews s' = reviews s \<Longrightarrow> next_review s' = next_review s \<Longrightarrow> reviews_ok s' = reviews_ok s"
  by (simp add: reviews_ok_def)

lemma checkout_reviews:
  assumes "view_order_checkout_submit uid f s = Inr (r', s')"
  shows "reviews s' = reviews s \<and> next_review s' = next_review s \<and> accounts s' = accounts s"
proof -
  from assms obtain r s1 bs where l: "checkout_lines uid (order_lines (ord_id r) s) s = Inr s1"
    and s': "s' = checkout_log uid (place_order r r' bs s1)"
    by (rule view_order_checkout_submit_Inr)
  from checkout_lines_frame [OF l] s' show ?thesis by simp
qed

lemma shop_unchanged_store:
  "shop_unchanged s s' \<Longrightarrow> db_wf s' = db_wf s \<and> reviews_ok s' = reviews_ok s"
  by (simp add: shop_unchanged_def db_wf_def keys_ok_def single_draft_def unique_lines_def
      refs_ok_def drafts_counted_def reviews_ok_def)

lemma auth_step:
  assumes "store_ok s"
    and "\<And>x s'. res = Inr (x, s') \<Longrightarrow> shop_unchanged s s' \<and> (users_ok s \<longrightarrow> users_ok s')"
  shows "store_ok (commit res s)"
proof (cases res)
  case (Inl e) with assms(1) show ?thesis by (simp add: commit_def)
next
  case (Inr p)
  obtain x s' where p: "p = (x, s')" by (cases p)
  with Inr assms(2) have "shop_unchanged s s'" and "users_ok s \<longrightarrow> users_ok s'" by simp_all
  with shop_unchanged_store assms(1) Inr p show ?thesis by (simp add: commit_def store_ok_def)
qed

lemma handle_store_ok: "store_ok s \<Longrightarrow> store_ok (handle r s)"
proof (cases r)
  case (AddToCart uid pid f t)
  then show "store_ok s \<Longrightarrow> store_ok (handle r s)"
    by (auto simp: commit_cases store_ok_def view_order_create_cart_wf
        dest: view_order_create_cart_untouched reviews_ok_frame users_ok_accounts)
next
  case (CheckoutOrder uid f)
  then show "store_ok s \<Longrightarrow> store_ok (handle r s)"
    by (auto simp: commit_cases store_ok_def view_order_checkout_submit_wf
        dest: checkout_reviews reviews_ok_frame users_ok_accounts)
next
  case (CancelOrder oid uid)
  then show "store_ok s \<Longrightarrow> store_ok (handle r s)"
    by (auto simp: store_ok_def view_order_cancel_Ok cancel_rows_wf reviews_ok_def
        intro: users_ok_accounts [THEN iffD2] split: reply.splits)
next
  case (AddWishlist uid pid)
  then show "store_ok s \<Longrightarrow> store_ok (handle r s)"
    by (auto simp: commit_cases store_ok_def view_order_wishlist_Inr reviews_ok_def
        intro: users_ok_accounts [THEN iffD2])
next
  case (CreateReview uid pid f)
  then show "store_ok s \<Longrightarrow> store_ok (handle r s)"
    by (auto simp: commit_cases store_ok_def insert_review_ok elim!: view_order_create_review_Inr
        intro: users_ok_accounts [THEN iffD2] simp add: accounts_def)
next
  case (Login f)
  then show "store_ok s \<Longrightarrow> store_ok (handle r s)"
    by (auto intro!: auth_step intro: login_shop login_users_ok [THEN iffD2])
next
  case (Register pol tok f)
  then show "store_ok s \<Longrightarrow> store_ok (handle r s)"
    by (auto intro!: auth_step intro: register_shop register_users_ok)
next
  case (Confirm tok)
  then show "store_ok s \<Longrightarrow> store_ok (handle r s)"
    by (auto intro!: auth_step intro: confirm_shop confirm_users_ok)
next
  case (Forgot tok e)
  then show "store_ok s \<Longrightarrow> store_ok (handle r s)"
    by (auto intro!: auth_step intro: forgot_shop forgot_users_ok)
next
  case (Reset pol tok f)
  then show "store_ok s \<Longrightarrow> store_ok (handle r s)"
    by (auto intro!: auth_step intro: reset_shop reset_users_ok)
next
  case (UpdateProfile uid f)
  then show "store_ok s \<Longrightarrow> store_ok (handle r s)"
    by (auto intro!: auth_step intro: update_shop update_users_ok)
next
  case (UploadImage uid fname filename)
  then show "store_ok s \<Longrightarrow> store_ok (handle r s)"
    by (auto intro!: auth_step intro: upload_shop upload_users_ok)
next
  case (ChangePassword uid f)
  then show "store_ok s \<Longrightarrow> store_ok (handle r s)"
    by (auto intro!: auth_step intro: password_shop password_users_ok)
next
  case (Subscribe ip e)
  then show "store_ok s \<Longrightarrow> store_ok (handle r s)"
    by (auto intro!: auth_step intro: newsletter_shop newsletter_users_ok [THEN iffD2])
qed

lemma run_Nil [simp]: "run [] s = s"
  by (simp add: run_def)

lemma run_snoc [simp]: "run (rs @ [r]) s = handle r (run rs s)"
  by (simp add: run_def)

end
