(* ===== verification/Seed.thy ===== *)
theory Seed
  imports Requests
begin

text \<open>
  The start-up of the application: \<open>src/backend/main.py\<close> creates the tables
  (line 26) and runs \<open>Seed().run()\<close> (lines 28--29) of \<open>src/backend/src/seed.py\<close>, which in
  the development environment fills the empty tables with demonstration data.  Each
  \<open>seed_*\<close> method opens its own session, counts the rows of one table, inserts its rows
  only if the count is 0, and commits; an exception (the commit of \<open>seed_user\<close> can fail)
  aborts the start-up with the earlier commits kept.  Faker's and \<open>random\<close>'s values are
  parameters: \<open>fake i\<close> is what the Faker object of the \<open>i\<close>-th user draws, \<open>dice i\<close> what
  the \<open>i\<close>-th product draws (its random brand, categories and reviewers, prices and
  stocks); the theorems hold for every draw within the ranges the calls can return.
  Column values the model's records do not keep (descriptions, \<open>expired_at\<close>, the
  timestamps) are not modelled.
\<close>

subsection \<open>The draws\<close>

record fake_user =
  fu_gender :: int
  fu_first_name_male :: string
  fu_first_name_female :: string
  fu_last_name :: string
  fu_email :: string
  fu_phone :: string
  fu_country :: string
  fu_city :: string
  fu_zipcode :: string
  fu_address :: string
  fu_uuid :: string

text \<open>
  One iteration of \<open>seed_product\<close>: \<open>pd_brand_key\<close>, \<open>pd_category_key\<close> and
  \<open>pd_user_key\<close> are the values \<open>func.rand()\<close> draws for the rows (by id) of the three
  queries of lines 214--216, which run on the tables as they are at that iteration,
  \<open>pd_image_at i\<close> the image of the \<open>i\<close>-th \<open>ProductImage\<close>, \<open>pd_rating j\<close> and
  \<open>pd_review j\<close> the rating and text of the \<open>j\<close>-th reviewer's review, \<open>pd_stock c z\<close>
  the stock of the inventory row of colour \<open>c\<close> and size \<open>z\<close>.
\<close>

record product_dice =
  pd_brand_key :: "nat \<Rightarrow> int"
  pd_category_key :: "nat \<Rightarrow> int"
  pd_user_key :: "nat \<Rightarrow> int"
  pd_image :: string
  pd_price :: int
  pd_total_order :: int
  pd_total_rating :: int
  pd_details :: string
  pd_description :: string
  pd_image_at :: "nat \<Rightarrow> string"
  pd_rating :: "nat \<Rightarrow> int"
  pd_review :: "nat \<Rightarrow> string"
  pd_stock :: "colour_row \<Rightarrow> size_row \<Rightarrow> int"

subsection \<open>The fixed data\<close>

definition demo_image :: "string \<Rightarrow> string" where
  "demo_image n = ''https://5an9y4lf0n50.github.io/demo-images/demo-commerce/product'' @ n @ ''.png''"

definition category_items :: "(string \<times> string) list" where
  "category_items =
     [(''Laptop'', demo_image ''01''), (''Smartphone'', demo_image ''02''),
      (''Camera'', demo_image ''03''), (''Accessories'', demo_image ''04''),
      (''Others'', demo_image ''05'')]"

text \<open>
  The settings dictionary of lines 82--95.  The model's \<open>settings\<close> table keeps the
  number each \<open>key_value\<close> denotes (what \<open>Decimal(key_value)\<close> reads); the entries whose
  value is a text (\<open>about_section\<close>, the company's location, phone, e-mail and currency,
  and the two dates formatted from the clock) have no such number and are not rows of
  the model.
\<close>

definition setting_items :: "(string \<times> int) list" where
  "setting_items =
     [(''installed'', 1), (''discount_active'', 1), (''discount_value'', 5),
      (''taxes_value'', 10), (''total_shipment'', 50)]"

definition brand_items :: "string list" where
  "brand_items = [''Samsung'', ''LG'', ''Sony'', ''Apple'', ''Microsoft'']"

definition size_items :: "string list" where
  "size_items = [''11 to 12 Inches'', ''13 to 14 Inches'', ''15 to 16 Inches'', ''17 to 18 Inches'']"

definition colour_items :: "(string \<times> string) list" where
  "colour_items =
     [(''#FF0000'', ''Red''), (''#0000FF'', ''Blue''), (''#FFFF00'', ''Yellow''),
      (''#000000'', ''Black''), (''#FFFFFF'', ''White''), (''#666'', ''Dark Gray''),
      (''#AAA'', ''Light Gray'')]"

definition payment_items :: "string list" where
  "payment_items = [''Direct Bank Transfer'', ''Cheque Payment'', ''Paypal System'']"

definition product_images :: "string list" where
  "product_images = map demo_image [''01'', ''02'', ''03'', ''04'', ''05'', ''06'', ''07'', ''08'', ''09'']"

subsection \<open>Users\<close>

text \<open>Lines 281--300: the user of one iteration; \<open>hash_pass\<close> is bcrypt.\<close>

definition seeded_user :: "fake_user \<Rightarrow> nat \<Rightarrow> user" where
  "seeded_user f uid =
     (let male = (fu_gender f = 1)
      in \<lparr>usr_id = uid, email = fu_email f, phone = Some (fu_phone f),
          password = Some (Bcrypt ''Qwerty123!''), image = None,
          first_name = Some (if male then fu_first_name_male f else fu_first_name_female f),
          last_name = Some (fu_last_name f), gender = Some (if male then ''M'' else ''F''),
          city = Some (fu_city f), zip_code = Some (fu_zipcode f), country = Some (fu_country f),
          address = Some (fu_address f), usr_status = 1\<rparr>)"

text \<open>Lines 303--309: its e-mail confirmation row; the status column defaults to 1.\<close>

definition seeded_auth :: "fake_user \<Rightarrow> nat \<Rightarrow> nat \<Rightarrow> authentication" where
  "seeded_auth f aid uid =
     \<lparr>auth_id = aid, auth_user_id = uid, auth_type = ''email-confirm'', credential = fu_email f,
      token = fu_uuid f, auth_status = 1\<rparr>"

text \<open>Lines 281--310: one iteration adds the user, then its authentication row.\<close>

definition seed_user_row :: "fake_user \<Rightarrow> db \<Rightarrow> db" where
  "seed_user_row f s =
     add_auth (seeded_auth f (next_auth s) (next_user s))
       (s\<lparr>users := users s @ [seeded_user f (next_user s)], next_user := Suc (next_user s)\<rparr>)"

text \<open>The \<open>VARCHAR\<close> limits of the user columns (\<open>model.py\<close>, lines 47--56).\<close>

definition user_fits :: "user \<Rightarrow> bool" where
  "user_fits u \<longleftrightarrow>
     fits 180 (Some (email u)) \<and> fits 64 (phone u) \<and> fits 191 (first_name u) \<and>
     fits 191 (last_name u) \<and> fits 2 (gender u) \<and> fits 255 (city u) \<and> fits 64 (zip_code u) \<and>
     fits 255 (country u)"

text \<open>
  The commit inserts the new users in order; the first row that is too long for a
  column, or repeats an e-mail address or a phone number of an earlier row (the
  \<open>unique\<close> indexes), makes it fail.
\<close>

fun users_insert_check :: "user list \<Rightarrow> user list \<Rightarrow> error option" where
  "users_insert_check prev [] = None"
| "users_insert_check prev (u # us) =
     (if \<not> user_fits u then Some RangeError
      else if email u \<in> set (map email prev) \<or> (phone u \<noteq> None \<and> phone u \<in> set (map phone prev))
      then Some IntegrityError
      else users_insert_check (prev @ [u]) us)"

definition seed_user :: "(nat \<Rightarrow> fake_user) \<Rightarrow> db \<Rightarrow> error + db" where
  "seed_user fake s =
     (if length (users s) = 0
      then (let s' = fold (\<lambda>i. seed_user_row (fake i)) [0..<10] s
            in case users_insert_check [] (users s') of
                 None \<Rightarrow> Inr s'
               | Some e \<Rightarrow> Inl e)
      else Inr s)"

subsection \<open>The catalogue tables\<close>

definition seed_category :: "db \<Rightarrow> db" where
  "seed_category s =
     (if length (categories s) = 0
      then s\<lparr>categories := fold (\<lambda>(index, name, url).
              insert_row cat_id (\<lambda>k. \<lparr>cat_id = k, cat_name = name, cat_image = Some url,
                                      cat_status = 1, displayed = if index < 3 then 1 else 0\<rparr>))
              (enumerate 0 category_items) (categories s)\<rparr>
      else s)"

text \<open>Line 77 counts the rows of \<open>Category\<close>, not of \<open>Setting\<close>.\<close>

definition seed_setting :: "db \<Rightarrow> db" where
  "seed_setting s =
     (if length (categories s) = 0
      then s\<lparr>settings := fold (\<lambda>(key, value) ss. ss @ [\<lparr>key_name = key, key_value = of_int value\<rparr>])
                            setting_items (settings s)\<rparr>
      else s)"

definition seed_brand :: "db \<Rightarrow> db" where
  "seed_brand s =
     (if length (brands s) = 0
      then s\<lparr>brands := fold (\<lambda>item. insert_row br_id (\<lambda>k. \<lparr>br_id = k, br_name = item\<rparr>))
                          brand_items (brands s)\<rparr>
      else s)"

definition seed_size :: "db \<Rightarrow> db" where
  "seed_size s =
     (if length (sizes s) = 0
      then s\<lparr>sizes := fold (\<lambda>item. insert_row sz_id (\<lambda>k. \<lparr>sz_id = k, sz_name = item, sz_status = 1\<rparr>))
                         size_items (sizes s)\<rparr>
      else s)"

definition seed_colour :: "db \<Rightarrow> db" where
  "seed_colour s =
     (if length (colours s) = 0
      then s\<lparr>colours := fold (\<lambda>(code, name).
              insert_row col_id (\<lambda>k. \<lparr>col_id = k, col_code = code, col_name = name, col_status = 1\<rparr>))
              colour_items (colours s)\<rparr>
      else s)"

definition seed_payment :: "db \<Rightarrow> db" where
  "seed_payment s =
     (if length (payments s) = 0
      then s\<lparr>payments := fold (\<lambda>item. insert_row pay_id (\<lambda>k. \<lparr>pay_id = k, pay_name = item, pay_status = 1\<rparr>))
                            payment_items (payments s)\<rparr>
      else s)"

subsection \<open>Products\<close>

text \<open>A query ordered by \<open>func.rand()\<close>: the rows sorted by the value drawn for each
  (\<open>rid\<close> reads a row's id); \<open>.first()\<close> is the first row, \<open>None\<close> on an empty table.\<close>

definition rand_order :: "('a \<Rightarrow> nat) \<Rightarrow> (nat \<Rightarrow> int) \<Rightarrow> 'a list \<Rightarrow> 'a list" where
  "rand_order rid key xs = sort_key (\<lambda>x. key (rid x)) xs"

definition query_first :: "'a list \<Rightarrow> 'a option" where
  "query_first xs = (case xs of [] \<Rightarrow> None | x # _ \<Rightarrow> Some x)"

text \<open>Lines 211--232: the product of iteration \<open>index\<close> with the brand \<open>brand\<close>, published at
  the seeding time \<open>now\<close>.\<close>

definition seeded_product :: "int \<Rightarrow> nat \<Rightarrow> product_dice \<Rightarrow> brand option \<Rightarrow> nat \<Rightarrow> product" where
  "seeded_product now index d brand pid =
     (let number = Suc index
      in \<lparr>prod_id = pid, prod_name = ''Product '' @ nat_digits number, price = of_int (pd_price d),
          total_order = pd_total_order d, total_rating = pd_total_rating d,
          prod_brand_id = map_option br_id brand, prod_image = Some (pd_image d),
          sku = ''P00'' @ nat_digits number, published_date = Some now,
          prod_details = pd_details d, prod_description = pd_description d, prod_status = 1\<rparr>)"

text \<open>Lines 237--245: three images, sorted 1, 2, 3.\<close>

definition add_images :: "nat \<Rightarrow> product_dice \<Rightarrow> db \<Rightarrow> db" where
  "add_images pid d s =
     fold (\<lambda>i t. t\<lparr>products_images := insert_row pi_id
                    (\<lambda>k. \<lparr>pi_id = k, pi_product_id = pid, pi_path = pd_image_at d i, pi_sort = i\<rparr>)
                    (products_images t)\<rparr>) [1..<4] s"

text \<open>Lines 248--256: one review per reviewer.\<close>

definition add_reviews :: "nat \<Rightarrow> product_dice \<Rightarrow> user list \<Rightarrow> db \<Rightarrow> db" where
  "add_reviews pid d reviewers s =
     fold (\<lambda>(j, u) t. t\<lparr>reviews := reviews t @
                         [\<lparr>rev_id = next_review t, rev_product_id = pid, rev_user_id = usr_id u,
                           rating = pd_rating d j, review_text = pd_review d j\<rparr>],
                       next_review := Suc (next_review t)\<rparr>)
       (enumerate 0 reviewers) s"

text \<open>Lines 258--267: one inventory row per colour and size, colours outermost.\<close>

definition add_inventories :: "colour_row list \<Rightarrow> size_row list \<Rightarrow> nat \<Rightarrow> product_dice \<Rightarrow> db \<Rightarrow> db" where
  "add_inventories cols szs pid d s =
     fold (\<lambda>c. fold (\<lambda>z t. t\<lparr>inventories := insert_row inv_id
                         (\<lambda>k. \<lparr>inv_id = k, product_id = pid, size_id = sz_id z, colour_id = col_id c,
                               stock = pd_stock d c z\<rparr>) (inventories t)\<rparr>) szs) cols s"

definition seed_product_row ::
  "colour_row list \<Rightarrow> size_row list \<Rightarrow> int \<Rightarrow> product_dice \<Rightarrow> nat \<Rightarrow> db \<Rightarrow> db" where
  "seed_product_row cols szs now d index s =
     (let pid = next_key (map prod_id (products s));
          brand = query_first (rand_order br_id (pd_brand_key d) (brands s));
          cats = take 3 (rand_order cat_id (pd_category_key d) (categories s));
          reviewers = take 5 (rand_order usr_id (pd_user_key d) (users s))
      in add_inventories cols szs pid d (add_reviews pid d reviewers (add_images pid d
           (s\<lparr>products := products s @ [seeded_product now index d brand pid],
              products_categories := products_categories s @ map (\<lambda>c. (pid, cat_id c)) cats\<rparr>))))"

text \<open>Lines 186--269: colours and sizes are read once, before the loop over nine products.\<close>

definition seed_product :: "int \<Rightarrow> (nat \<Rightarrow> product_dice) \<Rightarrow> db \<Rightarrow> db" where
  "seed_product now dice s =
     (if length (products s) = 0
      then fold (\<lambda>index. seed_product_row (colours s) (sizes s) now (dice index) index) [0..<9] s
      else s)"

subsection \<open>Start-up\<close>

text \<open>\<open>Seed.run\<close> (lines 28--38), with \<open>env\<close> the value of \<open>APP_ENV\<close>.\<close>

definition seed_run :: "string option \<Rightarrow> (nat \<Rightarrow> fake_user) \<Rightarrow> int \<Rightarrow> (nat \<Rightarrow> product_dice) \<Rightarrow> db \<Rightarrow> error + db" where
  "seed_run env fake now dice s =
     (if env = Some ''development''
      then (case seed_user fake s of
              Inl e \<Rightarrow> Inl e
            | Inr s1 \<Rightarrow> Inr (seed_product now dice (seed_payment (seed_colour (seed_size
                          (seed_brand (seed_category (seed_setting s1))))))))
      else Inr s)"

text \<open>The database \<open>Base.metadata.create_all\<close> creates on a fresh server: every table empty.\<close>

definition empty_db :: db where
  "empty_db = \<lparr>products = [], inventories = [], orders = [], details = [], billings = [],
     settings = [], wishlists = [], orders_carts = [], activities = [], reviews = [],
     next_order = 1, next_detail = 1, next_billing = 1, next_review = 1, users = [],
     authentications = [], next_user = 1, next_auth = 1, categories = [], brands = [],
     products_categories = [], newsletters = [], next_newsletter = 1, sizes = [], colours = [],
     products_images = [], payments = []\<rparr>"

text \<open>What the random calls can return: \<open>randint(100, 999)\<close>, \<open>randint(100, 1000)\<close>,
  \<open>randint(0, 100)\<close> (the ratings of the at most five reviews) and
  \<open>random.choice(images)\<close>; no theorem depends on the stock draw \<open>randint(1, 100)\<close>.\<close>

definition dice_ranges :: "product_dice \<Rightarrow> bool" where
  "dice_ranges d \<longleftrightarrow>
     pd_image d \<in> set product_images \<and> 100 \<le> pd_price d \<and> pd_price d \<le> 999 \<and>
     100 \<le> pd_total_order d \<and> pd_total_order d \<le> 1000 \<and>
     100 \<le> pd_total_rating d \<and> pd_total_rating d \<le> 1000 \<and>
     (\<forall>i \<in> set [1..<4]. pd_image_at d i \<in> set product_images) \<and>
     (\<forall>j \<in> set [0..<5]. 0 \<le> pd_rating d j \<and> pd_rating d j \<le> 100)"

subsection \<open>Seeding the users\<close>

lemmas store_ok_defs = store_ok_def db_wf_def keys_ok_def single_draft_def unique_lines_def
  refs_ok_def drafts_counted_def reviews_ok_def users_ok_def

lemma seed_user_rows:
  "users (fold (\<lambda>i. seed_user_row (fake i)) [0..<n] s) =
     users s @ map (\<lambda>i. seeded_user (fake i) (next_user s + i)) [0..<n] \<and>
   authentications (fold (\<lambda>i. seed_user_row (fake i)) [0..<n] s) =
     authentications s @ map (\<lambda>i. seeded_auth (fake i) (next_auth s + i) (next_user s + i)) [0..<n] \<and>
   next_user (fold (\<lambda>i. seed_user_row (fake i)) [0..<n] s) = next_user s + n \<and>
   next_auth (fold (\<lambda>i. seed_user_row (fake i)) [0..<n] s) = next_auth s + n"
  by (induction n) (simp_all add: seed_user_row_def add_auth_def)

lemma seed_user_rows_shop: "shop_unchanged s (fold (\<lambda>i. seed_user_row (fake i)) xs s)"
proof -
  have "\<And>t. shop_unchanged s t \<Longrightarrow> shop_unchanged s (seed_user_row f t)" for f
    by (simp add: shop_unchanged_def seed_user_row_def add_auth_def)
  then show ?thesis by (rule fold_invariant_on [where P = "shop_unchanged s"]) simp_all
qed

lemma distinct_phones_snoc:
  "distinct (List.map_filter phone (xs @ [u])) \<longleftrightarrow>
     distinct (List.map_filter phone xs) \<and> (phone u = None \<or> phone u \<notin> set (map phone xs))"
proof -
  have "p \<in> set (List.map_filter phone xs) \<longleftrightarrow> Some p \<in> set (map phone xs)" for p
    by (auto simp: set_map_filter_eq intro: rev_image_eqI)
  then show ?thesis by (cases "phone u") (auto simp: map_filter_append)
qed

lemma users_insert_check_None:
  assumes "users_insert_check prev us = None"
    and "distinct (map email prev)" and "distinct (List.map_filter phone prev)"
  shows "distinct (map email (prev @ us)) \<and> distinct (List.map_filter phone (prev @ us))"
  using assms
proof (induction us arbitrary: prev)
  case Nil then show ?case by simp
next
  case (Cons u us)
  then have "users_insert_check (prev @ [u]) us = None" and "email u \<notin> set (map email prev)"
    and "phone u = None \<or> phone u \<notin> set (map phone prev)"
    by (simp_all split: if_splits)
  with Cons.prems(2,3) Cons.IH [of "prev @ [u]"]
  have "distinct (map email ((prev @ [u]) @ us)) \<and> distinct (List.map_filter phone ((prev @ [u]) @ us))"
    by (simp only: distinct_phones_snoc) simp
  then show ?case by simp
qed

lemma users_insert_check_distinct:
  assumes "\<forall>u \<in> set us. user_fits u"
    and "distinct (map email (prev @ us))" and "distinct (List.map_filter phone (prev @ us))"
  shows "users_insert_check prev us = None"
  using assms
proof (induction us arbitrary: prev)
  case Nil then show ?case by simp
next
  case (Cons u us)
  have e: "distinct (map email ((prev @ [u]) @ us))" using Cons.prems(2) by simp
  have p: "distinct (List.map_filter phone ((prev @ [u]) @ us))" using Cons.prems(3) by simp
  then have "distinct (List.map_filter phone (prev @ [u]))"
    by (simp only: map_filter_append distinct_append)
  then have "phone u = None \<or> phone u \<notin> set (map phone prev)" by (simp only: distinct_phones_snoc)
  moreover have "email u \<notin> set (map email prev)" using Cons.prems(2) by simp
  moreover have "users_insert_check (prev @ [u]) us = None" using Cons.IH [OF _ e p] Cons.prems(1) by simp
  ultimately show ?case using Cons.prems(1) by auto
qed

lemma users_insert_check_fits:
  "\<forall>u \<in> set us. user_fits u \<Longrightarrow> users_insert_check prev us \<in> {None, Some IntegrityError}"
  by (induction us arbitrary: prev) auto

lemma seeded_user_sel [simp]:
  "usr_id (seeded_user f k) = k" "email (seeded_user f k) = fu_email f"
  "phone (seeded_user f k) = Some (fu_phone f)" "password (seeded_user f k) = Some (Bcrypt ''Qwerty123!'')"
  by (simp_all add: seeded_user_def Let_def)

lemma seeded_auth_sel [simp]:
  "auth_id (seeded_auth f a u) = a" "auth_user_id (seeded_auth f a u) = u"
  by (simp_all add: seeded_auth_def)

lemma seeded_auth_confirms [simp]:
  "auth_status (seeded_auth f a u) = 1 \<and> auth_type (seeded_auth f a u) = ''email-confirm''"
  by (simp add: seeded_auth_def)

lemma seed_user_cases:
  assumes "seed_user fake s = Inr s'"
  shows "s' = s \<or> (users s = [] \<and> s' = fold (\<lambda>i. seed_user_row (fake i)) [0..<10] s \<and>
                    users_insert_check [] (users s') = None)"
  using assms by (auto simp: seed_user_def Let_def split: if_splits option.splits)

lemma users_ok_no_users: "users_ok s \<Longrightarrow> users s = [] \<Longrightarrow> authentications s = []"
  by (simp add: users_ok_def)

lemma seed_user_users_ok:
  assumes "seed_user fake s = Inr s'" and "users_ok s"
  shows "users_ok s' \<and> shop_unchanged s s'"
  using seed_user_cases [OF assms(1)]
proof
  assume "s' = s" with assms(2) show ?thesis by simp
next
  assume c: "users s = [] \<and> s' = fold (\<lambda>i. seed_user_row (fake i)) [0..<10] s \<and>
               users_insert_check [] (users s') = None"
  then have a: "authentications s = []" using users_ok_no_users assms(2) by blast
  let ?us = "map (\<lambda>i. seeded_user (fake i) (next_user s + i)) [0..<10]"
  have r: "users s' = ?us \<and>
      authentications s' = map (\<lambda>i. seeded_auth (fake i) (next_auth s + i) (next_user s + i)) [0..<10] \<and>
      next_user s' = next_user s + 10 \<and> next_auth s' = next_auth s + 10"
    using c a seed_user_rows [of fake 10 s] by simp
  have "distinct (map email (users s')) \<and> distinct (List.map_filter id (map phone (users s')))"
    unfolding map_filter_id_map using users_insert_check_None [of "[]" "users s'"] c by auto
  with r have "users_ok s'"
    unfolding users_ok_def by (simp add: distinct_map inj_on_def)
  with c seed_user_rows_shop show ?thesis by simp
qed

subsection \<open>The seeded store keeps the invariant\<close>

lemma seed_setting_keeps [simp]:
  "users (seed_setting s) = users s" "authentications (seed_setting s) = authentications s"
  "products (seed_setting s) = products s" "inventories (seed_setting s) = inventories s"
  "reviews (seed_setting s) = reviews s" "next_review (seed_setting s) = next_review s"
  "products_categories (seed_setting s) = products_categories s"
  "products_images (seed_setting s) = products_images s"
  "activities (seed_setting s) = activities s" "categories (seed_setting s) = categories s"
  "brands (seed_setting s) = brands s" "sizes (seed_setting s) = sizes s"
  "colours (seed_setting s) = colours s" "payments (seed_setting s) = payments s"
  by (simp_all add: seed_setting_def)

lemma seed_category_keeps [simp]:
  "users (seed_category s) = users s" "authentications (seed_category s) = authentications s"
  "products (seed_category s) = products s" "inventories (seed_category s) = inventories s"
  "reviews (seed_category s) = reviews s" "next_review (seed_category s) = next_review s"
  "products_categories (seed_category s) = products_categories s"
  "products_images (seed_category s) = products_images s"
  "activities (seed_category s) = activities s" "settings (seed_category s) = settings s"
  "brands (seed_category s) = brands s" "sizes (seed_category s) = sizes s"
  "colours (seed_category s) = colours s" "payments (seed_category s) = payments s"
  by (simp_all add: seed_category_def)

lemma seed_brand_keeps [simp]:
  "users (seed_brand s) = users s" "authentications (seed_brand s) = authentications s"
  "products (seed_brand s) = products s" "inventories (seed_brand s) = inventories s"
  "reviews (seed_brand s) = reviews s" "next_review (seed_brand s) = next_review s"
  "products_categories (seed_brand s) = products_categories s"
  "products_images (seed_brand s) = products_images s"
  "activities (seed_brand s) = activities s" "settings (seed_brand s) = settings s"
  "categories (seed_brand s) = categories s" "sizes (seed_brand s) = sizes s"
  "colours (seed_brand s) = colours s" "payments (seed_brand s) = payments s"
  by (simp_all add: seed_brand_def)

lemma seed_size_keeps [simp]:
  "users (seed_size s) = users s" "authentications (seed_size s) = authentications s"
  "products (seed_size s) = products s" "inventories (seed_size s) = inventories s"
  "reviews (seed_size s) = reviews s" "next_review (seed_size s) = next_review s"
  "products_categories (seed_size s) = products_categories s"
  "products_images (seed_size s) = products_images s" "activities (seed_size s) = activities s"
  "settings (seed_size s) = settings s" "categories (seed_size s) = categories s"
  "brands (seed_size s) = brands s" "colours (seed_size s) = colours s"
  "payments (seed_size s) = payments s"
  by (simp_all add: seed_size_def)

lemma seed_colour_keeps [simp]:
  "users (seed_colour s) = users s" "authentications (seed_colour s) = authentications s"
  "products (seed_colour s) = products s" "inventories (seed_colour s) = inventories s"
  "reviews (seed_colour s) = reviews s" "next_review (seed_colour s) = next_review s"
  "products_categories (seed_colour s) = products_categories s"
  "products_images (seed_colour s) = products_images s"
  "activities (seed_colour s) = activities s" "settings (seed_colour s) = settings s"
  "categories (seed_colour s) = categories s" "brands (seed_colour s) = brands s"
  "sizes (seed_colour s) = sizes s" "payments (seed_colour s) = payments s"
  by (simp_all add: seed_colour_def)

lemma seed_payment_keeps [simp]:
  "users (seed_payment s) = users s" "authentications (seed_payment s) = authentications s"
  "products (seed_payment s) = products s" "inventories (seed_payment s) = inventories s"
  "reviews (seed_payment s) = reviews s" "next_review (seed_payment s) = next_review s"
  "products_categories (seed_payment s) = products_categories s"
  "products_images (seed_payment s) = products_images s"
  "activities (seed_payment s) = activities s" "settings (seed_payment s) = settings s"
  "categories (seed_payment s) = categories s" "brands (seed_payment s) = brands s"
  "sizes (seed_payment s) = sizes s" "colours (seed_payment s) = colours s"
  by (simp_all add: seed_payment_def)

lemma seed_catalogue_store_ok [simp]:
  "store_ok (seed_setting s) = store_ok s" "store_ok (seed_category s) = store_ok s"
  "store_ok (seed_brand s) = store_ok s" "store_ok (seed_size s) = store_ok s"
  "store_ok (seed_colour s) = store_ok s" "store_ok (seed_payment s) = store_ok s"
  by (simp_all add: seed_setting_def seed_category_def seed_brand_def seed_size_def
      seed_colour_def seed_payment_def store_ok_defs)

lemma add_images_store_ok [simp]: "store_ok (add_images pid d s) = store_ok s"
  unfolding add_images_def by (rule fold_keeps) (simp add: store_ok_defs)

lemma add_reviews_store_ok:
  assumes "store_ok s" and "dice_ranges d" and "length us \<le> 5"
  shows "store_ok (add_reviews pid d us s)"
  unfolding add_reviews_def
proof (rule fold_invariant_on [where P = store_ok, OF _ assms(1)])
  fix x t assume x: "x \<in> set (enumerate 0 us)" and t: "store_ok t"
  obtain j u where xj: "x = (j, u)" by (cases x)
  with x assms(3) have "j < 5" by (simp add: in_set_enumerate_eq)
  with assms(2) have "0 \<le> pd_rating d j \<and> pd_rating d j \<le> 100" by (simp add: dice_ranges_def)
  then have "unsigned_int_ok (pd_rating d j)" by (simp add: unsigned_int_ok_def)
  with t show "store_ok ((\<lambda>(j, u) t. t\<lparr>reviews := reviews t @
           [\<lparr>rev_id = next_review t, rev_product_id = pid, rev_user_id = usr_id u,
             rating = pd_rating d j, review_text = pd_review d j\<rparr>],
         next_review := Suc (next_review t)\<rparr>) x t)"
    unfolding xj by (auto simp: store_ok_defs less_Suc_eq)
qed

lemma add_inventories_store_ok:
  assumes "store_ok s" and "pid \<in> set (map prod_id (products s))"
  shows "store_ok (add_inventories cols szs pid d s)"
proof -
  let ?P = "\<lambda>t. store_ok t \<and> pid \<in> set (map prod_id (products t))"
  have step: "?P (t\<lparr>inventories := insert_row inv_id
                  (\<lambda>k. \<lparr>inv_id = k, product_id = pid, size_id = sz_id z, colour_id = col_id c,
                        stock = pd_stock d c z\<rparr>) (inventories t)\<rparr>)" if "?P t" for t c z
    using that by (auto simp: store_ok_defs set_insert_row)
  have "?P (add_inventories cols szs pid d s)"
    unfolding add_inventories_def
    by (rule fold_invariant_on [where P = ?P], rule fold_invariant_on [where P = ?P])
       (use step assms in simp_all)
  then show ?thesis by simp
qed

lemma add_rows_keep [simp]:
  "users (add_images pid d s) = users s" "authentications (add_images pid d s) = authentications s"
  "products (add_images pid d s) = products s" "categories (add_images pid d s) = categories s"
  "users (add_reviews pid d us s) = users s" "authentications (add_reviews pid d us s) = authentications s"
  "products (add_reviews pid d us s) = products s" "categories (add_reviews pid d us s) = categories s"
  "users (add_inventories cols szs pid d s) = users s"
  "authentications (add_inventories cols szs pid d s) = authentications s"
  "products (add_inventories cols szs pid d s) = products s"
  "categories (add_inventories cols szs pid d s) = categories s"
  "brands (add_images pid d s) = brands s" "sizes (add_images pid d s) = sizes s"
  "colours (add_images pid d s) = colours s" "brands (add_reviews pid d us s) = brands s"
  "sizes (add_reviews pid d us s) = sizes s" "colours (add_reviews pid d us s) = colours s"
  "brands (add_inventories cols szs pid d s) = brands s"
  "sizes (add_inventories cols szs pid d s) = sizes s"
  "colours (add_inventories cols szs pid d s) = colours s"
  unfolding add_images_def add_reviews_def add_inventories_def
  by (rule fold_keeps, simp add: split_def | rule fold_keeps)+

lemma add_rows_keep_links [simp]:
  "products_categories (add_images pid d s) = products_categories s"
  "products_categories (add_reviews pid d us s) = products_categories s"
  "products_categories (add_inventories cols szs pid d s) = products_categories s"
  unfolding add_images_def add_reviews_def add_inventories_def
  by (rule fold_keeps, simp add: split_def | rule fold_keeps)+

lemma seed_product_row_store_ok:
  assumes "store_ok s" and "dice_ranges d"
  shows "store_ok (seed_product_row cols szs now d index s)"
proof -
  let ?pid = "next_key (map prod_id (products s))"
  let ?b = "query_first (rand_order br_id (pd_brand_key d) (brands s))"
  let ?cs = "take 3 (rand_order cat_id (pd_category_key d) (categories s))"
  let ?us = "take 5 (rand_order usr_id (pd_user_key d) (users s))"
  let ?s1 = "s\<lparr>products := products s @ [seeded_product now index d ?b ?pid],
                products_categories := products_categories s @ map (\<lambda>c. (?pid, cat_id c)) ?cs\<rparr>"
  have pid: "prod_id (seeded_product now index d b p) = p" for b p by (simp add: seeded_product_def Let_def)
  have "store_ok ?s1" using assms(1) next_key_notin [of "map prod_id (products s)"]
    by (auto simp: store_ok_defs pid)
  then have "store_ok (add_reviews ?pid d ?us (add_images ?pid d ?s1))"
    using add_reviews_store_ok assms(2) by simp
  moreover have "?pid \<in> set (map prod_id (products (add_reviews ?pid d ?us (add_images ?pid d ?s1))))"
    by (simp add: pid)
  ultimately show ?thesis
    unfolding seed_product_row_def Let_def by (rule add_inventories_store_ok)
qed

lemma seed_product_store_ok:
  "store_ok s \<Longrightarrow> (\<forall>i < 9. dice_ranges (dice i)) \<Longrightarrow> store_ok (seed_product now dice s)"
  unfolding seed_product_def
  by (auto intro!: fold_invariant_on [where P = store_ok] seed_product_row_store_ok)

lemma seed_run_keeps_store_ok:
  assumes "seed_run env fake now dice s = Inr s'" and "store_ok s" and "\<forall>i < 9. dice_ranges (dice i)"
  shows "store_ok s'"
proof (cases "env = Some ''development''")
  case False with assms(1,2) show ?thesis by (simp add: seed_run_def)
next
  case True
  with assms(1) obtain s1 where u: "seed_user fake s = Inr s1"
    and s': "s' = seed_product now dice (seed_payment (seed_colour (seed_size (seed_brand
                    (seed_category (seed_setting s1))))))"
    by (auto simp: seed_run_def split: sum.splits)
  from seed_user_users_ok [OF u] assms(2) have "store_ok s1"
    using shop_unchanged_store by (auto simp: store_ok_def)
  with s' assms(3) show ?thesis by (simp add: seed_product_store_ok)
qed

subsection \<open>The seeded accounts\<close>

lemma seed_product_row_keeps [simp]:
  "users (seed_product_row cols szs now d i s) = users s"
  "authentications (seed_product_row cols szs now d i s) = authentications s"
  "categories (seed_product_row cols szs now d i s) = categories s"
  "brands (seed_product_row cols szs now d i s) = brands s"
  "sizes (seed_product_row cols szs now d i s) = sizes s"
  "colours (seed_product_row cols szs now d i s) = colours s"
  by (simp_all add: seed_product_row_def Let_def)

lemma seed_product_keeps [simp]:
  "users (seed_product now dice s) = users s"
  "authentications (seed_product now dice s) = authentications s"
  "categories (seed_product now dice s) = categories s"
  "brands (seed_product now dice s) = brands s" "sizes (seed_product now dice s) = sizes s"
  "colours (seed_product now dice s) = colours s"
  unfolding seed_product_def by (simp_all add: fold_keeps)

lemma seed_run_dev:
  assumes "seed_run (Some ''development'') fake now dice s = Inr s'"
  obtains s1 where "seed_user fake s = Inr s1"
    and "s' = seed_product now dice (seed_payment (seed_colour (seed_size (seed_brand
                (seed_category (seed_setting s1))))))"
  using assms by (auto simp: seed_run_def split: sum.splits)

lemma seed_user_empty:
  assumes "users s = []" and "seed_user fake s = Inr s1"
  shows "s1 = fold (\<lambda>i. seed_user_row (fake i)) [0..<10] s \<and> users_insert_check [] (users s1) = None"
proof (cases "users_insert_check [] (users (fold (\<lambda>i. seed_user_row (fake i)) [0..<10] s))")
  case None with assms show ?thesis by (simp add: seed_user_def)
next
  case (Some e) with assms show ?thesis by (simp add: seed_user_def)
qed

lemma seed_user_catalogue:
  assumes "seed_user fake s = Inr s1"
  shows "settings s1 = settings s \<and> categories s1 = categories s \<and> brands s1 = brands s \<and>
         sizes s1 = sizes s \<and> colours s1 = colours s"
  using assms unfolding seed_user_def Let_def
  by (auto split: if_splits option.splits intro: fold_keeps simp: seed_user_row_def add_auth_def)

lemma seed_run_catalogue:
  assumes "seed_run (Some ''development'') fake now dice s = Inr s'"
  shows "categories s' = categories (seed_category s) \<and> brands s' = brands (seed_brand s) \<and>
         sizes s' = sizes (seed_size s) \<and> colours s' = colours (seed_colour s)"
proof -
  obtain s1 where u: "seed_user fake s = Inr s1"
    and s': "s' = seed_product now dice (seed_payment (seed_colour (seed_size (seed_brand
                (seed_category (seed_setting s1))))))"
    using assms by (rule seed_run_dev)
  from seed_user_catalogue [OF u] s' show ?thesis
    by (simp add: seed_category_def seed_brand_def seed_size_def seed_colour_def seed_setting_def)
qed

lemma seed_run_accounts:
  assumes "seed_run (Some ''development'') fake now dice s = Inr s'" and "users s = []"
  shows "users s' = map (\<lambda>i. seeded_user (fake i) (next_user s + i)) [0..<10] \<and>
         authentications s' = authentications s @
           map (\<lambda>i. seeded_auth (fake i) (next_auth s + i) (next_user s + i)) [0..<10] \<and>
         distinct (map email (users s'))"
proof -
  obtain s1 where u: "seed_user fake s = Inr s1"
    and s': "s' = seed_product now dice (seed_payment (seed_colour (seed_size (seed_brand
                (seed_category (seed_setting s1))))))"
    using assms(1) by (rule seed_run_dev)
  from seed_user_empty [OF assms(2) u] have s1: "s1 = fold (\<lambda>i. seed_user_row (fake i)) [0..<10] s"
    and c: "users_insert_check [] (users s1) = None" by blast+
  have d: "distinct (map email (users s1))" using users_insert_check_None [OF c] by simp
  have e: "users s' = users s1" "authentications s' = authentications s1" using s' by simp_all
  have u1: "users s1 = map (\<lambda>i. seeded_user (fake i) (next_user s + i)) [0..<10]"
    "authentications s1 = authentications s @
       map (\<lambda>i. seeded_auth (fake i) (next_auth s + i) (next_user s + i)) [0..<10]"
    using seed_user_rows [of fake 10 s] assms(2) s1 by simp_all
  show ?thesis
  proof (intro conjI)
    show "distinct (map email (users s'))" using d e(1) by simp
  qed (simp_all only: e u1)
qed

lemma seeded_phones:
  "List.map_filter phone (map (\<lambda>i. seeded_user (fake i) (k + i)) xs) = map (\<lambda>i. fu_phone (fake i)) xs"
  by (induction xs) simp_all

lemma seed_user_succeeds:
  assumes "users s = []" and "distinct (map (\<lambda>i. fu_email (fake i)) [0..<10])"
    and "distinct (map (\<lambda>i. fu_phone (fake i)) [0..<10])"
    and "\<forall>i < 10. user_fits (seeded_user (fake i) (next_user s + i))"
  shows "seed_user fake s = Inr (fold (\<lambda>i. seed_user_row (fake i)) [0..<10] s)"
proof -
  let ?s1 = "fold (\<lambda>i. seed_user_row (fake i)) [0..<10] s"
  have u: "users ?s1 = map (\<lambda>i. seeded_user (fake i) (next_user s + i)) [0..<10]"
    using seed_user_rows [of fake 10 s] assms(1) by simp
  have "users_insert_check [] (users ?s1) = None"
  proof (rule users_insert_check_distinct)
    show "\<forall>u \<in> set (users ?s1). user_fits u" using assms(4) u by auto
    show "distinct (map email ([] @ users ?s1))" using assms(2) u by (simp add: comp_def)
    show "distinct (List.map_filter phone ([] @ users ?s1))" using assms(3) u by (simp add: seeded_phones)
  qed
  with assms(1) show ?thesis by (simp add: seed_user_def)
qed

lemma seed_run_exists:
  assumes "users s = []" and "distinct (map (\<lambda>i. fu_email (fake i)) [0..<10])"
    and "distinct (map (\<lambda>i. fu_phone (fake i)) [0..<10])"
    and "\<forall>i < 10. user_fits (seeded_user (fake i) (next_user s + i))"
  shows "\<exists>s'. seed_run (Some ''development'') fake now dice s = Inr s'"
  using seed_user_succeeds [OF assms] by (simp add: seed_run_def)

lemma seed_product_keeps_settings [simp]:
  "settings (seed_product now dice s) = settings s"
  unfolding seed_product_def seed_product_row_def add_images_def add_reviews_def add_inventories_def
  by (simp add: fold_keeps split_def Let_def)

subsection \<open>The home page of the seeded store\<close>

lemma map_err_Inr_ex: "\<forall>x \<in> set xs. \<exists>y. f x = Inr y \<Longrightarrow> \<exists>ys. map_err f xs = Inr ys"
  by (induction xs) (auto split: sum.splits)

lemma product_categories_mem:
  "(prod_id p, cat_id c) \<in> set (products_categories s) \<Longrightarrow> c \<in> set (categories s) \<Longrightarrow>
   c \<in> set (product_categories p s)"
  unfolding product_categories_def by (auto intro!: bexI [of _ "(prod_id p, cat_id c)"])

lemma home_page_Inr:
  assumes "\<forall>p \<in> set (live_products t s). product_categories p s \<noteq> [] \<and> total_rating p \<noteq> 0"
  shows "\<exists>hp. view_home_page t s = Inr hp"
proof -
  have card: "\<exists>y. first_category_card (top_product t s) s p = Inr y" if p: "p \<in> set (live_products t s)" for p
  proof -
    from p have "live_products t s \<noteq> []" by auto
    then obtain q where q: "top_product t s = Some q" and "q \<in> set (live_products t s)"
      using top_product_Some by blast
    with assms have "total_rating q \<noteq> 0" by blast
    moreover obtain c cs where "product_categories p s = c # cs"
      using assms p by (cases "product_categories p s") auto
    ultimately show ?thesis using q by (simp add: first_category_card_def stars_def)
  qed
  have sub: "set (take n (rev xs)) \<subseteq> set xs" "set (take n (order_desc k xs)) \<subseteq> set xs"
    for n xs and k :: "product \<Rightarrow> int"
    by (auto simp: order_desc_def dest: in_set_takeD)
  have all: "\<forall>x \<in> set xs. \<exists>y. first_category_card (top_product t s) s x = Inr y"
    if "set xs \<subseteq> set (live_products t s)" for xs
    using card that by blast
  obtain ps where "map_err (first_category_card (top_product t s) s) (take 4 (rev (live_products t s))) = Inr ps"
    using map_err_Inr_ex [OF all [OF sub(1)]] by blast
  moreover obtain ts where "map_err (first_category_card (top_product t s) s)
      (take 6 (order_desc total_rating (live_products t s))) = Inr ts"
    using map_err_Inr_ex [OF all [OF sub(2)]] by blast
  moreover obtain bs where "map_err (first_category_card (top_product t s) s)
      (take 3 (order_desc total_order (live_products t s))) = Inr bs"
    using map_err_Inr_ex [OF all [OF sub(2)]] by blast
  ultimately show ?thesis by (simp add: view_home_page_def Let_def)
qed

lemma seed_category_nonempty: "categories (seed_category s) \<noteq> []"
  by (simp add: seed_category_def category_items_def insert_row_def)

lemma seed_product_row_rows:
  "products (seed_product_row cols szs now d i s) =
     products s @ [seeded_product now i d (query_first (rand_order br_id (pd_brand_key d) (brands s)))
                     (next_key (map prod_id (products s)))]"
  "products_categories (seed_product_row cols szs now d i s) =
     products_categories s @ map (\<lambda>c. (next_key (map prod_id (products s)), cat_id c))
       (take 3 (rand_order cat_id (pd_category_key d) (categories s)))"
  by (simp_all add: seed_product_row_def Let_def)

lemma seeded_product_sel [simp]:
  "prod_id (seeded_product now i d b pid) = pid" "total_rating (seeded_product now i d b pid) = pd_total_rating d"
  by (simp_all add: seeded_product_def Let_def)

lemma rand_order_rows [simp]:
  "set (rand_order rid key xs) = set xs" "rand_order rid key xs = [] \<longleftrightarrow> xs = []"
  by (simp_all add: rand_order_def flip: length_0_conv)

text \<open>The first rows of a random order of a non-empty table hold at least one of its rows.\<close>

lemma rand_order_take_row:
  assumes "xs \<noteq> []" and "0 < n"
  obtains x where "x \<in> set (take n (rand_order rid key xs))" and "x \<in> set xs"
proof -
  have "take n (rand_order rid key xs) \<noteq> []" using assms by simp
  then obtain x where "x \<in> set (take n (rand_order rid key xs))" by (meson list.set_sel(1))
  moreover from this have "x \<in> set xs" by (auto dest: in_set_takeD)
  ultimately show ?thesis by (rule that)
qed

lemma seed_product_categorised:
  assumes "products s = []" and "categories s \<noteq> []"
    and "\<forall>i < 9. dice_ranges (dice i)"
  shows "\<forall>p \<in> set (products (seed_product now dice s)). total_rating p \<noteq> 0 \<and>
           (\<exists>c \<in> set (categories s). (prod_id p, cat_id c) \<in> set (products_categories (seed_product now dice s)))"
proof -
  let ?C = "categories s"
  let ?P = "\<lambda>t. categories t = ?C \<and> (\<forall>p \<in> set (products t). total_rating p \<noteq> 0 \<and>
              (\<exists>c \<in> set ?C. (prod_id p, cat_id c) \<in> set (products_categories t)))"
  have cats: "categories (seed_product now dice s) = ?C" by simp
  have "?P (fold (\<lambda>index. seed_product_row (colours s) (sizes s) now (dice index) index) [0..<9] s)"
  proof (rule fold_invariant_on [where P = ?P])
    fix i and t :: db assume i: "i \<in> set [0..<9]" and t: "?P t"
    from i assms(3) have "dice_ranges (dice i)" by simp
    then have "pd_total_rating (dice i) \<noteq> 0" by (simp add: dice_ranges_def)
    moreover from t assms(2) obtain c
      where "c \<in> set (take 3 (rand_order cat_id (pd_category_key (dice i)) (categories t)))" and "c \<in> set ?C"
      by (metis rand_order_take_row zero_less_numeral)
    ultimately show "?P (seed_product_row (colours s) (sizes s) now (dice i) i t)"
      using t by (auto simp: seed_product_row_rows)
  qed (use assms(1) in simp)
  with assms(1) show ?thesis by (simp add: seed_product_def)
qed

lemma seed_user_shop: "seed_user fake s = Inr s1 \<Longrightarrow> shop_unchanged s s1"
  using seed_user_cases seed_user_rows_shop by fastforce

subsection \<open>Properties of the start-up\<close>

text \<open>C3: On a freshly created database, a development start-up whose ten Faker users have
  distinct e-mail addresses and phone numbers that fit their columns succeeds, and every
  state that any sequence of requests then reaches satisfies the store invariant
  (\<open>db_wf\<close>, \<open>reviews_ok\<close>, \<open>users_ok\<close>).\<close>

theorem startup_store_ok:
  assumes "distinct (map (\<lambda>i. fu_email (fake i)) [0..<10])"
    and "distinct (map (\<lambda>i. fu_phone (fake i)) [0..<10])"
    and "\<forall>i < 10. user_fits (seeded_user (fake i) (Suc i))" and "\<forall>i < 9. dice_ranges (dice i)"
  shows "\<exists>s'. seed_run (Some ''development'') fake now dice empty_db = Inr s' \<and>
              (\<forall>t. reachable s' t \<longrightarrow> store_ok t)"
proof -
  obtain s' where r: "seed_run (Some ''development'') fake now dice empty_db = Inr s'"
    using seed_run_exists [of empty_db fake now dice] assms(1-3) by (auto simp: empty_db_def)
  have "store_ok empty_db" by (simp add: empty_db_def store_ok_defs)
  with r assms(4) have ok: "store_ok s'" by (blast intro: seed_run_keeps_store_ok)
  have "reachable s' t \<Longrightarrow> store_ok t" for t
    by (induction rule: reachable.induct) (use ok handle_store_ok in blast)+
  with r show ?thesis by blast
qed

text \<open>C19: If two of the ten Faker users share an e-mail address (and every value fits its
  column), the commit of \<open>seed_user\<close> fails on the unique index and the development
  start-up aborts with an integrity error.\<close>

theorem seed_duplicate_email_fails:
  assumes "users s = []" and "\<forall>i < 10. user_fits (seeded_user (fake i) (next_user s + i))"
    and "i < j" and "j < 10" and "fu_email (fake i) = fu_email (fake j)"
  shows "seed_run (Some ''development'') fake now dice s = Inl IntegrityError"
proof -
  let ?s1 = "fold (\<lambda>i. seed_user_row (fake i)) [0..<10] s"
  have u: "users ?s1 = map (\<lambda>i. seeded_user (fake i) (next_user s + i)) [0..<10]"
    using seed_user_rows [of fake 10 s] assms(1) by simp
  have fits: "\<forall>u \<in> set (users ?s1). user_fits u" using assms(2) u by auto
  have "\<not> distinct (map email (users ?s1))"
    using assms(3-5) u by (simp add: distinct_map inj_on_def) force
  then have "users_insert_check [] (users ?s1) \<noteq> None"
    using users_insert_check_None [of "[]" "users ?s1"] by auto
  with users_insert_check_fits [OF fits, of "[]"]
  have "users_insert_check [] (users ?s1) = Some IntegrityError" by blast
  with assms(1) show ?thesis by (simp add: seed_run_def seed_user_def)
qed

text \<open>C21: After a development start-up on a store without users, each of the ten seeded
  users can sign in with the password Qwerty123!: the seeded e-mail confirmation row has
  the column default status 1, which is what login looks for.\<close>

theorem seeded_users_log_in:
  assumes "seed_run (Some ''development'') fake now dice s = Inr s'" and "users s = []" and "i < 10"
  shows "view_auth_login \<lparr>login_email = fu_email (fake i), login_password = ''Qwerty123!''\<rparr> s' =
           Inr (Ok (SignJWT (fu_email (fake i))),
                log_activity (next_user s + i) ''Sign In To Application'' ''Sign In'' ''Sign in to application'' s')"
proof -
  let ?u = "seeded_user (fake i) (next_user s + i)"
  have r: "users s' = map (\<lambda>i. seeded_user (fake i) (next_user s + i)) [0..<10]"
    and a: "authentications s' = authentications s @
           map (\<lambda>i. seeded_auth (fake i) (next_auth s + i) (next_user s + i)) [0..<10]"
    and d: "distinct (map email (users s'))"
    using seed_run_accounts [OF assms(1,2)] by blast+
  have "?u \<in> set (users s')" using r assms(3) by auto
  with d have "find_user_by_email (fu_email (fake i)) s' = Some ?u"
    using find_key_distinct [of email "users s'" ?u] by (simp add: find_user_by_email_def)
  moreover have "seeded_auth (fake i) (next_auth s + i) (next_user s + i) \<in> set (authentications s')"
    using a assms(3) by auto
  then have "sql_count (\<lambda>a. auth_user_id a = next_user s + i \<and> auth_status a = 1 \<and>
                  auth_type a = ''email-confirm'') (authentications s') \<noteq> 0"
    unfolding sql_count_zero by force
  ultimately show ?thesis by (simp add: view_auth_login_def bcrypt_verify_def)
qed

text \<open>C24: Whether the start-up seeds the settings depends on the categories table, not on
  the settings table: the five numeric settings are appended exactly when the store has no
  category, even to existing settings, and a store with categories but no settings keeps
  none.\<close>

theorem seed_settings_follow_categories:
  assumes "seed_run (Some ''development'') fake now dice s = Inr s'"
  shows "settings s' = (if categories s = [] then settings s @ map (\<lambda>(k, v). \<lparr>key_name = k, key_value = of_int v\<rparr>) setting_items
                        else settings s)"
proof -
  obtain s1 where u: "seed_user fake s = Inr s1"
    and s': "s' = seed_product now dice (seed_payment (seed_colour (seed_size (seed_brand
                (seed_category (seed_setting s1))))))"
    using assms by (rule seed_run_dev)
  have "settings s1 = settings s \<and> categories s1 = categories s"
    using seed_user_catalogue [OF u] by simp
  with s' show ?thesis by (simp add: seed_setting_def setting_items_def)
qed

text \<open>C30: After a development start-up on a store without products, the home page succeeds
  at every time: \<open>seed_category\<close> runs before \<open>seed_product\<close>, so the random query of
  each product's categories runs on a non-empty table and links it to at least one of them;
  with its positive rating, no card raises an index or a division error.\<close>

theorem home_page_after_seed:
  assumes "seed_run (Some ''development'') fake now dice s = Inr s'" and "products s = []"
    and "\<forall>i < 9. dice_ranges (dice i)"
  shows "\<exists>hp. view_home_page t s' = Inr hp"
proof -
  obtain s1 where u: "seed_user fake s = Inr s1"
    and s': "s' = seed_product now dice (seed_payment (seed_colour (seed_size (seed_brand
                (seed_category (seed_setting s1))))))"
    using assms(1) by (rule seed_run_dev)
  let ?s0 = "seed_payment (seed_colour (seed_size (seed_brand (seed_category (seed_setting s1)))))"
  have "products ?s0 = []" using seed_user_shop [OF u] assms(2) by (simp add: shop_unchanged_def)
  moreover have "categories ?s0 \<noteq> []" using seed_category_nonempty by simp
  ultimately have "\<forall>p \<in> set (products s'). total_rating p \<noteq> 0 \<and>
      (\<exists>c \<in> set (categories s'). (prod_id p, cat_id c) \<in> set (products_categories s'))"
    using seed_product_categorised [of ?s0 dice now] assms(3) s' by simp
  then have "\<forall>p \<in> set (live_products t s'). product_categories p s' \<noteq> [] \<and> total_rating p \<noteq> 0"
    by (fastforce simp: live_products_def dest: product_categories_mem)
  then show ?thesis by (rule home_page_Inr)
qed

end
