(* ===== verification/Seed_Scenarios.thy ===== *)
theory Seed_Scenarios
  imports Seed
begin

text \<open>
  Concrete draws for the start-up theorems of \<open>Seed\<close>: ten Faker users with distinct
  addresses and phone numbers, one pair of users sharing an address, and product draws
  within the ranges of the random calls (the random order of the brands, categories and
  reviewers given by keys on their ids, with ties).
\<close>

definition demo_names :: "string list" where
  "demo_names = [''ana'', ''budi'', ''citra'', ''dewi'', ''eko'', ''fajar'', ''gita'', ''hadi'',
                 ''intan'', ''joko'']"

definition demo_fake :: "nat \<Rightarrow> fake_user" where
  "demo_fake i =
     \<lparr>fu_gender = 1, fu_first_name_male = ''Budi'', fu_first_name_female = ''Sari'',
      fu_last_name = ''Santoso'', fu_email = demo_names ! i @ ''@example.com'',
      fu_phone = ''0812'' @ demo_names ! i, fu_country = ''Indonesia'', fu_city = ''Bandung'',
      fu_zipcode = ''40111'', fu_address = ''Jl. Merdeka 1'', fu_uuid = ''tok-'' @ demo_names ! i\<rparr>"

definition demo_twin_fake :: "nat \<Rightarrow> fake_user" where
  "demo_twin_fake i = (if i = 1 then demo_fake 0 else demo_fake i)"

definition demo_seed_dice :: "nat \<Rightarrow> product_dice" where
  "demo_seed_dice i =
     \<lparr>pd_brand_key = \<lambda>k. int k, pd_category_key = \<lambda>k. - int k, pd_user_key = \<lambda>k. int (k mod 3),
      pd_image = demo_image ''01'', pd_price = 500, pd_total_order = 100 + int i,
      pd_total_rating = 200, pd_details = ''Details'', pd_description = ''Description'',
      pd_image_at = \<lambda>_. demo_image ''02'', pd_rating = \<lambda>_. 80, pd_review = \<lambda>_. ''Good'',
      pd_stock = \<lambda>_ _. 10\<rparr>"

definition demo_categorised_db :: db where
  "demo_categorised_db = empty_db\<lparr>categories :=
     [\<lparr>cat_id = 1, cat_name = ''Laptop'', cat_image = None, cat_status = 1, displayed = 1\<rparr>]\<rparr>"

lemma demo_fake_draws:
  "distinct (map (\<lambda>i. fu_email (demo_fake i)) [0..<10])"
  "distinct (map (\<lambda>i. fu_phone (demo_fake i)) [0..<10])"
  by (simp_all add: demo_fake_def demo_names_def upt_rec)

lemma demo_fake_fits: "i < 10 \<Longrightarrow> user_fits (seeded_user (demo_fake i) k)"
proof -
  assume "i < 10"
  then have "demo_names ! i \<in> set demo_names" by (intro nth_mem) (simp add: demo_names_def)
  moreover have "\<forall>x \<in> set demo_names. length x \<le> 5" by (simp add: demo_names_def)
  ultimately have "length (demo_names ! i) \<le> 5" by blast
  then show ?thesis by (simp add: user_fits_def seeded_user_def fits_def demo_fake_def Let_def)
qed

lemma demo_seed_dice_ranges: "\<forall>i < 9. dice_ranges (demo_seed_dice i)"
  by (simp add: demo_seed_dice_def dice_ranges_def product_images_def)

lemma demo_seed_run:
  "users s = [] \<Longrightarrow> next_user s = 1 \<Longrightarrow>
   \<exists>s'. seed_run (Some ''development'') demo_fake 5 demo_seed_dice s = Inr s'"
  using seed_run_exists [of s demo_fake] demo_fake_draws demo_fake_fits by simp

subsection \<open>Witnesses\<close>

lemma startup_store_ok_witness:
  "\<exists>s'. seed_run (Some ''development'') demo_fake 5 demo_seed_dice empty_db = Inr s' \<and>
        store_ok (handle (Subscribe ''10.0.0.1'' ''ana@example.com'') s')"
proof -
  have f: "\<forall>i < 10. user_fits (seeded_user (demo_fake i) (Suc i))" using demo_fake_fits by blast
  obtain s' where r: "seed_run (Some ''development'') demo_fake 5 demo_seed_dice empty_db = Inr s'"
    and ok: "\<forall>t. reachable s' t \<longrightarrow> store_ok t"
    using startup_store_ok [OF demo_fake_draws f demo_seed_dice_ranges] by blast
  have "reachable s' (handle (Subscribe ''10.0.0.1'' ''ana@example.com'') s')"
    by (rule reachable.step [OF reachable.init])
  with r ok show ?thesis by blast
qed

lemma seed_duplicate_email_fails_witness:
  "users empty_db = [] \<and>
   (0::nat) < 1 \<and> (1::nat) < 10 \<and> fu_email (demo_twin_fake 0) = fu_email (demo_twin_fake 1) \<and>
   seed_run (Some ''development'') demo_twin_fake 5 demo_seed_dice empty_db = Inl IntegrityError"
proof -
  have f: "\<forall>i < 10. user_fits (seeded_user (demo_twin_fake i) (next_user empty_db + i))"
    using demo_fake_fits by (simp add: demo_twin_fake_def)
  have u: "users empty_db = []" and e: "fu_email (demo_twin_fake 0) = fu_email (demo_twin_fake 1)"
    by (simp_all add: empty_db_def demo_twin_fake_def)
  show ?thesis using seed_duplicate_email_fails [OF u f _ _ e] u f e by simp
qed

lemma seeded_users_log_in_witness:
  "\<exists>s'. seed_run (Some ''development'') demo_fake 5 demo_seed_dice empty_db = Inr s' \<and>
        users empty_db = [] \<and> (3::nat) < 10 \<and>
        view_auth_login \<lparr>login_email = ''dewi@example.com'', login_password = ''Qwerty123!''\<rparr> s' =
          Inr (Ok (SignJWT ''dewi@example.com''),
               log_activity 4 ''Sign In To Application'' ''Sign In'' ''Sign in to application'' s')"
proof -
  have u: "users empty_db = []" "next_user empty_db = 1" by (simp_all add: empty_db_def)
  obtain s' where r: "seed_run (Some ''development'') demo_fake 5 demo_seed_dice empty_db = Inr s'"
    using demo_seed_run [OF u] by blast
  have e: "fu_email (demo_fake 3) = ''dewi@example.com''" by (simp add: demo_fake_def demo_names_def)
  from seeded_users_log_in [OF r u(1), of 3] r u e show ?thesis by auto
qed

lemma seed_settings_follow_categories_witness:
  "\<exists>s'. seed_run (Some ''development'') demo_fake 5 demo_seed_dice demo_categorised_db = Inr s' \<and>
        settings s' = []"
proof -
  have u: "users demo_categorised_db = []" "next_user demo_categorised_db = 1"
    by (simp_all add: demo_categorised_db_def empty_db_def)
  obtain s' where r: "seed_run (Some ''development'') demo_fake 5 demo_seed_dice demo_categorised_db = Inr s'"
    using demo_seed_run [OF u] by blast
  from seed_settings_follow_categories [OF r] r show ?thesis
    by (auto simp: demo_categorised_db_def empty_db_def)
qed

lemma home_page_after_seed_witness:
  "\<exists>s'. seed_run (Some ''development'') demo_fake 5 demo_seed_dice empty_db = Inr s' \<and>
        products empty_db = [] \<and> (\<exists>hp. view_home_page 7 s' = Inr hp)"
proof -
  have u: "users empty_db = []" "next_user empty_db = 1" and p: "products empty_db = []"
    by (simp_all add: empty_db_def)
  obtain s' where r: "seed_run (Some ''development'') demo_fake 5 demo_seed_dice empty_db = Inr s'"
    using demo_seed_run [OF u] by blast
  from home_page_after_seed [OF r p demo_seed_dice_ranges, of 7] r p show ?thesis by blast
qed

end
