(* ===== verification/Spec2Isabelle.thy ===== *)
theory Spec2Isabelle
  imports Account_Scenarios Catalogue_Scenarios Requests Seed_Scenarios
begin

text \<open>
  \<^bold>\<open>A verification development of the online-store backend\<close>
  (\<open>src/backend\<close>: a FastAPI application over a MySQL schema mapped with SQLAlchemy).

  \<^bold>\<open>The program.\<close>  \<open>main.py\<close> mounts five routers.  The storefront's state lives in
  the tables of \<open>src/backend/src/model.py\<close>; every request handler reads some rows,
  computes, writes rows and commits once (twice in the cart handler), and an exception
  before the commit rolls the session back.  The order workflow of
  \<open>src/backend/src/view_order.py\<close> is the part with invariants: a user's open
  ("draft", status 0) order accumulates lines per inventory row, its aggregates are
  updated on every add-to-cart, and checkout prices it from global settings, takes the
  stock, snapshots the billing form and marks it placed (status 1).  The account
  workflow of \<open>view_auth.py\<close> and \<open>view_profile.py\<close> writes the \<open>users\<close> and
  \<open>authentications\<close> tables: registration issues an e-mail-confirm token that
  confirmation spends, login checks the hash and the confirmation, forgot/reset issue
  and spend a reset token, and the profile handlers edit the caller's row.

  \<^bold>\<open>Theories.\<close>
  \<^item> \<open>Prelude\<close>: tables as lists of rows in primary-key order, the query idioms of the
    source (\<open>find\<close> for \<open>.first()\<close>, \<open>last_where\<close> for
    \<open>.order_by(desc(id)).first()\<close>, \<open>update_where\<close>, \<open>delete_where\<close>, \<open>sql_sum\<close>
    with NULL as \<open>None\<close>), \<open>numeric_18_4\<close> (the rounding of a \<open>Numeric(18, 4)\<close>
    column), \<open>py_str_int\<close> (Python's \<open>str\<close> of an int), and the list lemmas the
    components share.
  \<^item> \<open>Store\<close>: one record per table of \<open>model.py\<close> that the handlers touch, the whole
    database \<open>db\<close>, the request bodies of \<open>schema.py\<close>, the errors (\<open>error\<close>: the
    exceptions that abort a request with HTTP 500; \<open>reply\<close>: an explicit HTTP 400),
    the shared queries (\<open>draft_order\<close>, \<open>order_lines\<close>, \<open>log_activity\<close>) and the
    integrity invariant \<open>db_wf\<close> (distinct keys below the auto-increment counters, at
    most one draft per user, at most one line per order and inventory row, lines
    referring to existing orders and inventory rows, drafts with an item count).
  \<^item> \<open>Pricing\<close>: \<open>setting_value\<close> and \<open>quote\<close>, the discount/tax/shipment computation
    that \<open>view_order_initial\<close> and \<open>view_order_checkout_submit\<close> both perform.
  \<^item> \<open>Cart\<close>: \<open>view_order_create_cart\<close>, composed of \<open>cart_order\<close> (find or open the
    draft, \<open>open_order\<close>), \<open>cart_line\<close> (\<open>find_inventory\<close>, \<open>add_line\<close> with
    \<open>merge_line\<close>, \<open>bump_order\<close>) and the activity log, in the handler's order.
    Lemmas: every step keeps \<open>db_wf\<close> (\<open>view_order_create_cart_wf\<close>); a selection
    has exactly one line whose quantity and total accumulate
    (\<open>add_to_cart_merges_line\<close>); the first add-to-cart counts its line twice in the
    order's aggregates (\<open>first_add_to_cart_double_counts\<close>); later adds keep the
    difference between subtotal and lines (\<open>add_to_cart_existing_draft\<close>).
  \<^item> \<open>Checkout\<close>: \<open>view_order_initial\<close> (the quote page) and
    \<open>view_order_checkout_submit\<close>, composed of the per-line loop \<open>checkout_lines\<close>
    (\<open>take_stock\<close>, \<open>count_sale\<close>, \<open>clear_wishlist\<close>), \<open>frozen_order\<close> (the
    totals rounded to \<open>Numeric(18, 4)\<close>), \<open>billing_rows\<close> (the ten billing rows, a
    missing optional field refused by the NOT NULL column) and \<open>place_order\<close>.  The
    failures are checked in the order SQLAlchemy's autoflush and the commit reach the
    database: the unsigned stock column (\<open>unsigned_int_ok\<close>), the caller's user row,
    the unsigned order count, the payment's foreign key, the billing rows.
    Lemmas: checkout keeps \<open>db_wf\<close>; it succeeds on the draft of an existing user with
    a complete form naming an existing payment when the columns can take the order's
    quantities (\<open>checkout_places_order\<close>, \<open>lines_fit_columns\<close>); an unknown payment
    fails on the foreign key and an overdrawn stock on the unsigned column
    (\<open>checkout_unknown_payment_fails\<close>, \<open>checkout_overdrawn_stock_fails\<close>); stock
    and sale counts move by exactly the lines' quantities; it charges what the quote
    page shows, up to the rounding (\<open>checkout_charges_quote\<close>,
    \<open>checkout_paid_rounding\<close>); the divergences of the empty draft, the
    whole-wishlist clearing and the optional billing fields; a second checkout fails.
  \<^item> \<open>Orders\<close>: \<open>view_order_list\<close> (MySQL \<open>LIKE\<close> as \<open>like_match\<close> with
    \<open>%\<close>, \<open>_\<close> and the escape character, \<open>ilike\<close> as \<open>ilike_contains\<close>, paging
    by \<open>LIMIT\<close>/\<open>OFFSET\<close>), \<open>view_order_detail\<close> (\<open>order_carts\<close>, the
    inner join of lines, inventory and products; \<open>billing_map\<close>; the percentages)
    and \<open>view_order_cancel\<close> (\<open>cancel_rows\<close>).  Lemmas: a plain search term is
    substring search (\<open>list_search_substring\<close>) but \<open>_\<close> is a wildcard
    (\<open>list_search_underscore\<close>); pages partition the list; a page below 1 is
    an SQL error; cancel removes the order and keeps \<open>db_wf\<close>, for any caller and
    without restoring stock; the detail of a zero-subtotal order divides by zero.
  \<^item> \<open>Wishlist\<close>: \<open>view_order_wishlist\<close> (\<open>set_wishlist\<close>, the assignment
    \<open>product.users = [user]\<close>) and \<open>view_order_session\<close>.  Lemmas: the caller
    becomes the product's only wisher (\<open>wishlist_replaces_holders\<close>); the session
    shows what was wished (\<open>wishlist_then_session\<close>).
  \<^item> \<open>Reviews\<close>: \<open>view_order_create_review\<close> (schema check, product lookup, the
    unsigned rating column) and \<open>view_order_review\<close> (\<open>top_rating\<close>,
    \<open>review_entry\<close>), with the review table's invariant \<open>reviews_ok\<close>.  Lemmas:
    creation stores one review and keeps \<open>reviews_ok\<close>; out-of-range ratings fail at
    the commit; percentages lie in 0..100; a product rated only 0 breaks the page.
  \<^item> \<open>Auth\<close>: the five handlers of \<open>view_auth.py\<close> over the \<open>users\<close> and
    \<open>authentications\<close> tables: \<open>view_auth_register\<close> (schema lengths, duplicate
    e-mail, password match, the password policy as a parameter \<open>pol\<close>, the name split
    by \<open>py_split\<close>/\<open>py_join\<close> in \<open>split_name\<close>, the VARCHAR limits \<open>fits\<close>, the new
    user and its e-mail-confirm token), \<open>view_auth_confirm\<close> and
    \<open>view_auth_email_reset\<close> (token lookup, \<open>consume_token\<close>), \<open>view_auth_login\<close>
    and \<open>view_auth_email_forgot\<close>; bcrypt is the injective hash \<open>Bcrypt\<close>, uuid4 a token
    parameter, \<open>signJWT\<close> the value \<open>SignJWT\<close>.  The accounts' invariant
    \<open>users_ok\<close> (distinct ids, e-mails and phones, tokens referring to users) is kept
    by every handler.  Lemmas: a registered and confirmed user can never sign in
    (\<open>register_confirm_login_fails\<close>); a successful reset stores no password
    (\<open>reset_keeps_password\<close>); a reset token confirms an account
    (\<open>forgot_token_confirms\<close>); the stored names give back the submitted name
    (\<open>register_name_roundtrip\<close>).
  \<^item> \<open>Profile\<close>: \<open>view_profile_update\<close> (uniqueness checks, column limits
    \<open>profile_fits\<close>, \<open>set_profile\<close>), the database write of
    \<open>view_profile_upload\<close>, \<open>view_profile_password\<close> and \<open>view_profile_activity\<close>
    (\<open>activity_rows\<close>, the join-less cross product).  Lemmas: the activity page
    lists every user's activities (\<open>activity_lists_everyone\<close>); a gender longer than
    two characters fails (\<open>update_gender_too_long\<close>); an update keeps e-mails and
    phones unique (\<open>update_profile_unique\<close>, by the Prelude lemma
    \<open>distinct_map_filter_update_where\<close>); any password of eight characters can be set
    and then verifies (\<open>password_change_roundtrip\<close>).
  \<^item> \<open>Catalogue\<close>: the read-only views of \<open>view_home.py\<close> and \<open>view_shop.py\<close>
    (\<open>view_home_component\<close>, \<open>view_home_page\<close>, \<open>view_shop_filter\<close>,
    \<open>view_shop_list\<close>), the product page \<open>view_order_list_cart\<close> of
    \<open>view_order.py\<close> and the newsletter subscription \<open>view_newsletter\<close>: published
    products (\<open>published\<close>, \<open>live_products\<close>, \<open>top_product\<close>), product cards
    (\<open>stars\<close>, \<open>price_old\<close> with the float \<open>Decimal(0.05)\<close>, the first or all
    category names), Python's \<open>int()\<close> on the id lists (\<open>py_int\<close>, \<open>parse_ids\<close>)
    and the filtered rows of the shop list (\<open>shop_rows\<close>, \<open>category_join\<close>).
    Lemmas: a newest product without a category breaks the home page
    (\<open>home_page_needs_category\<close>); the category filter counts join rows while the
    page lists each product once (\<open>shop_list_counts_rows\<close>).
  \<^item> \<open>Requests\<close>: the state-changing requests of the order, review, authentication
    profile and newsletter routers as the datatype \<open>request\<close>, the step \<open>handle\<close> (a failed
    request commits nothing: \<open>commit\<close>), \<open>run\<close> for a sequence and the inductive
    \<open>reachable\<close>; \<open>handle_store_ok\<close>: every request keeps \<open>store_ok\<close>
    (\<open>db_wf\<close>, \<open>reviews_ok\<close> and \<open>users_ok\<close>).  The order handlers leave the
    account tables alone (\<open>accounts\<close> is unchanged) and the account handlers the shop's
    tables (\<open>shop_unchanged\<close>), so each invariant is carried by frame lemmas.
  \<^item> \<open>Seed\<close>: the start-up of \<open>main.py\<close> (lines 26--29) and \<open>Seed.run\<close> of
    \<open>seed.py\<close>: \<open>seed_user\<close> (ten users and their e-mail-confirm rows,
    \<open>seed_user_row\<close>, with the commit's column and unique checks
    \<open>users_insert_check\<close>), \<open>seed_setting\<close>, \<open>seed_category\<close>, \<open>seed_brand\<close>,
    \<open>seed_size\<close>, \<open>seed_colour\<close>, \<open>seed_payment\<close> and \<open>seed_product\<close> (nine
    products, each with its categories, three images, its reviews and one inventory
    row per colour and size: \<open>seed_product_row\<close>), composed in \<open>seed_run\<close> in the
    order of \<open>run\<close>; \<open>empty_db\<close> is the freshly created schema.  Faker's and
    \<open>random\<close>'s values are parameters (\<open>fake\<close>, \<open>dice\<close>) constrained only by what the
    calls can return (\<open>dice_ranges\<close>); a query ordered by \<open>func.rand()\<close> is
    \<open>rand_order\<close>, the rows of the table as it is when the query runs sorted by random
    keys the draw gives their ids (\<open>pd_brand_key\<close>, \<open>pd_category_key\<close>,
    \<open>pd_user_key\<close>), so any order of the rows is a possible draw; a row without a counter of
    the model gets the next auto-increment key (\<open>insert_row\<close>, \<open>next_key\<close> in
    \<open>Prelude\<close>).  Lemmas: the start-up on a fresh database succeeds for distinct
    draws and every reachable state keeps \<open>store_ok\<close> (\<open>startup_store_ok\<close>, from
    \<open>seed_run_keeps_store_ok\<close> and \<open>handle_store_ok\<close>); a repeated Faker e-mail
    aborts it (\<open>seed_duplicate_email_fails\<close>); seeded users can sign in, unlike
    registered ones (\<open>seeded_users_log_in\<close>); settings are seeded according to the
    categories table (\<open>seed_settings_follow_categories\<close>); the seeded home page
    never fails because the categories are seeded before the products
    (\<open>home_page_after_seed\<close>).
  \<^item> \<open>Scenarios\<close>, \<open>Account_Scenarios\<close>, \<open>Catalogue_Scenarios\<close> and
    \<open>Seed_Scenarios\<close>: demo stores (customers 7, 8 and 9 with one payment method, two
    products and two drafts; the accounts of Ada and Bob; one with categories), concrete Faker and random draws, and the witnesses that run
    the theorems on them.
  \<^item> This theory: the properties across handlers.  \<open>store_ok\<close> holds in every
    reachable state (\<open>reachable_store_ok\<close>, by rule induction), reachability is
    running a request sequence (\<open>reachable_iff_run\<close>), a first cart checked out is
    charged twice (\<open>cart_then_checkout_double_charge\<close>), and a checkout empties
    the session (\<open>checkout_then_session_empty\<close>).

  \<^bold>\<open>Modelling choices.\<close>  Python \<open>Decimal\<close> arithmetic is exact on the operations
  the handlers use and is modelled as \<open>rat\<close>; writes of computed amounts to
  \<open>Numeric(18, 4)\<close> columns are rounded by \<open>numeric_18_4\<close> where the amount can have
  more than four decimals (cart amounts are integer multiples of a stored price and
  are unaffected: \<open>numeric_18_4_of_int_scaled\<close>).  Python ints are \<open>int\<close>; ids are
  \<open>nat\<close>.  The clock (\<open>ticks\<close>) and the authenticated user id are parameters.
  Timestamps, JSON encoding, the JWT check and the HTTP plumbing are not modelled.
  MySQL's range check on an unsigned column (strict mode, \<open>RangeError\<close>) is modelled
  on the review rating and on checkout's stock and order-count writes; the add-to-cart
  quantity is an unbounded \<open>int\<close> (the handler checks no range, and no claim
  depends on a quantity past \<open>2^32\<close>).  Foreign keys are checked where a handler
  writes a user-supplied id that nothing looks up (the checkout's payment id); the
  cart's \<open>orders.user_id\<close> is the authenticated caller, whose row exists.
  Setting strings are not parsed: a setting's value is the number it parses to.
  Requests are run one after the other, as one worker on one connection runs
  them: the claims on sequences of requests (\<open>reachable_store_ok\<close>, the start-up)
  do not cover two transactions interleaving.  E-mail addresses are compared by
  equality, where the MySQL column's default collation compares them ignoring case;
  bcrypt, which reads only the first 72 bytes of a password, is the injective
  \<open>Bcrypt\<close>: both matter only for inputs no claim uses.
  No loop of the modelled code is unbounded: every loop iterates over the rows of a
  query, so every definition is a total function and no fuel is needed; the one
  recursion that is not structural, the LIKE matcher, is a \<open>function\<close> with a
  termination proof by a lexicographic measure on the lengths of pattern and text.
  A request whose handler commits twice (the profile update writes the user and then
  the activity) is one step: the second commit cannot fail once the first succeeded.

  \<^bold>\<open>Not modelled.\<close>  The catalogue cards' \<open>newest\<close> and \<open>discount\<close> flags are
  random draws; \<open>ping\<close> returns a constant.  Of \<open>main.py\<close> the table creation,
  the seeding and the routers are modelled; CORS, the \<open>uploads\<close> directory and the
  static mount are HTTP plumbing.  The seeded settings whose value is a text (the
  company's address data and the discount dates) have no numeric value and are not rows
  of the model's settings table; descriptions written by the seeder are not columns of
  the model's records.  \<open>auth.py\<close>,
  \<open>security.py\<close> and \<open>database.py\<close> are not in the repository: the caller's id
  is a parameter of every handler, \<open>view_profile_me\<close> only echoes it.  The uploaded
  file itself, timestamps and \<open>expired_at\<close> (written, never read) are not modelled.
  In \<open>view_order_list\<close>, \<open>view_profile_activity\<close> and \<open>view_shop_list\<close> the sort clause is free SQL
  text interpolated from the request and is fixed to its default (id descending);
  \<open>Decimal\<close> division (28 significant digits) is modelled as exact division (the
  review percentage, a ceiling, is unaffected); the \<open>EmailStr\<close> syntax check is
  not modelled.
\<close>

section \<open>Properties across the handlers\<close>

text \<open>
  C27: from a store satisfying \<open>store_ok\<close> (the tables' integrity \<open>db_wf\<close>, with at
  most one draft per user, the review table's \<open>reviews_ok\<close> and the account tables'
  \<open>users_ok\<close>), every state that any sequence of order, review, authentication,
  profile and newsletter requests reaches satisfies it too, whichever requests fail.
\<close>

theorem reachable_store_ok:
  assumes "store_ok s0" and "reachable s0 s"
  shows "store_ok s"
  using assms(2,1) by (induction rule: reachable.induct) (auto intro: handle_store_ok)

text \<open>
  The reachable states are exactly the results of running a finite sequence of
  requests, one after the other, from the initial store.
\<close>

theorem reachable_iff_run: "reachable s0 s \<longleftrightarrow> (\<exists>rs. s = run rs s0)"
proof
  assume "reachable s0 s"
  then show "\<exists>rs. s = run rs s0"
  proof (induction rule: reachable.induct)
    case init
    have "s0 = run [] s0" by simp
    then show ?case ..
  next
    case (step s r)
    from step.IH obtain rs where "s = run rs s0" ..
    then have "handle r s = run (rs @ [r]) s0" by simp
    then show ?case ..
  qed
next
  assume "\<exists>rs. s = run rs s0"
  then obtain rs where s: "s = run rs s0" ..
  have "reachable s0 (run rs s0)"
  proof (induction rs rule: rev_induct)
    case Nil then show ?case by (simp add: reachable.init)
  next
    case (snoc r rs) then show ?case by (simp add: reachable.step)
  qed
  with s show "reachable s0 s" by simp
qed

text \<open>
  C29: a user without an open order who adds one product to the cart and checks out
  is charged for twice the cart: the placed order's subtotal is twice its lines'
  total, and the amount to pay is the quote of that doubled subtotal.
\<close>

theorem cart_then_checkout_double_charge:
  assumes wf: "db_wf s" and nd: "draft_order uid s = None"
    and pr: "find_product pid s = Some pr"
    and item: "find_inventory pid (form_size_id f) (form_colour_id f) s = Some item"
    and c: "view_order_create_cart uid pid f t s = Inr (r1, s1)"
    and k: "view_order_checkout_submit uid g s1 = Inr (r2, s2)"
  shows "subtotal r2 = 2 * cart_amount f pr \<and> lines_total (ord_id r2) s2 = cart_amount f pr \<and>
         total_paid r2 = numeric_18_4 (q_total_paid (quote (2 * cart_amount f pr) (settings s)))"
proof -
  obtain r s1' n where o: "cart_order uid f t pr s = (r, s1')" and wf1: "db_wf s1'"
    and d1: "details s1' = details s" and n: "total_item r = Some n"
    and r1: "r1 = r\<lparr>total_item := Some (n + form_qty f), subtotal := subtotal r + cart_amount f pr,
                  total_paid := total_paid r + cart_amount f pr\<rparr>"
    and d': "details s1 = details (add_line r item (price pr) (form_qty f) (cart_amount f pr) s1')"
    using view_order_create_cart_found [OF wf c pr item] by metis
  from o nd have r: "ord_id r = next_order s" "subtotal r = cart_amount f pr"
    by (auto simp: cart_order_def open_order_def Let_def)
  have "lines_total (ord_id r) s1 = lines_total (ord_id r) s1' + cart_amount f pr"
    using lines_total_details_eq [OF d'] add_line_lines_total [OF wf1] by simp
  also have "lines_total (ord_id r) s1' = 0"
    using lines_total_details_eq [OF d1] fresh_order_no_lines [OF wf] r(1) by simp
  finally have lt: "lines_total (ord_id r1) s1 = cart_amount f pr" by (simp add: r1)
  have dr: "draft_order uid s1 = Some r1" by (rule view_order_create_cart_draft [OF wf c pr item])
  from k obtain r0 s3 bs where "draft_order uid s1 = Some r0"
    and l: "checkout_lines uid (order_lines (ord_id r0) s1) s1 = Inr s3"
    and r2: "r2 = frozen_order r0 (settings s1) (order_lines (ord_id r0) s1) (form_payment_id g)"
    and s2: "s2 = checkout_log uid (place_order r0 r2 bs s3)"
    by (rule view_order_checkout_submit_Inr)
  with dr have r0: "r0 = r1" by simp
  from checkout_lines_frame [OF l] s2 have "details s2 = details s1" by simp
  then have "lines_total (ord_id r2) s2 = lines_total (ord_id r2) s1"
    by (rule lines_total_details_eq)
  moreover have "ord_id r2 = ord_id r1" by (simp add: r2 r0)
  ultimately have "lines_total (ord_id r2) s2 = cart_amount f pr" using lt by simp
  moreover have "settings s1 = settings s" using view_order_create_cart_untouched [OF c] by simp
  moreover have "subtotal r1 = 2 * cart_amount f pr" by (simp add: r1 r(2))
  moreover have "subtotal r2 = subtotal r1" by (simp add: r2 r0)
  moreover have "total_paid r2 = numeric_18_4 (q_total_paid (quote (subtotal r1) (settings s1)))"
    by (simp add: r2 r0 frozen_order_total_paid)
  ultimately show ?thesis by simp
qed

text \<open>
  After checking out an order with at least one line, the user's session shows no
  open order, no cart lines and an empty wishlist.
\<close>

theorem checkout_then_session_empty:
  assumes wf: "db_wf s" and d: "draft_order uid s = Some r"
    and ne: "order_lines (ord_id r) s \<noteq> []"
    and k: "view_order_checkout_submit uid f s = Inr (r', s')"
  shows "view_order_session uid s' = \<lparr>ss_carts = [], ss_order = None, ss_wishlists = []\<rparr>"
proof -
  from k obtain r0 s1 bs where "draft_order uid s = Some r0"
    and l: "checkout_lines uid (order_lines (ord_id r0) s) s = Inr s1"
    and r': "r' = frozen_order r0 (settings s) (order_lines (ord_id r0) s) (form_payment_id f)"
    and s': "s' = checkout_log uid (place_order r0 r' bs s1)"
    by (rule view_order_checkout_submit_Inr)
  with d have r0: "r0 = r" by simp
  from checkout_lines_frame [OF l] have "orders s1 = orders s" by simp
  from place_order_no_draft [OF wf d this] have nod: "draft_order uid s' = None"
    by (simp add: s' r' r0)
  have "wishlists s1 = filter (\<lambda>(pid, u). u \<noteq> uid) (wishlists s)"
    using checkout_lines_wishlists [OF l] ne r0 by simp
  then have "wishlist_products uid s' = []"
    by (auto simp: wishlist_products_def s' filter_empty_conv place_order_def log_activity_def)
  with nod show ?thesis by (simp add: view_order_session_def)
qed

subsection \<open>Witnesses\<close>

lemma demo_store_ok: "store_ok demo_db"
  by (simp add: store_ok_def demo_db_wf demo_reviews_ok demo_users_ok)

theorem reachable_store_ok_witness:
  "store_ok demo_db \<and> reachable demo_db (run [AddToCart 8 1 (demo_cart_form 2) 99, CancelOrder 2 7] demo_db) \<and>
   store_ok (run [AddToCart 8 1 (demo_cart_form 2) 99, CancelOrder 2 7] demo_db)"
proof -
  have "reachable demo_db (handle (CancelOrder 2 7) (handle (AddToCart 8 1 (demo_cart_form 2) 99) demo_db))"
    by (intro reachable.step reachable.init)
  then have r: "reachable demo_db (run [AddToCart 8 1 (demo_cart_form 2) 99, CancelOrder 2 7] demo_db)"
    by (simp add: run_def)
  from reachable_store_ok [OF demo_store_ok r] r demo_store_ok show ?thesis by blast
qed

theorem cart_then_checkout_double_charge_witness:
  "\<exists>r1 s1 r2 s2. view_order_create_cart 8 1 (demo_cart_form 2) 99 demo_db = Inr (r1, s1) \<and>
     view_order_checkout_submit 8 (demo_checkout_form (Some ''ring twice'')) s1 = Inr (r2, s2) \<and>
     subtotal r2 = 1000 \<and> lines_total (ord_id r2) s2 = 500"
proof -
  have "\<exists>r1 s1 r2 s2. view_order_create_cart 8 1 (demo_cart_form 2) 99 demo_db = Inr (r1, s1) \<and>
      view_order_checkout_submit 8 (demo_checkout_form (Some ''ring twice'')) s1 = Inr (r2, s2)"
    by (simp add: demo_cart_simps demo_checkout_simps)
  then obtain r1 s1 r2 s2 where c: "view_order_create_cart 8 1 (demo_cart_form 2) 99 demo_db = Inr (r1, s1)"
    and k: "view_order_checkout_submit 8 (demo_checkout_form (Some ''ring twice'')) s1 = Inr (r2, s2)"
    by blast
  have nd: "draft_order 8 demo_db = None"
    by (simp add: demo_defs draft_order_def last_where_def is_draft_of_def)
  from cart_then_checkout_double_charge [OF demo_db_wf nd demo_find_laptop demo_find_inventory c k]
  have "subtotal r2 = 2 * cart_amount (demo_cart_form 2) demo_laptop"
    and "lines_total (ord_id r2) s2 = cart_amount (demo_cart_form 2) demo_laptop" by simp_all
  with c k show ?thesis by (auto simp: demo_defs)
qed

theorem checkout_then_session_empty_witness:
  "\<exists>r' s'. view_order_checkout_submit 7 (demo_checkout_form (Some ''ring twice'')) demo_db = Inr (r', s') \<and>
     view_order_session 7 s' = \<lparr>ss_carts = [], ss_order = None, ss_wishlists = []\<rparr>"
proof -
  obtain r' s' where ok: "view_order_checkout_submit 7 (demo_checkout_form (Some ''ring twice'')) demo_db = Inr (r', s')"
    using demo_checkout_eval by blast
  have "order_lines (ord_id demo_draft) demo_db \<noteq> []" by (simp add: demo_defs order_lines_def)
  from checkout_then_session_empty [OF demo_db_wf demo_draft_7 this ok] ok show ?thesis by blast
qed

end
